theory Spec2Isabelle
  imports Complex_Main "HOL-Library.Word"
begin

section \<open>Numbers, errors and loops\<close>

text \<open>
  The control code of \<^verbatim>\<open>AOloopControl.c\<close> computes on C \<^verbatim>\<open>float\<close>, \<^verbatim>\<open>double\<close> and
  \<^verbatim>\<open>long double\<close> values held in shared-memory images. Their arithmetic is embedded as
  arithmetic on \<^typ>\<open>real\<close>: rounding, overflow and the non-finite values are left out.
  The kernels whose behaviour on NaN matters (the modal integrator update, the clip pass, the
  modal integrator of \<^verbatim>\<open>AOcompute\<close>, the NaN replacement loop and the direct integrator) are
  polymorphic in the number type and are also run on the type \<open>fl\<close> below, which adds NaN to
  the reals.

  C \<^verbatim>\<open>long\<close> indices that may become negative are \<^typ>\<open>int\<close>; sizes and loop counters that
  only count upwards from zero are \<^typ>\<open>nat\<close>. The write flag, the update counters and the
  semaphores of the image streams carry no data of the computation and are not part of the
  state, except for the counters of the DM command stream.
\<close>

datatype error = OutOfBounds | CouldNotLoad | DataTypeNotSupported

text \<open>\<^verbatim>\<open>for(m=0; m<n; m++) body\<close>\<close>

definition for_loop :: "nat \<Rightarrow> (nat \<Rightarrow> 's \<Rightarrow> 's) \<Rightarrow> 's \<Rightarrow> 's" where
  "for_loop n body s = fold body [0..<n] s"

text \<open>\<^verbatim>\<open>(long) x\<close> on a floating-point value truncates towards zero.\<close>

definition long_of_float :: "real \<Rightarrow> int" where
  "long_of_float x = (if 0 \<le> x then \<lfloor>x\<rfloor> else \<lceil>x\<rceil>)"

text \<open>A floating-point number that is either NaN or a finite real. Every operation with a NaN
  operand is NaN, and every comparison with a NaN operand is false.\<close>

datatype fl = NaN | Fin real

instantiation fl :: "{zero,plus,minus,uminus,times,ord}"
begin

definition zero_fl :: fl where
  "zero_fl = Fin 0"

fun plus_fl :: "fl \<Rightarrow> fl \<Rightarrow> fl" where
  "plus_fl (Fin a) (Fin b) = Fin (a + b)"
| "plus_fl _ _ = NaN"

fun minus_fl :: "fl \<Rightarrow> fl \<Rightarrow> fl" where
  "minus_fl (Fin a) (Fin b) = Fin (a - b)"
| "minus_fl _ _ = NaN"

fun times_fl :: "fl \<Rightarrow> fl \<Rightarrow> fl" where
  "times_fl (Fin a) (Fin b) = Fin (a * b)"
| "times_fl _ _ = NaN"

fun uminus_fl :: "fl \<Rightarrow> fl" where
  "uminus_fl (Fin a) = Fin (- a)"
| "uminus_fl NaN = NaN"

fun less_fl :: "fl \<Rightarrow> fl \<Rightarrow> bool" where
  "less_fl (Fin a) (Fin b) = (a < b)"
| "less_fl _ _ = False"

fun less_eq_fl :: "fl \<Rightarrow> fl \<Rightarrow> bool" where
  "less_eq_fl (Fin a) (Fin b) = (a \<le> b)"
| "less_eq_fl _ _ = False"

instance ..

end

text \<open>\<^verbatim>\<open>isnan(x)\<close>: NaN is the only value that does not compare equal-or-less to itself.\<close>

definition isnan :: "'a::ord \<Rightarrow> bool" where
  "isnan x = (\<not> x \<le> x)"


section \<open>The loop configuration and the shared-memory streams\<close>

text \<open>The fields of \<^verbatim>\<open>AOconf[loop]\<close> that the control cycle reads or writes.\<close>

record AOLOOPCONTROL_CONF =
  gain :: real
  mult :: real
  maxlimit :: real
  ARPFon :: int
  ARPFgain :: real
  AUTOTUNE_LIMITS_ON :: int
  AUTOTUNE_LIMITS_delta :: real
  AUTOTUNE_LIMITS_perc :: real
  AUTOTUNE_LIMITS_mcoeff :: real
  AUTOTUNE_GAINS_ON :: int
  AUTOTUNEGAIN_evolTimescale :: real
  loopfrequ :: real
  hardwlatency_frame :: real
  wfsmextrlatency_frame :: real
  DMmodesNBblock :: nat
  AveStats_NBpt :: int
  blockave_OLrms :: "real list"
  blockave_Crms :: "real list"
  blockave_WFSrms :: "real list"
  blockave_limFrac :: "real list"
  ALLave_OLrms :: real
  ALLave_Crms :: real
  ALLave_WFSrms :: real
  ALLave_limFrac :: real
  status :: int
  statusM :: int
  statusM1 :: int
  CMMODE :: int
  DMprimaryWrite_ON :: int
  GPU1 :: int
  sizeDM :: nat
  NBDMmodes :: nat
  sizeWFS :: nat
  WFSnormfloor :: real
  WFStotalflux :: real
  AOLCOMPUTE_TOTAL_ASYNC :: int
  WFScnt :: int
  WFScntRM :: int
  DMupdatecnt :: int
  cnt :: int
  cntmax :: int
  loop_on :: int

text \<open>Every function works on \<^verbatim>\<open>AOconf[loop]\<close> and on the images it is connected to.\<close>

record shm_base =
  AOconf :: AOLOOPCONTROL_CONF


section \<open>\<^verbatim>\<open>AOloopControl_ComputeOpenLoopModes\<close>\<close>

text \<open>The shared-memory images the function is connected to. \<open>modeval\<close> is the WFS
  measurement \<^verbatim>\<open>aol_modeval\<close>, \<open>modeval_ol\<close> the output image \<^verbatim>\<open>IDout\<close>, \<open>modevalDM_C\<close> the
  circular buffer, stored flat with slot \<open>i\<close> of mode \<open>m\<close> at index \<open>i * NBmodes + m\<close>.
  \<open>aoconfID_LIMIT_modes\<close> and \<open>aoconfID_MULTF_modes\<close> are the image identifiers after the
  connection attempt (\<open>-1\<close>: not found), \<open>modevalPF_ID\<close> what \<^verbatim>\<open>read_sharedmem_image\<close>
  returns for the predictive-filter image \<^verbatim>\<open>aol_modevalPF\<close>; \<open>DMmodes_size2\<close> lists the third dimension of the
  block images \<^verbatim>\<open>aol_DMmodes00\<close>, \<^verbatim>\<open>aol_DMmodes01\<close>, ... that exist.\<close>

record olm_shm = shm_base +
  gainb :: "real list"
  multfb :: "real list"
  limitb :: "real list"
  GAIN_modes :: "real list"
  MULTF_modes :: "real list"
  LIMIT_modes :: "real list"
  aoconfID_LIMIT_modes :: int
  aoconfID_MULTF_modes :: int
  DMmodes_size2 :: "nat list"
  modeval :: "real list"
  modevalPF_ID :: int
  modevalPF :: "real list"
  modeval_ol :: "real list"
  blknb :: "nat list"
  modevalDMnow :: "real list"
  modevalDMnowfilt :: "real list"
  modevalDM :: "real list"
  modevalDM_C :: "real list"
  atlimbcoeff :: "real list"

text \<open>The local variables of the function that live across iterations.\<close>

record olm_locals =
  NBmodes :: nat
  modeblock :: "nat list"
  blockNBmodes :: "nat list"
  FILTERMODE :: int
  framelatency0 :: int
  framelatency1 :: int
  alpha :: real
  IDmodevalPF :: int
  modegain :: "real list"
  modemult :: "real list"
  modelimit :: "real list"
  modevalDMindex :: int
  modevalDMindexl :: int
  modevalDMindex0 :: int
  modevalDMindex1 :: int
  limitblockarray :: "real list"
  blockstatcnt :: int
  blockaveOLrms :: "real list"
  blockaveCrms :: "real list"
  blockaveWFSrms :: "real list"
  blockavelimFrac :: "real list"
  allaveOLrms :: real
  allaveCrms :: real
  allaveWFSrms :: real
  allavelimFrac :: real

text \<open>\<^verbatim>\<open>long modevalDM_bsize = 20; // circular buffer size\<close>\<close>

definition modevalDM_bsize :: int where
  "modevalDM_bsize = 20"


subsection \<open>The stages of one iteration\<close>

text \<open>\<^verbatim>\<open>// write gain, mult, limit into arrays\<close>\<close>

definition write_gain_mult_limit :: "olm_shm \<Rightarrow> olm_locals \<Rightarrow> olm_locals" where
  "write_gain_mult_limit sh lc =
     for_loop (NBmodes lc) (\<lambda>m l. l\<lparr>
        modegain := (modegain l)[m := gain (AOconf sh) * gainb sh ! (modeblock l ! m) * GAIN_modes sh ! m],
        modemult := (modemult l)[m := mult (AOconf sh) * multfb sh ! (modeblock l ! m) * MULTF_modes sh ! m],
        modelimit := (modelimit l)[m := limitb sh ! (modeblock l ! m) * LIMIT_modes sh ! m]\<rparr>) lc"

text \<open>\<^verbatim>\<open>current state = modemult x ( last state - modegain * WFSmodeval )\<close>, where the last state
  is slot \<open>il\<close> (\<^verbatim>\<open>modevalDMindexl\<close>) of the circular buffer \<open>ring\<close>.\<close>

definition update_modevalDMnow ::
  "nat \<Rightarrow> ('a::{times,minus}) list \<Rightarrow> 'a list \<Rightarrow> 'a list \<Rightarrow> int \<Rightarrow> 'a list \<Rightarrow> 'a list \<Rightarrow> 'a list" where
  "update_modevalDMnow n mmult mgain ring il meas dmnow =
     for_loop n (\<lambda>m a. a[m := mmult ! m * (ring ! nat (il * int n + int m) - mgain ! m * meas ! m)]) dmnow"

definition update_dm_state :: "olm_shm \<Rightarrow> olm_locals \<Rightarrow> olm_shm" where
  "update_dm_state sh lc =
     sh\<lparr>modevalDMnow :=
          update_modevalDMnow (NBmodes lc) (modemult lc) (modegain lc) (modevalDM_C sh)
            (modevalDMindexl lc) (modeval sh) (modevalDMnow sh)\<rparr>"

text \<open>A slot index of the circular buffer is read or written for every mode \<open>m < n\<close>; the
  accesses stay inside the buffer of \<open>modevalDM_bsize\<close> slots exactly when the slot index is
  in range. An access outside is the error \<open>OutOfBounds\<close>.\<close>

definition slot_ok :: "nat \<Rightarrow> int \<Rightarrow> bool" where
  "slot_ok n i = (n = 0 \<or> (0 \<le> i \<and> i < modevalDM_bsize))"

text \<open>\<^verbatim>\<open>MIX PREDICTION WITH CURRENT DM STATE\<close>\<close>

definition mix_prediction :: "olm_shm \<Rightarrow> olm_locals \<Rightarrow> olm_shm \<times> olm_locals" where
  "mix_prediction sh lc =
     (if ARPFon (AOconf sh) = 1 then
        (if IDmodevalPF lc = - 1 then (sh, lc\<lparr>IDmodevalPF := modevalPF_ID sh\<rparr>)
         else (sh\<lparr>modevalDMnow :=
                 for_loop (NBmodes lc)
                   (\<lambda>m a. a[m := - ARPFgain (AOconf sh) * modevalPF sh ! m
                                  + (1 - ARPFgain (AOconf sh)) * a ! m])
                   (modevalDMnow sh)\<rparr>, lc))
      else (sh, lc))"

text \<open>\<^verbatim>\<open>modevalDMnowfilt[m] = modevalDMnow[m]\<close>\<close>

definition copy_to_filt :: "olm_shm \<Rightarrow> olm_locals \<Rightarrow> olm_shm" where
  "copy_to_filt sh lc =
     sh\<lparr>modevalDMnowfilt :=
          for_loop (NBmodes lc) (\<lambda>m a. a[m := modevalDMnow sh ! m]) (modevalDMnowfilt sh)\<rparr>"

text \<open>\<^verbatim>\<open>if(AOconf[loop].AUTOTUNE_LIMITS_ON==1) // automatically adjust modal limits\<close>.
  The first loop of the body is \<open>autotune_modes\<close>, the second \<open>autotune_blocks\<close>.\<close>

definition autotune_modes :: "olm_shm \<Rightarrow> olm_locals \<Rightarrow> real list \<Rightarrow> real list \<times> real list" where
  "autotune_modes sh lc lba0 =
     for_loop (NBmodes lc) (\<lambda>m (lms, lba).
        let block = blknb sh ! m;
            lms1 = (if \<bar>AUTOTUNE_LIMITS_mcoeff (AOconf sh) * modevalDMnowfilt sh ! m\<bar> > modelimit lc ! m
                    then lms[m := lms ! m * (1 + AUTOTUNE_LIMITS_delta (AOconf sh))]
                    else lms[m := lms ! m * (1 - AUTOTUNE_LIMITS_delta (AOconf sh) * 0.01
                                                   * AUTOTUNE_LIMITS_perc (AOconf sh))])
        in (lms1, lba[block := lba ! block + lms1 ! m]))
       (LIMIT_modes sh, lba0)"

text \<open>The factor \<^verbatim>\<open>coeff\<close> of the block loop, from the block average \<open>atl\<close> of the mode limits.\<close>

definition limit_coeff :: "real \<Rightarrow> real \<Rightarrow> real" where
  "limit_coeff delta atl =
     (let coeff = 1 + (atl - 1) * delta * 0.1;
          coeff = (if coeff < 1 - delta then 1 - delta else coeff);
          coeff = (if coeff > 1 + delta then 1 + delta else coeff)
      in coeff)"

definition autotune_blocks :: "olm_shm \<Rightarrow> olm_locals \<Rightarrow> real list \<Rightarrow> real list \<times> real list" where
  "autotune_blocks sh lc lba =
     for_loop (DMmodesNBblock (AOconf sh)) (\<lambda>block (atl, lb).
        let atl' = atl[block := lba ! block / real (blockNBmodes lc ! block)];
            coeff = limit_coeff (AUTOTUNE_LIMITS_delta (AOconf sh)) (atl' ! block)
        in (atl', lb[block := lb ! block * coeff]))
       (atlimbcoeff sh, limitb sh)"

definition autotune_limits :: "olm_shm \<Rightarrow> olm_locals \<Rightarrow> olm_shm \<times> olm_locals" where
  "autotune_limits sh lc =
     (if AUTOTUNE_LIMITS_ON (AOconf sh) = 1 then
        (let lba0 = for_loop (DMmodesNBblock (AOconf sh)) (\<lambda>block a. a[block := 0]) (limitblockarray lc);
             (lms, lba) = autotune_modes sh lc lba0;
             (atl, lb) = autotune_blocks sh lc lba
         in (sh\<lparr>LIMIT_modes := lms, atlimbcoeff := atl, limitb := lb\<rparr>, lc\<lparr>limitblockarray := lba\<rparr>))
      else (sh, lc))"

text \<open>\<^verbatim>\<open>if(FILTERMODE == 1)\<close>: the clip pass. \<open>clip_mode\<close> is the body of its loop for mode \<open>m\<close>, where
  \<open>blk\<close> holds the block of every mode (\<^verbatim>\<open>aol_mode_blknb\<close>) and \<open>maxl\<close> the limit of every mode
  (\<^verbatim>\<open>modelimit\<close>). The two tests are the comparisons of the source, so a value that compares
  false both times, as NaN does, is left as it is.\<close>

definition clip_mode ::
  "nat list \<Rightarrow> ('a::{ord,uminus}) list \<Rightarrow> nat \<Rightarrow> 'a list \<times> real list \<Rightarrow> 'a list \<times> real list" where
  "clip_mode blk maxl m = (\<lambda>(filt, lf).
     let block = blk ! m;
         (filt, lf) = (if filt ! m > maxl ! m
                         then (filt[m := maxl ! m], lf[block := lf ! block + 1])
                         else (filt, lf));
         (filt, lf) = (if filt ! m < - maxl ! m
                         then (filt[m := - maxl ! m], lf[block := lf ! block + 1])
                         else (filt, lf))
     in (filt, lf))"

definition filter_modes :: "olm_shm \<Rightarrow> olm_locals \<Rightarrow> olm_shm \<times> olm_locals" where
  "filter_modes sh lc =
     (if FILTERMODE lc = 1 then
        (let (filt, lf) = for_loop (NBmodes lc) (clip_mode (blknb sh) (modelimit lc))
                            (modevalDMnowfilt sh, blockavelimFrac lc)
         in (sh\<lparr>modevalDMnowfilt := filt\<rparr>, lc\<lparr>blockavelimFrac := lf\<rparr>))
      else (sh, lc))"

text \<open>\<^verbatim>\<open>update current location of dm correction circular buffer\<close>\<close>

definition commit_filt :: "olm_shm \<Rightarrow> olm_locals \<Rightarrow> olm_shm" where
  "commit_filt sh lc =
     sh\<lparr>modevalDM_C :=
          for_loop (NBmodes lc)
            (\<lambda>m a. a[nat (modevalDMindex lc * int (NBmodes lc) + int m) := modevalDMnowfilt sh ! m])
            (modevalDM_C sh)\<rparr>"

text \<open>\<^verbatim>\<open>COMPUTE DM STATE AT TIME OF WFS MEASUREMENT\<close>: the two slot indices, each corrected by
  one addition of the buffer size when negative, then the linear interpolation.\<close>

definition lag_indices :: "olm_locals \<Rightarrow> olm_locals" where
  "lag_indices lc =
     (let i0 = modevalDMindex lc - framelatency0 lc;
          i0 = (if i0 < 0 then i0 + modevalDM_bsize else i0);
          i1 = modevalDMindex lc - framelatency1 lc;
          i1 = (if i1 < 0 then i1 + modevalDM_bsize else i1)
      in lc\<lparr>modevalDMindex0 := i0, modevalDMindex1 := i1\<rparr>)"

definition dm_at_measurement :: "olm_shm \<Rightarrow> olm_locals \<Rightarrow> olm_shm" where
  "dm_at_measurement sh lc =
     sh\<lparr>modevalDM :=
          for_loop (NBmodes lc)
            (\<lambda>m a. a[m := (1 - alpha lc) * modevalDM_C sh ! nat (modevalDMindex0 lc * int (NBmodes lc) + int m)
                           + alpha lc * modevalDM_C sh ! nat (modevalDMindex1 lc * int (NBmodes lc) + int m)])
            (modevalDM sh)\<rparr>"

text \<open>\<^verbatim>\<open>OPEN LOOP STATE = most recent WFS reading - time-lagged DM\<close>\<close>

definition open_loop_state :: "olm_shm \<Rightarrow> olm_locals \<Rightarrow> olm_shm" where
  "open_loop_state sh lc =
     sh\<lparr>modeval_ol :=
          for_loop (NBmodes lc) (\<lambda>m a. a[m := modeval sh ! m - modevalDM sh ! m]) (modeval_ol sh)\<rparr>"

text \<open>The cursor of the circular buffer moves on and wraps at the buffer size.\<close>

definition advance_index :: "olm_locals \<Rightarrow> olm_locals" where
  "advance_index lc =
     (let l = lc\<lparr>modevalDMindexl := modevalDMindex lc\<rparr>;
          l = l\<lparr>modevalDMindex := modevalDMindex l + 1\<rparr>
      in if modevalDMindex l = modevalDM_bsize then l\<lparr>modevalDMindex := 0\<rparr> else l)"


text \<open>\<^verbatim>\<open>// TELEMETRY\<close>: the squares are accumulated per block; every \<^verbatim>\<open>AveStats_NBpt\<close>
  iterations the averages are published in \<^verbatim>\<open>AOconf[loop]\<close> and the accumulators reset.\<close>

definition accumulate_rms :: "olm_shm \<Rightarrow> olm_locals \<Rightarrow> olm_locals" where
  "accumulate_rms sh lc =
     for_loop (NBmodes lc) (\<lambda>m l.
        let block = blknb sh ! m in
        l\<lparr>blockaveOLrms := (blockaveOLrms l)[block := blockaveOLrms l ! block + modeval_ol sh ! m * modeval_ol sh ! m],
          blockaveCrms := (blockaveCrms l)[block := blockaveCrms l ! block + modevalDMnow sh ! m * modevalDMnow sh ! m],
          blockaveWFSrms := (blockaveWFSrms l)[block := blockaveWFSrms l ! block + modeval sh ! m * modeval sh ! m]\<rparr>) lc"

definition publish_block :: "nat \<Rightarrow> AOLOOPCONTROL_CONF \<times> olm_locals \<Rightarrow> AOLOOPCONTROL_CONF \<times> olm_locals" where
  "publish_block block = (\<lambda>(cf, l).
     (cf\<lparr>blockave_OLrms := (blockave_OLrms cf)[block := sqrt (blockaveOLrms l ! block / real_of_int (blockstatcnt l))],
         blockave_Crms := (blockave_Crms cf)[block := sqrt (blockaveCrms l ! block / real_of_int (blockstatcnt l))],
         blockave_WFSrms := (blockave_WFSrms cf)[block := sqrt (blockaveWFSrms l ! block / real_of_int (blockstatcnt l))],
         blockave_limFrac := (blockave_limFrac cf)[block := blockavelimFrac l ! block / real_of_int (blockstatcnt l)]\<rparr>,
      l\<lparr>allaveOLrms := allaveOLrms l + blockaveOLrms l ! block,
        allaveCrms := allaveCrms l + blockaveCrms l ! block,
        allaveWFSrms := allaveWFSrms l + blockaveWFSrms l ! block,
        allavelimFrac := allavelimFrac l + blockavelimFrac l ! block,
        blockaveOLrms := (blockaveOLrms l)[block := 0],
        blockaveCrms := (blockaveCrms l)[block := 0],
        blockaveWFSrms := (blockaveWFSrms l)[block := 0],
        blockavelimFrac := (blockavelimFrac l)[block := 0]\<rparr>))"

definition telemetry :: "olm_shm \<Rightarrow> olm_locals \<Rightarrow> olm_shm \<times> olm_locals" where
  "telemetry sh lc =
     (let l = accumulate_rms sh lc;
          l = l\<lparr>blockstatcnt := blockstatcnt l + 1\<rparr>
      in if blockstatcnt l = AveStats_NBpt (AOconf sh) then
           (let (cf, l) = for_loop (DMmodesNBblock (AOconf sh)) publish_block (AOconf sh, l);
                cf = cf\<lparr>ALLave_OLrms := sqrt (allaveOLrms l / real_of_int (blockstatcnt l)),
                        ALLave_Crms := sqrt (allaveCrms l / real_of_int (blockstatcnt l)),
                        ALLave_WFSrms := sqrt (allaveWFSrms l / real_of_int (blockstatcnt l)),
                        ALLave_limFrac := allavelimFrac l / real_of_int (blockstatcnt l)\<rparr>
            in (sh\<lparr>AOconf := cf\<rparr>,
                l\<lparr>allaveOLrms := 0, allaveCrms := 0, allaveWFSrms := 0, allavelimFrac := 0,
                  blockstatcnt := 0\<rparr>))
         else (sh, l))"

definition set_statusM :: "int \<Rightarrow> olm_shm \<Rightarrow> olm_shm" where
  "set_statusM v sh = sh\<lparr>AOconf := (AOconf sh)\<lparr>statusM := v\<rparr>\<rparr>"

definition set_statusM1 :: "int \<Rightarrow> olm_shm \<Rightarrow> olm_shm" where
  "set_statusM1 v sh = sh\<lparr>AOconf := (AOconf sh)\<lparr>statusM1 := v\<rparr>\<rparr>"


subsection \<open>One pass through the body of \<^verbatim>\<open>while (1)\<close>\<close>

text \<open>The pass starts when a new measurement \<open>modeval\<close> has arrived. It is cut in two at the
  commit to the circular buffer: \<open>integrate_modes\<close> is the modal integrator up to the filtered
  value, \<open>estimate_open_loop\<close> the commit, the open-loop estimate and the telemetry.\<close>

definition integrate_modes :: "olm_shm \<Rightarrow> olm_locals \<Rightarrow> error + olm_shm \<times> olm_locals" where
  "integrate_modes sh0 lc0 =
     (let sh = set_statusM 3 sh0;
          lc = write_gain_mult_limit sh lc0
      in if \<not> slot_ok (NBmodes lc) (modevalDMindexl lc) then Inl OutOfBounds
         else
           let sh = update_dm_state sh lc;
               sh = set_statusM 4 sh;
               (sh, lc) = mix_prediction sh lc;
               sh = set_statusM 5 sh;
               sh = copy_to_filt sh lc;
               (sh, lc) = autotune_limits sh lc;
               (sh, lc) = filter_modes sh lc;
               sh = set_statusM 6 sh
           in Inr (sh, lc))"

definition estimate_open_loop :: "olm_shm \<Rightarrow> olm_locals \<Rightarrow> error + olm_shm \<times> olm_locals" where
  "estimate_open_loop sh0 lc0 =
     (if \<not> slot_ok (NBmodes lc0) (modevalDMindex lc0) then Inl OutOfBounds
      else
        let sh = commit_filt sh0 lc0;
            sh = set_statusM1 6 sh;
            lc = lag_indices lc0
        in if \<not> (slot_ok (NBmodes lc) (modevalDMindex0 lc) \<and> slot_ok (NBmodes lc) (modevalDMindex1 lc))
           then Inl OutOfBounds
           else
             let sh = dm_at_measurement sh lc;
                 sh = set_statusM1 7 sh;
                 sh = open_loop_state sh lc;
                 sh = set_statusM1 8 sh;
                 lc = advance_index lc;
                 (sh, lc) = telemetry sh lc;
                 sh = set_statusM1 9 sh
             in Inr (sh, lc))"

definition ComputeOpenLoopModes_iteration :: "olm_shm \<Rightarrow> olm_locals \<Rightarrow> error + olm_shm \<times> olm_locals" where
  "ComputeOpenLoopModes_iteration sh lc =
     (case integrate_modes sh lc of
        Inl e \<Rightarrow> Inl e
      | Inr (sh1, lc1) \<Rightarrow> estimate_open_loop sh1 lc1)"


subsection \<open>The code before the loop\<close>

text \<open>\<^verbatim>\<open>// Read from shared mem the DM mode files to indentify blocks\<close>: block image \<open>blk\<close> has
  \<open>n\<close> modes, which become the next \<open>n\<close> entries of \<open>modeblock\<close> and of the 16-bit image
  \<open>blknb\<close>. A block image that does not exist ends the program. The arrays that the source
  allocates without initialising them (\<^verbatim>\<open>malloc\<close>, the 100-element local arrays) start
  filled with zeros here; every entry is written before it is read when the sizes agree.\<close>

fun load_blocks ::
  "nat \<Rightarrow> nat list \<Rightarrow> nat \<Rightarrow> nat \<Rightarrow> nat list \<times> nat list \<times> nat list \<Rightarrow> error + nat list \<times> nat list \<times> nat list" where
  "load_blocks NB [] m blk (mb, bk, bn) = (if m < NB then Inl CouldNotLoad else Inr (mb, bk, bn))"
| "load_blocks NB (n # rest) m blk (mb, bk, bn) =
     (if m < NB then
        load_blocks NB rest (m + n) (blk + 1)
          (for_loop n (\<lambda>i a. a[m + i := blk]) mb,
           for_loop n (\<lambda>i a. a[m + i := blk mod 65536]) bk,
           bn[blk := n])
      else Inr (mb, bk, bn))"

definition ComputeOpenLoopModes_setup :: "olm_shm \<Rightarrow> error + olm_shm \<times> olm_locals" where
  "ComputeOpenLoopModes_setup sh =
     (let NB = length (modeval sh);
          NBblock = DMmodesNBblock (AOconf sh);
          FM = (if aoconfID_LIMIT_modes sh = - 1 then 0 else 1);
          FM = (if aoconfID_MULTF_modes sh = - 1 then 0 else FM);
          framelatency = hardwlatency_frame (AOconf sh) + wfsmextrlatency_frame (AOconf sh)
      in case load_blocks NB (DMmodes_size2 sh) 0 0 (replicate NB 0, replicate NB 0, replicate 100 0) of
           Inl e \<Rightarrow> Inl e
         | Inr (mb, bk, bn) \<Rightarrow>
             Inr (sh\<lparr>modevalPF := (if modevalPF_ID sh \<noteq> - 1
                                    then for_loop (length (modevalPF sh)) (\<lambda>ii a. a[ii := 0]) (modevalPF sh)
                                    else modevalPF sh),
                     modeval_ol := replicate NB 0,
                     blknb := bk,
                     modevalDMnow := replicate NB 0,
                     modevalDMnowfilt := replicate NB 0,
                     modevalDM := replicate NB 0,
                     modevalDM_C := replicate (NB * nat modevalDM_bsize) 0,
                     atlimbcoeff := replicate NBblock 0\<rparr>,
                  \<lparr>NBmodes = NB,
                   modeblock = mb,
                   blockNBmodes = bn,
                   FILTERMODE = FM,
                   framelatency0 = long_of_float framelatency,
                   framelatency1 = long_of_float framelatency + 1,
                   alpha = framelatency - real_of_int (long_of_float framelatency),
                   IDmodevalPF = modevalPF_ID sh,
                   modegain = replicate NB 0,
                   modemult = replicate NB 0,
                   modelimit = replicate NB 0,
                   modevalDMindex = 0,
                   modevalDMindexl = 0,
                   modevalDMindex0 = 0,
                   modevalDMindex1 = 0,
                   limitblockarray = replicate 100 0,
                   blockstatcnt = 0,
                   blockaveOLrms = replicate 100 0,
                   blockaveCrms = replicate 100 0,
                   blockaveWFSrms = replicate 100 0,
                   blockavelimFrac = replicate 100 0,
                   allaveOLrms = 0,
                   allaveCrms = 0,
                   allaveWFSrms = 0,
                   allavelimFrac = 0\<rparr>))"



section \<open>\<^verbatim>\<open>AOloopControl_AutoTuneGains\<close>\<close>






text \<open>The per-mode variables of the function.\<close>

record atg_locals =
  atg_modegain :: "real list"
  atg_modemult :: "real list"
  NOISEfactor :: "real list"
  array_mvalOL1 :: "real list"
  array_mvalOL2 :: "real list"
  array_mvalOL3 :: "real list"
  array_mvalOL4 :: "real list"
  ave0 :: "real list"
  sig0 :: "real list"
  sig1 :: "real list"
  sig2 :: "real list"
  sig3 :: "real list"
  sig4 :: "real list"
  array_sig1 :: "real list"
  array_sig2 :: "real list"
  array_sig3 :: "real list"
  array_sig4 :: "real list"
  array_sig :: "real list"
  array_asq :: "real list"
  stdev :: "real list"
  errarray :: "real list"
  atg_out :: "real list"





text \<open>The body of the last loop over the modes, with \<open>n = cnt - cntstart\<close>, in four stages: the
  averages of the sums, the two variance estimates \<^verbatim>\<open>array_asq\<close> and \<^verbatim>\<open>array_sig\<close>, the
  standard deviation, and the error of every candidate gain.\<close>

definition atg_averages :: "int \<Rightarrow> nat \<Rightarrow> atg_locals \<Rightarrow> atg_locals" where
  "atg_averages n m l0 =
     (let l = l0\<lparr>ave0 := (ave0 l0)[m := ave0 l0 ! m / real_of_int n]\<rparr>;
          l = l\<lparr>sig0 := (sig0 l)[m := sig0 l ! m / real_of_int n]\<rparr>;
          l = l\<lparr>array_sig1 := (array_sig1 l)[m := sig1 l ! m / real_of_int n]\<rparr>;
          l = l\<lparr>array_sig2 := (array_sig2 l)[m := sig2 l ! m / real_of_int n]\<rparr>;
          l = l\<lparr>array_sig3 := (array_sig3 l)[m := sig3 l ! m / real_of_int n]\<rparr>
      in l\<lparr>array_sig4 := (array_sig4 l)[m := sig4 l ! m / real_of_int n]\<rparr>)"

definition atg_variances :: "nat \<Rightarrow> atg_locals \<Rightarrow> atg_locals" where
  "atg_variances m l0 =
     (let l = l0\<lparr>array_asq := (array_asq l0)[m := (array_sig4 l0 ! m - array_sig1 l0 ! m) / 15]\<rparr>;
          l = (if array_asq l ! m < 0 then l\<lparr>array_asq := (array_asq l)[m := 0]\<rparr> else l)
      in l\<lparr>array_sig := (array_sig l)[m := (4 * array_sig1 l ! m - array_sig2 l ! m) / 6]\<rparr>)"

definition atg_stdev :: "nat \<Rightarrow> atg_locals \<Rightarrow> atg_locals" where
  "atg_stdev m l0 =
     (let l = l0\<lparr>stdev := (stdev l0)[m := sig0 l0 ! m - NOISEfactor l0 ! m * array_sig l0 ! m
                                             - ave0 l0 ! m * ave0 l0 ! m]\<rparr>;
          l = (if stdev l ! m < 0 then l\<lparr>stdev := (stdev l)[m := 0]\<rparr> else l)
      in l\<lparr>stdev := (stdev l)[m := sqrt (stdev l ! m)]\<rparr>)"

definition atg_errarray :: "real list \<Rightarrow> real list \<Rightarrow> nat \<Rightarrow> nat \<Rightarrow> atg_locals \<Rightarrow> atg_locals" where
  "atg_errarray gv1 gv2 NBgain m l =
     l\<lparr>errarray := for_loop NBgain
           (\<lambda>kk e. e[kk := array_asq l ! m * gv1 ! kk + array_sig l ! m * gv2 ! kk]) (errarray l)\<rparr>"




section \<open>\<^verbatim>\<open>Read_cam_frame\<close>\<close>

text \<open>The content of a camera image with its data type.\<close>

datatype image_data = FLOAT "real list" | UINT16 "16 word list" | OTHER

text \<open>The WFS camera stream \<open>wfsim\<close> with the metadata the function reads, the dark frame
  \<^verbatim>\<open>aol_wfsdark\<close>, the optional mask and total images (identifier \<open>-1\<close>: absent), the
  dark-subtracted image \<open>imWFS0\<close>, the normalized image \<open>imWFS1\<close>, and the static variables
  of the file that the function uses.\<close>

record rcf_shm = shm_base +
  wfsim :: image_data
  wfsim_naxis :: int
  wfsim_size2 :: int
  wfsim_cnt0 :: int
  wfsim_cnt1 :: int
  wfsdark :: "real list"
  aoconfID_wfsmask :: int
  wfsmask :: "real list"
  imWFS0 :: "real list"
  imWFS1 :: "real list"
  aoconfID_imWFS0tot :: int
  imWFS0tot :: "real list"
  arrayftmp :: "real list"
  arrayutmp :: "16 word list"
  Average_cam_frames_nelem :: nat
  avcamarraysInit :: int
  IMTOTAL :: real
  AOLCOMPUTE_TOTAL_INIT :: int
  COMPUTE_GPU_SCALING :: int
  GPU_alpha :: real
  GPU_beta :: real
  rcf_normfloorcoeff :: real
  PIXSTREAM_SLICE :: int

definition rcf_status :: "int \<Rightarrow> int \<Rightarrow> rcf_shm \<Rightarrow> rcf_shm" where
  "rcf_status RM v sh = (if RM = 0 then sh\<lparr>AOconf := (AOconf sh)\<lparr>status := v\<rparr>\<rparr> else sh)"

text \<open>\<^verbatim>\<open>memcpy\<close> of one frame of \<open>n\<close> pixels out of slice \<open>sl\<close> of the camera buffer.\<close>

definition copy_slice :: "int \<Rightarrow> nat \<Rightarrow> 'a list \<Rightarrow> error + 'a list" where
  "copy_slice sl n buf =
     (if 0 \<le> sl \<and> nat sl * n + n \<le> length buf
      then Inr (take n (drop (nat sl * n) buf))
      else Inl OutOfBounds)"

text \<open>\<^verbatim>\<open>// Dark subtract and compute total\<close>: over \<open>n\<close> pixels of the frame just copied.\<close>

definition dark_subtract :: "nat \<Rightarrow> rcf_shm \<Rightarrow> error + rcf_shm" where
  "dark_subtract n sh =
     (case wfsim sh of
        UINT16 _ \<Rightarrow> Inr (sh\<lparr>imWFS0 := for_loop n
                         (\<lambda>ii a. a[ii := real (unat (arrayutmp sh ! ii)) - wfsdark sh ! ii]) (imWFS0 sh)\<rparr>)
      | FLOAT _ \<Rightarrow> Inr (sh\<lparr>imWFS0 := for_loop n
                         (\<lambda>ii a. a[ii := arrayftmp sh ! ii - wfsdark sh ! ii]) (imWFS0 sh)\<rparr>)
      | OTHER \<Rightarrow> Inl DataTypeNotSupported)"

text \<open>The total of the image in the main thread.\<close>

definition compute_total :: "rcf_shm \<Rightarrow> rcf_shm" where
  "compute_total sh =
     (let nelem = length (imWFS0 sh);
          tot = (if aoconfID_wfsmask sh \<noteq> - 1
                 then for_loop nelem (\<lambda>ii t. t + imWFS0 sh ! ii * wfsmask sh ! ii) 0
                 else for_loop nelem (\<lambda>ii t. t + imWFS0 sh ! ii) 0);
          sh = sh\<lparr>IMTOTAL := tot\<rparr>;
          sh = sh\<lparr>AOconf := (AOconf sh)\<lparr>WFStotalflux := IMTOTAL sh\<rparr>\<rparr>;
          sh = sh\<lparr>AOLCOMPUTE_TOTAL_INIT := 1\<rparr>
      in if aoconfID_imWFS0tot sh \<noteq> - 1 then sh\<lparr>imWFS0tot := (imWFS0tot sh)[0 := IMTOTAL sh]\<rparr> else sh)"

text \<open>The function, after the wait for a new frame. When the dark subtraction is handed to
  the worker threads (\<^verbatim>\<open>loop\<close> not 0 and \<^verbatim>\<open>RM\<close> not 1) the threads together cover the
  pixels of \<open>imWFS0\<close>, and the function waits for all of them; when the total is computed
  asynchronously the value of \<open>IMTOTAL\<close> left by the other thread is used.\<close>

definition Read_cam_frame :: "int \<Rightarrow> int \<Rightarrow> int \<Rightarrow> rcf_shm \<Rightarrow> error + rcf_shm" where
  "Read_cam_frame loop RM normalize_flag sh0 =
     (let n = sizeWFS (AOconf sh0);
          sh = (if avcamarraysInit sh0 = 0
                then sh0\<lparr>arrayftmp := replicate n 0, arrayutmp := replicate n 0,
                         Average_cam_frames_nelem := n, avcamarraysInit := 1\<rparr>
                else sh0);
          sh = rcf_status RM 20 sh;
          sh = rcf_status RM 0 sh;
          sh = sh\<lparr>AOconf := (AOconf sh)\<lparr>statusM := 0\<rparr>\<rparr>;
          sl = (if wfsim_naxis sh = 3
                   then (if wfsim_cnt1 sh = - 1 then wfsim_size2 sh else wfsim_cnt1 sh)
                   else 0);
          copied = (case wfsim sh of
                      FLOAT buf \<Rightarrow>
                        (case copy_slice sl n buf of
                           Inl e \<Rightarrow> Inl e | Inr fr \<Rightarrow> Inr (sh\<lparr>arrayftmp := fr\<rparr>))
                    | UINT16 buf \<Rightarrow>
                        (case copy_slice sl n buf of
                           Inl e \<Rightarrow> Inl e | Inr fr \<Rightarrow> Inr (sh\<lparr>arrayutmp := fr\<rparr>))
                    | OTHER \<Rightarrow> Inl DataTypeNotSupported)
      in case copied of
           Inl e \<Rightarrow> Inl e
         | Inr sh \<Rightarrow>
             (let sh = (if RM = 0 then sh\<lparr>AOconf := (AOconf sh)\<lparr>WFScnt := wfsim_cnt0 sh\<rparr>\<rparr>
                        else sh\<lparr>AOconf := (AOconf sh)\<lparr>WFScntRM := wfsim_cnt0 sh\<rparr>\<rparr>);
                  sh = sh\<lparr>PIXSTREAM_SLICE := wfsim_cnt1 sh\<rparr>;
                  sh = rcf_status RM 1 sh
              in case (if loop = 0 \<or> RM = 1 then dark_subtract (Average_cam_frames_nelem sh) sh
                       else dark_subtract (length (imWFS0 sh)) sh) of
                   Inl e \<Rightarrow> Inl e
                 | Inr sh \<Rightarrow>
                     (let sh = sh\<lparr>AOconf := (AOconf sh)\<lparr>statusM := 2\<rparr>\<rparr>;
                          sh = rcf_status RM 2 sh;
                          sh = (if normalize_flag = 1 then
                                  (if AOLCOMPUTE_TOTAL_ASYNC (AOconf sh) = 0 \<or> AOLCOMPUTE_TOTAL_INIT sh = 0 \<or> RM = 1
                                   then compute_total sh
                                   else sh\<lparr>AOconf := (AOconf sh)\<lparr>WFStotalflux := IMTOTAL sh\<rparr>\<rparr>)
                                else sh);
                          sh = rcf_status RM 3 sh;
                          nelem = sizeWFS (AOconf sh);
                          totalinv = (if normalize_flag = 1
                                      then 1 / (WFStotalflux (AOconf sh) + WFSnormfloor (AOconf sh) * real (sizeWFS (AOconf sh)))
                                      else 1);
                          sh = sh\<lparr>rcf_normfloorcoeff :=
                                 (if normalize_flag = 1
                                  then WFStotalflux (AOconf sh)
                                       / (WFStotalflux (AOconf sh) + WFSnormfloor (AOconf sh) * real (sizeWFS (AOconf sh)))
                                  else 1)\<rparr>;
                          sh = sh\<lparr>GPU_alpha := totalinv\<rparr>;
                          sh = sh\<lparr>GPU_beta := - rcf_normfloorcoeff sh\<rparr>
                      in Inr (if (COMPUTE_GPU_SCALING sh = 0 \<and> RM = 0) \<or> RM = 1
                              then sh\<lparr>imWFS1 := for_loop nelem (\<lambda>ii a. a[ii := imWFS0 sh ! ii * totalinv]) (imWFS1 sh)\<rparr>
                              else sh))))"


section \<open>The modal integrator of \<^verbatim>\<open>AOcompute\<close>\<close>

text \<open>In two-step mode \<^verbatim>\<open>AOcompute\<close> ends with the integration of the measured modal
  coefficients \<open>meas\<close> (\<^verbatim>\<open>aol_meas_modes\<close>) into the modal command \<open>cmd\<close> (\<^verbatim>\<open>aol_cmd_modes\<close>):
  the gain step, the clip to the global limit times the mode limit, and the multiplier. The
  running statistics \<^verbatim>\<open>RMS_modes\<close> and \<^verbatim>\<open>AVE_modes\<close> that the same loop updates do not enter
  the command and are left out.\<close>

definition integrate_cmd_modes ::
  "nat \<Rightarrow> ('a::{times,minus,uminus,ord}) \<Rightarrow> 'a list \<Rightarrow> 'a \<Rightarrow> 'a list \<Rightarrow> 'a \<Rightarrow> 'a list
     \<Rightarrow> 'a list \<Rightarrow> 'a list \<Rightarrow> 'a list" where
  "integrate_cmd_modes n g gains maxl limits ml multf meas cmd =
     for_loop n (\<lambda>k a.
        let a = a[k := a ! k - g * gains ! k * meas ! k];
            a = (if a ! k < - maxl * limits ! k then a[k := - maxl * limits ! k] else a);
            a = (if a ! k > maxl * limits ! k then a[k := maxl * limits ! k] else a)
        in a[k := a ! k * (ml * multf ! k)]) cmd"


section \<open>The end of an iteration of \<^verbatim>\<open>AOloopControl_run\<close> and \<^verbatim>\<open>set_DM_modes\<close>\<close>

text \<open>The modal command \<open>cmd_modes\<close>, the mode basis \<open>DMmodes\<close> (mode \<open>k\<close>, actuator \<open>i\<close> at index
  \<open>k * sizeDM + i\<close>), the actuator-space measurement \<open>meas_act\<close> of the direct path, and the DM
  command stream \<open>dmC\<close> with its update counter.\<close>

record run_shm = shm_base +
  cmd_modes :: "real list"
  DMmodes :: "real list"
  meas_act :: "real list"
  dmC :: "real list"
  dmC_cnt0 :: int

text \<open>The CPU branch of \<^verbatim>\<open>set_DM_modes\<close>: the product of the mode basis with the modal command.\<close>

definition modes_to_act :: "nat \<Rightarrow> nat \<Rightarrow> real list \<Rightarrow> real list \<Rightarrow> real list" where
  "modes_to_act sz NBm cmd basis =
     (let arrayf = for_loop sz (\<lambda>j a. a[j := 0]) (replicate sz 0)
      in for_loop sz (\<lambda>i a. for_loop NBm (\<lambda>k a. a[i := a ! i + cmd ! k * basis ! (k * sz + i)]) a) arrayf)"

text \<open>\<^verbatim>\<open>set_DM_modes\<close>. The GPU branch calls the multiply service of another module, which is
  the parameter \<open>GPU_loop_MultMat\<close>.\<close>

definition set_DM_modes :: "(run_shm \<Rightarrow> run_shm) \<Rightarrow> run_shm \<Rightarrow> run_shm" where
  "set_DM_modes GPU_loop_MultMat sh0 =
     (let sh = (if GPU1 (AOconf sh0) = 0 then
                  (let arrayf = modes_to_act (sizeDM (AOconf sh0)) (NBDMmodes (AOconf sh0)) (cmd_modes sh0) (DMmodes sh0);
                       s = sh0\<lparr>dmC := for_loop (sizeDM (AOconf sh0)) (\<lambda>i a. a[i := arrayf ! i]) (dmC sh0)\<rparr>
                   in s\<lparr>dmC_cnt0 := dmC_cnt0 s + 1\<rparr>)
                else GPU_loop_MultMat sh0)
      in sh\<lparr>AOconf := (AOconf sh)\<lparr>DMupdatecnt := DMupdatecnt (AOconf sh) + 1\<rparr>\<rparr>)"

text \<open>The direct path: \<^verbatim>\<open>if(isnan(meas_act[ii])!=0) meas_act[ii] = 0.0\<close>, then the integrator
  with the clip to \<^verbatim>\<open>maxlimit\<close>.\<close>

definition replace_nan :: "nat \<Rightarrow> ('a::{ord,zero}) list \<Rightarrow> 'a list" where
  "replace_nan n meas = for_loop n (\<lambda>ii a. if isnan (a ! ii) then a[ii := 0] else a) meas"

definition integrate_act ::
  "nat \<Rightarrow> ('a::{times,minus,uminus,ord}) \<Rightarrow> 'a \<Rightarrow> 'a \<Rightarrow> 'a list \<Rightarrow> 'a list \<Rightarrow> 'a list" where
  "integrate_act n g ml maxl meas dm =
     for_loop n (\<lambda>ii a.
        let a = a[ii := a ! ii - g * meas ! ii];
            a = a[ii := a ! ii * ml];
            a = (if a ! ii > maxl then a[ii := maxl] else a);
            a = (if a ! ii < - maxl then a[ii := - maxl] else a)
        in a) dm"

definition run_status :: "int \<Rightarrow> run_shm \<Rightarrow> run_shm" where
  "run_status v sh = sh\<lparr>AOconf := (AOconf sh)\<lparr>status := v\<rparr>\<rparr>"

text \<open>The part of the body of \<^verbatim>\<open>while(AOconf[loop].on == 1)\<close> that follows \<^verbatim>\<open>AOcompute\<close>.\<close>

definition AOloopControl_run_after_compute :: "(run_shm \<Rightarrow> run_shm) \<Rightarrow> run_shm \<Rightarrow> run_shm" where
  "AOloopControl_run_after_compute GPU_loop_MultMat sh0 =
     (let sh = run_status 12 sh0;
          sh = (if CMMODE (AOconf sh) = 0 then
                  (if DMprimaryWrite_ON (AOconf sh) = 1 then
                     (if \<bar>gain (AOconf sh)\<bar> > 1 / 1000000 then set_DM_modes GPU_loop_MultMat sh else sh)
                   else sh)
                else
                  (if DMprimaryWrite_ON (AOconf sh) = 1 then
                     (let s = sh\<lparr>meas_act := replace_nan (sizeDM (AOconf sh)) (meas_act sh)\<rparr>;
                          s = run_status 13 s;
                          s = s\<lparr>dmC := integrate_act (sizeDM (AOconf s)) (gain (AOconf s)) (mult (AOconf s))
                                         (maxlimit (AOconf s)) (meas_act s) (dmC s)\<rparr>;
                          s = run_status 14 s;
                          s = s\<lparr>dmC_cnt0 := dmC_cnt0 s + 1\<rparr>
                      in s\<lparr>AOconf := (AOconf s)\<lparr>DMupdatecnt := DMupdatecnt (AOconf s) + 1\<rparr>\<rparr>)
                   else sh));
          sh = run_status 18 sh;
          sh = sh\<lparr>AOconf := (AOconf sh)\<lparr>cnt := cnt (AOconf sh) + 1\<rparr>\<rparr>
      in if cnt (AOconf sh) = cntmax (AOconf sh)
         then sh\<lparr>AOconf := (AOconf sh)\<lparr>loop_on := 0\<rparr>\<rparr> else sh)"


section \<open>Notions used in the statements\<close>

text \<open>Two local states agree on everything except the identifier of the prediction image,
  the scratch array of the limit tuner and the telemetry accumulators.\<close>

definition same_control :: "olm_locals \<Rightarrow> olm_locals \<Rightarrow> bool" where
  "same_control l l' \<longleftrightarrow>
     NBmodes l' = NBmodes l \<and> modeblock l' = modeblock l \<and> blockNBmodes l' = blockNBmodes l
     \<and> FILTERMODE l' = FILTERMODE l \<and> framelatency0 l' = framelatency0 l
     \<and> framelatency1 l' = framelatency1 l \<and> alpha l' = alpha l
     \<and> modegain l' = modegain l \<and> modemult l' = modemult l \<and> modelimit l' = modelimit l
     \<and> modevalDMindex l' = modevalDMindex l \<and> modevalDMindexl l' = modevalDMindexl l
     \<and> modevalDMindex0 l' = modevalDMindex0 l \<and> modevalDMindex1 l' = modevalDMindex1 l"

text \<open>The sizes of the arrays agree with the number of modes and of blocks, every mode is in
  a block, the two cursors of the circular buffer are inside it, and the second lag index is
  the first plus one.\<close>

definition olm_wf :: "olm_shm \<Rightarrow> olm_locals \<Rightarrow> bool" where
  "olm_wf sh lc \<longleftrightarrow>
     (let n = NBmodes lc; nb = DMmodesNBblock (AOconf sh) in
      length (modeval sh) = n \<and> length (GAIN_modes sh) = n \<and> length (MULTF_modes sh) = n
      \<and> length (LIMIT_modes sh) = n \<and> length (modevalDMnow sh) = n
      \<and> length (modevalDMnowfilt sh) = n \<and> length (modevalDM sh) = n
      \<and> length (modeval_ol sh) = n \<and> length (modevalDM_C sh) = n * nat modevalDM_bsize
      \<and> length (blknb sh) = n \<and> list_all (\<lambda>b. b < nb) (blknb sh)
      \<and> length (modeblock lc) = n \<and> list_all (\<lambda>b. b < nb) (modeblock lc)
      \<and> length (gainb sh) = nb \<and> length (multfb sh) = nb \<and> length (limitb sh) = nb
      \<and> length (atlimbcoeff sh) = nb
      \<and> length (modegain lc) = n \<and> length (modemult lc) = n \<and> length (modelimit lc) = n
      \<and> nb \<le> 100 \<and> length (limitblockarray lc) = 100 \<and> length (blockavelimFrac lc) = 100
      \<and> length (blockNBmodes lc) = 100
      \<and> 0 \<le> modevalDMindex lc \<and> modevalDMindex lc < modevalDM_bsize
      \<and> 0 \<le> modevalDMindexl lc \<and> modevalDMindexl lc < modevalDM_bsize
      \<and> framelatency1 lc = framelatency0 lc + 1)"





text \<open>The value of one mode after the two tests of the clip pass with limit \<open>l\<close>, and the
  number of times the pass counts the mode.\<close>

definition clip_value :: "real \<Rightarrow> real \<Rightarrow> real" where
  "clip_value l x = (let y = (if x > l then l else x) in if y < - l then - l else y)"

definition clip_count :: "real \<Rightarrow> real \<Rightarrow> real" where
  "clip_count l x = (if x > l then 1 else 0) + (if (if x > l then l else x) < - l then 1 else 0)"


section \<open>A concrete loop\<close>

text \<open>A loop with two modes in two blocks of one mode each, a frame latency of 1.8 frames,
  four WFS pixels and two actuators. The theorems below are instantiated on it.\<close>

definition conf_example :: AOLOOPCONTROL_CONF where
  "conf_example =
     \<lparr>gain = 0.2, mult = 1, maxlimit = 2, ARPFon = 0, ARPFgain = 0,
      AUTOTUNE_LIMITS_ON = 1, AUTOTUNE_LIMITS_delta = 0.1, AUTOTUNE_LIMITS_perc = 50,
      AUTOTUNE_LIMITS_mcoeff = 1, AUTOTUNE_GAINS_ON = 0, AUTOTUNEGAIN_evolTimescale = 0,
      loopfrequ = 2000, hardwlatency_frame = 1.5, wfsmextrlatency_frame = 0.3,
      DMmodesNBblock = 2, AveStats_NBpt = 1000,
      blockave_OLrms = replicate 100 0, blockave_Crms = replicate 100 0,
      blockave_WFSrms = replicate 100 0, blockave_limFrac = replicate 100 0,
      ALLave_OLrms = 0, ALLave_Crms = 0, ALLave_WFSrms = 0, ALLave_limFrac = 0,
      status = 0, statusM = 0, statusM1 = 0, CMMODE = 0, DMprimaryWrite_ON = 0, GPU1 = 0,
      sizeDM = 2, NBDMmodes = 2, sizeWFS = 4, WFSnormfloor = 0, WFStotalflux = 0,
      AOLCOMPUTE_TOTAL_ASYNC = 0, WFScnt = 0, WFScntRM = 0, DMupdatecnt = 0,
      cnt = 0, cntmax = 100, loop_on = 1\<rparr>"

text \<open>The shared memory before \<^verbatim>\<open>AOloopControl_ComputeOpenLoopModes\<close> starts.\<close>

definition olm_shm_example :: olm_shm where
  "olm_shm_example =
     \<lparr>AOconf = conf_example,
      gainb = [0.5, 1], multfb = [1, 1], limitb = [1, 1],
      GAIN_modes = [2, 1], MULTF_modes = [1, 1], LIMIT_modes = [1, 0.5],
      aoconfID_LIMIT_modes = 5, aoconfID_MULTF_modes = 6, DMmodes_size2 = [1, 1],
      modeval = [0.3, - 4], modevalPF_ID = - 1, modevalPF = [],
      modeval_ol = [], blknb = [], modevalDMnow = [], modevalDMnowfilt = [],
      modevalDM = [], modevalDM_C = [], atlimbcoeff = []\<rparr>"

text \<open>The shared memory and the local variables when the loop is entered.\<close>

definition olm_shm_start :: olm_shm where
  "olm_shm_start =
     olm_shm_example\<lparr>modeval_ol := [0, 0], blknb := [0, 1], modevalDMnow := [0, 0],
        modevalDMnowfilt := [0, 0], modevalDM := [0, 0], modevalDM_C := replicate 40 0,
        atlimbcoeff := [0, 0]\<rparr>"

definition olm_locals_start :: olm_locals where
  "olm_locals_start =
     \<lparr>NBmodes = 2, modeblock = [0, 1], blockNBmodes = (replicate 100 0)[0 := 1, 1 := 1],
      FILTERMODE = 1, framelatency0 = 1, framelatency1 = 2, alpha = 0.8, IDmodevalPF = - 1,
      modegain = [0, 0], modemult = [0, 0], modelimit = [0, 0],
      modevalDMindex = 0, modevalDMindexl = 0, modevalDMindex0 = 0, modevalDMindex1 = 0,
      limitblockarray = replicate 100 0, blockstatcnt = 0,
      blockaveOLrms = replicate 100 0, blockaveCrms = replicate 100 0,
      blockaveWFSrms = replicate 100 0, blockavelimFrac = replicate 100 0,
      allaveOLrms = 0, allaveCrms = 0, allaveWFSrms = 0, allavelimFrac = 0\<rparr>"


text \<open>A second loop with three modes, the first two in block 0 and the third in block 1, before
  \<^verbatim>\<open>AOloopControl_ComputeOpenLoopModes\<close> starts and when its loop is entered.\<close>

definition olm_shm_example3 :: olm_shm where
  "olm_shm_example3 =
     olm_shm_example\<lparr>GAIN_modes := [2, 1, 1], MULTF_modes := [1, 1, 1], LIMIT_modes := [1, 0.5, 300],
        DMmodes_size2 := [2, 1], modeval := [0.3, - 8, 1]\<rparr>"

definition olm_shm_start3 :: olm_shm where
  "olm_shm_start3 =
     olm_shm_example3\<lparr>modeval_ol := [0, 0, 0], blknb := [0, 0, 1], modevalDMnow := [0, 0, 0],
        modevalDMnowfilt := [0, 0, 0], modevalDM := [0, 0, 0], modevalDM_C := replicate 60 0,
        atlimbcoeff := [0, 0]\<rparr>"

definition olm_locals_start3 :: olm_locals where
  "olm_locals_start3 =
     olm_locals_start\<lparr>NBmodes := 3, modeblock := [0, 0, 1],
        blockNBmodes := (replicate 100 0)[0 := 2, 1 := 1],
        modegain := [0, 0, 0], modemult := [0, 0, 0], modelimit := [0, 0, 0]\<rparr>"


text \<open>The shared memory before a call of \<^verbatim>\<open>Read_cam_frame\<close>: a camera frame of four pixels,
  either of type float or of type unsigned 16-bit integer, a dark frame, no mask.\<close>

definition rcf_shm_example :: "image_data \<Rightarrow> real \<Rightarrow> rcf_shm" where
  "rcf_shm_example frame normfloor =
     \<lparr>AOconf = conf_example\<lparr>WFSnormfloor := normfloor\<rparr>,
      wfsim = frame, wfsim_naxis = 2, wfsim_size2 = 0, wfsim_cnt0 = 1, wfsim_cnt1 = 0,
      wfsdark = [10, 10, 10, 10], aoconfID_wfsmask = - 1, wfsmask = [],
      imWFS0 = [0, 0, 0, 0], imWFS1 = [0, 0, 0, 0], aoconfID_imWFS0tot = - 1, imWFS0tot = [],
      arrayftmp = [], arrayutmp = [], Average_cam_frames_nelem = 0, avcamarraysInit = 0,
      IMTOTAL = 0, AOLCOMPUTE_TOTAL_INIT = 0, COMPUTE_GPU_SCALING = 0, GPU_alpha = 0,
      GPU_beta = 0, rcf_normfloorcoeff = 0, PIXSTREAM_SLICE = 0\<rparr>"


text \<open>The shared memory at the end of an iteration of \<^verbatim>\<open>AOloopControl_run\<close> in two-step mode:
  two modes on two actuators, the mode basis the identity, the modal command \<open>[1, 2]\<close>, and
  the primary DM write as the flag \<open>w\<close> says.\<close>

definition run_shm_example :: "int \<Rightarrow> run_shm" where
  "run_shm_example w =
     \<lparr>AOconf = conf_example\<lparr>DMprimaryWrite_ON := w\<rparr>,
      cmd_modes = [1, 2], DMmodes = [1, 0, 0, 1], meas_act = [0, 0], dmC = [0, 0], dmC_cnt0 = 0\<rparr>"



section \<open>Lemmas on the loops and on the stages\<close>


subsection \<open>Loops\<close>

lemma for_loop_0 [simp]: "for_loop 0 body s = s"
  by (simp add: for_loop_def)

lemma for_loop_Suc [simp]: "for_loop (Suc n) body s = body n (for_loop n body s)"
  by (simp add: for_loop_def)


lemma length_for_loop_update [simp]:
  "length (for_loop n (\<lambda>m a. a[ix m := g m a]) a) = length a"
  by (induction n) simp_all

lemma nth_for_loop_update:
  "k < length a \<Longrightarrow> for_loop n (\<lambda>m a. a[m := g m (a ! m)]) a ! k =
     (if k < n then g k (a ! k) else a ! k)"
  by (induction n) (auto simp: nth_list_update less_Suc_eq)

lemma nth_for_loop_update_const:
  "k < length a \<Longrightarrow> for_loop n (\<lambda>m a. a[m := f m]) a ! k = (if k < n then f k else a ! k)"
  using nth_for_loop_update [of k a n "\<lambda>m _. f m"] by simp

lemma nth_for_loop_update_offset:
  "k < length a \<Longrightarrow> for_loop n (\<lambda>m a. a[off + m := f m]) a ! k =
     (if off \<le> k \<and> k < off + n then f (k - off) else a ! k)"
  by (induction n) (auto simp: nth_list_update less_Suc_eq)

subsection \<open>Effective gain, multiplier and limit\<close>

lemma write_gain_mult_limit_eq:
  "write_gain_mult_limit sh lc =
     lc\<lparr>modegain := for_loop (NBmodes lc)
                       (\<lambda>m a. a[m := gain (AOconf sh) * gainb sh ! (modeblock lc ! m) * GAIN_modes sh ! m]) (modegain lc),
        modemult := for_loop (NBmodes lc)
                       (\<lambda>m a. a[m := mult (AOconf sh) * multfb sh ! (modeblock lc ! m) * MULTF_modes sh ! m]) (modemult lc),
        modelimit := for_loop (NBmodes lc)
                       (\<lambda>m a. a[m := limitb sh ! (modeblock lc ! m) * LIMIT_modes sh ! m]) (modelimit lc)\<rparr>"
proof -
  have "for_loop n (\<lambda>m l. l\<lparr>
        modegain := (modegain l)[m := gain (AOconf sh) * gainb sh ! (modeblock l ! m) * GAIN_modes sh ! m],
        modemult := (modemult l)[m := mult (AOconf sh) * multfb sh ! (modeblock l ! m) * MULTF_modes sh ! m],
        modelimit := (modelimit l)[m := limitb sh ! (modeblock l ! m) * LIMIT_modes sh ! m]\<rparr>) lc =
     lc\<lparr>modegain := for_loop n
                       (\<lambda>m a. a[m := gain (AOconf sh) * gainb sh ! (modeblock lc ! m) * GAIN_modes sh ! m]) (modegain lc),
        modemult := for_loop n
                       (\<lambda>m a. a[m := mult (AOconf sh) * multfb sh ! (modeblock lc ! m) * MULTF_modes sh ! m]) (modemult lc),
        modelimit := for_loop n
                       (\<lambda>m a. a[m := limitb sh ! (modeblock lc ! m) * LIMIT_modes sh ! m]) (modelimit lc)\<rparr>" for n
    by (induction n) simp_all
  then show ?thesis by (simp add: write_gain_mult_limit_def)
qed

lemma modegain_write:
  "m < NBmodes lc \<Longrightarrow> m < length (modegain lc) \<Longrightarrow>
   modegain (write_gain_mult_limit sh lc) ! m
     = gain (AOconf sh) * gainb sh ! (modeblock lc ! m) * GAIN_modes sh ! m"
  by (simp add: write_gain_mult_limit_eq nth_for_loop_update_const)

lemma modemult_write:
  "m < NBmodes lc \<Longrightarrow> m < length (modemult lc) \<Longrightarrow>
   modemult (write_gain_mult_limit sh lc) ! m
     = mult (AOconf sh) * multfb sh ! (modeblock lc ! m) * MULTF_modes sh ! m"
  by (simp add: write_gain_mult_limit_eq nth_for_loop_update_const)

lemma modelimit_write:
  "m < NBmodes lc \<Longrightarrow> m < length (modelimit lc) \<Longrightarrow>
   modelimit (write_gain_mult_limit sh lc) ! m
     = limitb sh ! (modeblock lc ! m) * LIMIT_modes sh ! m"
  by (simp add: write_gain_mult_limit_eq nth_for_loop_update_const)


lemma nth_list_update_beyond: "length a \<le> k \<Longrightarrow> a[i := v] ! k = a ! k"
proof (induction a arbitrary: i k)
  case Nil
  then show ?case by simp
next
  case (Cons x xs)
  then show ?case by (cases i; cases k) simp_all
qed

lemma nth_list_update_any: "a[i := v] ! k = (if k = i \<and> i < length a then v else a ! k)"
  by (cases "k < length a") (auto simp: nth_list_update nth_list_update_beyond)

lemma nth_for_loop_update_all:
  "for_loop n (\<lambda>m a. a[m := g m (a ! m)]) a ! k =
     (if k < n \<and> k < length a then g k (a ! k) else a ! k)"
  by (induction n) (auto simp: nth_list_update_any less_Suc_eq)

text \<open>accumulation into a slot chosen by the loop index\<close>

lemma accumulate_rms_eq:
  "accumulate_rms sh lc =
     lc\<lparr>blockaveOLrms := for_loop (NBmodes lc)
            (\<lambda>m a. a[blknb sh ! m := a ! (blknb sh ! m) + modeval_ol sh ! m * modeval_ol sh ! m]) (blockaveOLrms lc),
        blockaveCrms := for_loop (NBmodes lc)
            (\<lambda>m a. a[blknb sh ! m := a ! (blknb sh ! m) + modevalDMnow sh ! m * modevalDMnow sh ! m]) (blockaveCrms lc),
        blockaveWFSrms := for_loop (NBmodes lc)
            (\<lambda>m a. a[blknb sh ! m := a ! (blknb sh ! m) + modeval sh ! m * modeval sh ! m]) (blockaveWFSrms lc)\<rparr>"
proof -
  have "for_loop n (\<lambda>m l.
        let block = blknb sh ! m in
        l\<lparr>blockaveOLrms := (blockaveOLrms l)[block := blockaveOLrms l ! block + modeval_ol sh ! m * modeval_ol sh ! m],
          blockaveCrms := (blockaveCrms l)[block := blockaveCrms l ! block + modevalDMnow sh ! m * modevalDMnow sh ! m],
          blockaveWFSrms := (blockaveWFSrms l)[block := blockaveWFSrms l ! block + modeval sh ! m * modeval sh ! m]\<rparr>) lc =
     lc\<lparr>blockaveOLrms := for_loop n
            (\<lambda>m a. a[blknb sh ! m := a ! (blknb sh ! m) + modeval_ol sh ! m * modeval_ol sh ! m]) (blockaveOLrms lc),
        blockaveCrms := for_loop n
            (\<lambda>m a. a[blknb sh ! m := a ! (blknb sh ! m) + modevalDMnow sh ! m * modevalDMnow sh ! m]) (blockaveCrms lc),
        blockaveWFSrms := for_loop n
            (\<lambda>m a. a[blknb sh ! m := a ! (blknb sh ! m) + modeval sh ! m * modeval sh ! m]) (blockaveWFSrms lc)\<rparr>" for n
    by (induction n) (simp_all add: Let_def)
  then show ?thesis by (simp add: accumulate_rms_def)
qed

lemma publish_loop_control:
  "same_control l (snd (for_loop n publish_block (cf, l)))"
  by (induction n) (simp_all add: same_control_def publish_block_def split_def)

lemma same_control_refl [simp]: "same_control l l"
  by (simp add: same_control_def)

lemma same_control_trans: "same_control a b \<Longrightarrow> same_control b c \<Longrightarrow> same_control a c"
  by (simp add: same_control_def)

lemma telemetry_control: "same_control lc (snd (telemetry sh lc))"
proof -
  define l where "l = (accumulate_rms sh lc)\<lparr>blockstatcnt := blockstatcnt (accumulate_rms sh lc) + 1\<rparr>"
  define r where "r = for_loop (DMmodesNBblock (AOconf sh)) publish_block (AOconf sh, l)"
  have a: "same_control lc l"
    by (simp add: l_def same_control_def accumulate_rms_eq)
  have b: "same_control l (snd r)"
    unfolding r_def by (rule publish_loop_control)
  have c: "same_control (snd r) ((snd r)\<lparr>allaveOLrms := 0, allaveCrms := 0, allaveWFSrms := 0,
              allavelimFrac := 0, blockstatcnt := 0\<rparr>)"
    by (simp add: same_control_def)
  have "snd (telemetry sh lc) =
          (if blockstatcnt l = AveStats_NBpt (AOconf sh)
           then (snd r)\<lparr>allaveOLrms := 0, allaveCrms := 0, allaveWFSrms := 0,
              allavelimFrac := 0, blockstatcnt := 0\<rparr> else l)"
    by (simp add: telemetry_def Let_def split_def l_def r_def)
  then show ?thesis
    using a same_control_trans [OF a same_control_trans [OF b c]] by simp
qed


subsection \<open>The modal integrator update\<close>

lemma nth_update_modevalDMnow:
  "m < n \<Longrightarrow> m < length dmnow \<Longrightarrow>
   update_modevalDMnow n mmult mgain ring il meas dmnow ! m
     = mmult ! m * (ring ! nat (il * int n + int m) - mgain ! m * meas ! m)"
  by (simp add: update_modevalDMnow_def nth_for_loop_update_const)

lemma length_update_modevalDMnow [simp]:
  "length (update_modevalDMnow n mmult mgain ring il meas dmnow) = length dmnow"
  by (simp add: update_modevalDMnow_def)

lemma mix_prediction_off: "ARPFon (AOconf sh) \<noteq> 1 \<Longrightarrow> mix_prediction sh lc = (sh, lc)"
  by (simp add: mix_prediction_def)

lemma mix_prediction_fst:
  "\<exists>y. fst (mix_prediction sh lc) = sh\<lparr>modevalDMnow := y\<rparr> \<and> length y = length (modevalDMnow sh)"
  by (rule exI [of _ "modevalDMnow (fst (mix_prediction sh lc))"]) (simp add: mix_prediction_def)

lemma mix_prediction_snd: "\<exists>x. snd (mix_prediction sh lc) = lc\<lparr>IDmodevalPF := x\<rparr>"
  by (rule exI [of _ "IDmodevalPF (snd (mix_prediction sh lc))"]) (simp add: mix_prediction_def)

subsection \<open>The clip pass\<close>

lemma clip_mode_step:
  assumes "m < length filt"
  shows "clip_mode (blknb sh) (modelimit lc) m (filt, lf) =
     (filt[m := clip_value (modelimit lc ! m) (filt ! m)],
      lf[blknb sh ! m := lf ! (blknb sh ! m) + clip_count (modelimit lc ! m) (filt ! m)])"
proof -
  have two: "lf[b := lf[b := lf ! b + 1] ! b + 1] = lf[b := lf ! b + 2]" for b
    by (cases "b < length lf") (simp_all add: add.commute list_update_beyond)
  show ?thesis
    using assms
    by (simp add: clip_mode_def clip_value_def clip_count_def Let_def two)
qed

lemma clip_loop_eq:
  assumes "n \<le> length filt"
  shows "for_loop n (clip_mode (blknb sh) (modelimit lc)) (filt, lf) =
     (for_loop n (\<lambda>m a. a[m := clip_value (modelimit lc ! m) (a ! m)]) filt,
      for_loop n (\<lambda>m a. a[blknb sh ! m := a ! (blknb sh ! m) + clip_count (modelimit lc ! m) (filt ! m)]) lf)"
  using assms
proof (induction n)
  case 0
  then show ?case by simp
next
  case (Suc n)
  let ?F = "for_loop n (\<lambda>m a. a[m := clip_value (modelimit lc ! m) (a ! m)]) filt"
  have n: "n < length ?F" using Suc.prems by simp
  have same: "?F ! n = filt ! n"
    using Suc.prems
    by (simp add: nth_for_loop_update_all [where g = "\<lambda>m x. clip_value (modelimit lc ! m) x"])
  have "for_loop (Suc n) (clip_mode (blknb sh) (modelimit lc)) (filt, lf) =
          clip_mode (blknb sh) (modelimit lc) n (?F, for_loop n (\<lambda>m a. a[blknb sh ! m := a ! (blknb sh ! m)
             + clip_count (modelimit lc ! m) (filt ! m)]) lf)"
    using Suc by simp
  also have "\<dots> = (for_loop (Suc n) (\<lambda>m a. a[m := clip_value (modelimit lc ! m) (a ! m)]) filt,
      for_loop (Suc n) (\<lambda>m a. a[blknb sh ! m := a ! (blknb sh ! m) + clip_count (modelimit lc ! m) (filt ! m)]) lf)"
    by (simp add: clip_mode_step [OF n] same)
  finally show ?case .
qed

lemma filter_modes_eq:
  assumes "NBmodes lc \<le> length (modevalDMnowfilt sh)" "FILTERMODE lc = 1"
  shows "filter_modes sh lc =
    (sh\<lparr>modevalDMnowfilt := for_loop (NBmodes lc) (\<lambda>m a. a[m := clip_value (modelimit lc ! m) (a ! m)]) (modevalDMnowfilt sh)\<rparr>,
     lc\<lparr>blockavelimFrac := for_loop (NBmodes lc) (\<lambda>m a. a[blknb sh ! m := a ! (blknb sh ! m)
             + clip_count (modelimit lc ! m) (modevalDMnowfilt sh ! m)]) (blockavelimFrac lc)\<rparr>)"
  by (simp add: filter_modes_def clip_loop_eq [OF assms(1)] assms(2))

lemma clip_value_bound: "0 \<le> l \<Longrightarrow> \<bar>clip_value l x\<bar> \<le> l"
  by (auto simp: clip_value_def Let_def)

lemma clip_count_nonneg_limit: "0 \<le> l \<Longrightarrow> clip_count l x = (if \<bar>x\<bar> > l then 1 else 0)"
  by (auto simp: clip_count_def)

lemma clip_value_id: "\<bar>x\<bar> \<le> l \<Longrightarrow> clip_value l x = x"
  by (auto simp: clip_value_def Let_def)


lemma telemetry_fst: "\<exists>cf. fst (telemetry sh lc) = sh\<lparr>AOconf := cf\<rparr>"
  by (rule exI [of _ "AOconf (fst (telemetry sh lc))"])
     (simp add: telemetry_def Let_def split_def)

lemma nat_slot_index: "0 \<le> i \<Longrightarrow> nat (i * int n + int m) = nat i * n + m"
  by (simp add: nat_add_distrib nat_mult_distrib)

lemma slot_index_less:
  assumes "0 \<le> i" "i < modevalDM_bsize" "m < n"
  shows "nat i * n + m < n * nat modevalDM_bsize"
proof -
  have "nat i + 1 \<le> nat modevalDM_bsize" using assms by simp
  then have "(nat i + 1) * n \<le> nat modevalDM_bsize * n" by (rule mult_le_mono1)
  then show ?thesis using assms(3) by (simp add: mult.commute)
qed

text \<open>The commit writes slot \<open>modevalDMindex\<close> and nothing else.\<close>

lemma commit_filt_ring:
  assumes "0 \<le> modevalDMindex lc"
  shows "modevalDM_C (commit_filt sh lc) =
     for_loop (NBmodes lc) (\<lambda>m a. a[nat (modevalDMindex lc) * NBmodes lc + m := modevalDMnowfilt sh ! m])
       (modevalDM_C sh)"
  using assms by (simp add: commit_filt_def nat_slot_index)

lemma commit_filt_nth:
  assumes "0 \<le> modevalDMindex lc" "k < length (modevalDM_C sh)"
  shows "modevalDM_C (commit_filt sh lc) ! k =
     (if nat (modevalDMindex lc) * NBmodes lc \<le> k \<and> k < nat (modevalDMindex lc) * NBmodes lc + NBmodes lc
      then modevalDMnowfilt sh ! (k - nat (modevalDMindex lc) * NBmodes lc)
      else modevalDM_C sh ! k)"
  using assms by (simp add: commit_filt_ring nth_for_loop_update_offset)

lemma length_commit_filt [simp]: "length (modevalDM_C (commit_filt sh lc)) = length (modevalDM_C sh)"
  by (simp add: commit_filt_def)


subsection \<open>The open-loop estimate\<close>

lemma estimate_open_loop_result:
  assumes ok: "slot_ok (NBmodes lc) (modevalDMindex lc)"
    and ok0: "slot_ok (NBmodes lc) (modevalDMindex0 (lag_indices lc))"
    and ok1: "slot_ok (NBmodes lc) (modevalDMindex1 (lag_indices lc))"
  obtains cf lc' where
    "estimate_open_loop sh lc =
       Inr ((open_loop_state (dm_at_measurement (commit_filt sh lc) (lag_indices lc)) (lag_indices lc))\<lparr>AOconf := cf\<rparr>, lc')"
    "same_control (advance_index (lag_indices lc)) lc'"
proof -
  let ?l = "lag_indices lc"
  have nb: "NBmodes ?l = NBmodes lc" by (simp add: lag_indices_def Let_def)
  let ?s = "set_statusM1 8 (open_loop_state (set_statusM1 7 (dm_at_measurement (set_statusM1 6 (commit_filt sh lc)) ?l)) ?l)"
  let ?a = "advance_index ?l"
  obtain cf where cf: "fst (telemetry ?s ?a) = ?s\<lparr>AOconf := cf\<rparr>"
    using telemetry_fst by blast
  have e: "estimate_open_loop sh lc = Inr (set_statusM1 9 (fst (telemetry ?s ?a)), snd (telemetry ?s ?a))"
    using ok ok0 ok1 by (simp add: estimate_open_loop_def Let_def split_def nb)
  have "set_statusM1 9 (fst (telemetry ?s ?a)) =
      (open_loop_state (dm_at_measurement (commit_filt sh lc) ?l) ?l)\<lparr>AOconf := cf\<lparr>statusM1 := 9\<rparr>\<rparr>"
    unfolding cf
    by (simp add: set_statusM1_def open_loop_state_def dm_at_measurement_def commit_filt_def)
  with e telemetry_control [of ?a ?s] that show thesis by simp
qed


subsection \<open>The limit tuner\<close>






text \<open>Sums scattered into an array.\<close>

lemma nth_scatter_add:
  fixes a :: "real list"
  assumes "b < length a"
  shows "for_loop n (\<lambda>m a. a[ix m := a ! ix m + v m]) a ! b
           = a ! b + sum_list (map v (filter (\<lambda>m. ix m = b) [0..<n]))"
  using assms by (induction n) (auto simp: nth_list_update_any)

lemma length_scatter_add [simp]:
  "length (for_loop n (\<lambda>m a. a[ix m := a ! ix m + v m]) a) = length a"
  by (induction n) simp_all

lemma limit_coeff_range:
  assumes "0 \<le> delta"
  shows "1 - delta \<le> limit_coeff delta x \<and> limit_coeff delta x \<le> 1 + delta"
  using assms by (auto simp: limit_coeff_def Let_def)


subsection \<open>The integrator as a chain of stages\<close>

lemma write_gain_mult_limit_status [simp]:
  "write_gain_mult_limit (set_statusM v sh) lc = write_gain_mult_limit sh lc"
  by (simp add: write_gain_mult_limit_eq set_statusM_def)

lemma write_gain_mult_limit_control [simp]:
  "NBmodes (write_gain_mult_limit sh lc) = NBmodes lc"
  "modeblock (write_gain_mult_limit sh lc) = modeblock lc"
  "modevalDMindexl (write_gain_mult_limit sh lc) = modevalDMindexl lc"
  "modevalDMindex (write_gain_mult_limit sh lc) = modevalDMindex lc"
  "FILTERMODE (write_gain_mult_limit sh lc) = FILTERMODE lc"
  "framelatency0 (write_gain_mult_limit sh lc) = framelatency0 lc"
  "framelatency1 (write_gain_mult_limit sh lc) = framelatency1 lc"
  "alpha (write_gain_mult_limit sh lc) = alpha lc"
  "blockNBmodes (write_gain_mult_limit sh lc) = blockNBmodes lc"
  "blockavelimFrac (write_gain_mult_limit sh lc) = blockavelimFrac lc"
  "limitblockarray (write_gain_mult_limit sh lc) = limitblockarray lc"
  "blockstatcnt (write_gain_mult_limit sh lc) = blockstatcnt lc"
  "length (modegain (write_gain_mult_limit sh lc)) = length (modegain lc)"
  "length (modemult (write_gain_mult_limit sh lc)) = length (modemult lc)"
  "length (modelimit (write_gain_mult_limit sh lc)) = length (modelimit lc)"
  by (simp_all add: write_gain_mult_limit_eq)

lemma autotune_limits_frame:
  "autotune_limits sh lc =
     (sh\<lparr>LIMIT_modes := LIMIT_modes (fst (autotune_limits sh lc)),
         atlimbcoeff := atlimbcoeff (fst (autotune_limits sh lc)),
         limitb := limitb (fst (autotune_limits sh lc))\<rparr>,
      lc\<lparr>limitblockarray := limitblockarray (snd (autotune_limits sh lc))\<rparr>)"
  by (simp add: autotune_limits_def split_def Let_def)

lemma filter_modes_frame:
  "filter_modes sh lc =
     (sh\<lparr>modevalDMnowfilt := modevalDMnowfilt (fst (filter_modes sh lc))\<rparr>,
      lc\<lparr>blockavelimFrac := blockavelimFrac (snd (filter_modes sh lc))\<rparr>)"
  by (simp add: filter_modes_def split_def Let_def)

lemma integrate_modes_stages:
  assumes "slot_ok (NBmodes lc) (modevalDMindexl lc)"
  obtains s1 s2 l2 s3 s4 l4 s5 l5 where
    "s1 = set_statusM 4 (update_dm_state (set_statusM 3 sh) (write_gain_mult_limit sh lc))"
    "mix_prediction s1 (write_gain_mult_limit sh lc) = (s2, l2)"
    "s3 = copy_to_filt (set_statusM 5 s2) l2"
    "autotune_limits s3 l2 = (s4, l4)"
    "filter_modes s4 l4 = (s5, l5)"
    "integrate_modes sh lc = Inr (set_statusM 6 s5, l5)"
proof -
  define s1 where "s1 = set_statusM 4 (update_dm_state (set_statusM 3 sh) (write_gain_mult_limit sh lc))"
  define s2 where "s2 = fst (mix_prediction s1 (write_gain_mult_limit sh lc))"
  define l2 where "l2 = snd (mix_prediction s1 (write_gain_mult_limit sh lc))"
  define s3 where "s3 = copy_to_filt (set_statusM 5 s2) l2"
  define s4 where "s4 = fst (autotune_limits s3 l2)"
  define l4 where "l4 = snd (autotune_limits s3 l2)"
  define s5 where "s5 = fst (filter_modes s4 l4)"
  define l5 where "l5 = snd (filter_modes s4 l4)"
  have "integrate_modes sh lc = Inr (set_statusM 6 s5, l5)"
    using assms
    by (simp add: integrate_modes_def Let_def split_def s1_def s2_def l2_def s3_def s4_def l4_def
        s5_def l5_def)
  then show thesis
    using that [of s1 s2 l2 s3 s4 l4 s5 l5]
    by (simp add: s1_def s2_def l2_def s3_def s4_def l4_def s5_def l5_def)
qed

lemma integrate_modes_fails:
  "\<not> slot_ok (NBmodes lc) (modevalDMindexl lc) \<Longrightarrow> integrate_modes sh lc = Inl OutOfBounds"
  by (simp add: integrate_modes_def Let_def)

lemma integrate_modes_frame:
  assumes "integrate_modes sh lc = Inr (sh', lc')"
  shows "sh' = sh\<lparr>AOconf := (AOconf sh)\<lparr>statusM := 6\<rparr>,
                   modevalDMnow := modevalDMnow sh', modevalDMnowfilt := modevalDMnowfilt sh',
                   LIMIT_modes := LIMIT_modes sh', atlimbcoeff := atlimbcoeff sh', limitb := limitb sh'\<rparr>"
    and "lc' = (write_gain_mult_limit sh lc)\<lparr>IDmodevalPF := IDmodevalPF lc',
                   limitblockarray := limitblockarray lc', blockavelimFrac := blockavelimFrac lc'\<rparr>"
    and "slot_ok (NBmodes lc) (modevalDMindexl lc)"
proof -
  show ok: "slot_ok (NBmodes lc) (modevalDMindexl lc)"
    using assms integrate_modes_fails [of lc sh] by auto
  from integrate_modes_stages [OF ok, of sh]
  obtain s1 s2 l2 s3 s4 l4 s5 l5 where st:
    "s1 = set_statusM 4 (update_dm_state (set_statusM 3 sh) (write_gain_mult_limit sh lc))"
    "mix_prediction s1 (write_gain_mult_limit sh lc) = (s2, l2)"
    "s3 = copy_to_filt (set_statusM 5 s2) l2"
    "autotune_limits s3 l2 = (s4, l4)"
    "filter_modes s4 l4 = (s5, l5)"
    "integrate_modes sh lc = Inr (set_statusM 6 s5, l5)"
    by metis
  obtain y x where m: "s2 = s1\<lparr>modevalDMnow := y\<rparr>" "l2 = (write_gain_mult_limit sh lc)\<lparr>IDmodevalPF := x\<rparr>"
    using mix_prediction_fst [of s1 "write_gain_mult_limit sh lc"]
      mix_prediction_snd [of s1 "write_gain_mult_limit sh lc"] st(2) by auto
  obtain a b c d where at: "s4 = s3\<lparr>LIMIT_modes := a, atlimbcoeff := b, limitb := c\<rparr>"
      "l4 = l2\<lparr>limitblockarray := d\<rparr>"
    using autotune_limits_frame [of s3 l2] st(4) by auto
  obtain f g where fm: "s5 = s4\<lparr>modevalDMnowfilt := f\<rparr>" "l5 = l4\<lparr>blockavelimFrac := g\<rparr>"
    using filter_modes_frame [of s4 l4] st(5) by auto
  have r: "sh' = set_statusM 6 s5" "lc' = l5" using assms st(6) by simp_all
  show "sh' = sh\<lparr>AOconf := (AOconf sh)\<lparr>statusM := 6\<rparr>,
                   modevalDMnow := modevalDMnow sh', modevalDMnowfilt := modevalDMnowfilt sh',
                   LIMIT_modes := LIMIT_modes sh', atlimbcoeff := atlimbcoeff sh', limitb := limitb sh'\<rparr>"
    unfolding r fm at m st(1,3)
    by (simp add: set_statusM_def update_dm_state_def copy_to_filt_def)
  show "lc' = (write_gain_mult_limit sh lc)\<lparr>IDmodevalPF := IDmodevalPF lc',
                   limitblockarray := limitblockarray lc', blockavelimFrac := blockavelimFrac lc'\<rparr>"
    unfolding r fm at m by simp
qed


lemma olm_wfD:
  assumes "olm_wf sh lc"
  shows "length (modeval sh) = NBmodes lc" "length (LIMIT_modes sh) = NBmodes lc"
    "length (modevalDMnow sh) = NBmodes lc" "length (modevalDMnowfilt sh) = NBmodes lc"
    "length (modevalDM sh) = NBmodes lc" "length (modeval_ol sh) = NBmodes lc"
    "length (modevalDM_C sh) = NBmodes lc * nat modevalDM_bsize"
    "length (blknb sh) = NBmodes lc" "length (modeblock lc) = NBmodes lc"
    "length (limitb sh) = DMmodesNBblock (AOconf sh)"
    "length (atlimbcoeff sh) = DMmodesNBblock (AOconf sh)"
    "length (modegain lc) = NBmodes lc" "length (modemult lc) = NBmodes lc"
    "length (modelimit lc) = NBmodes lc"
    "DMmodesNBblock (AOconf sh) \<le> 100" "length (limitblockarray lc) = 100"
    "length (blockavelimFrac lc) = 100"
    "0 \<le> modevalDMindex lc" "modevalDMindex lc < modevalDM_bsize"
    "0 \<le> modevalDMindexl lc" "modevalDMindexl lc < modevalDM_bsize"
    "framelatency1 lc = framelatency0 lc + 1"
    "\<And>m. m < NBmodes lc \<Longrightarrow> blknb sh ! m < DMmodesNBblock (AOconf sh)"
  using assms by (simp_all add: olm_wf_def Let_def list_all_length)

lemma slot_ok_range: "0 \<le> i \<Longrightarrow> i < modevalDM_bsize \<Longrightarrow> slot_ok n i"
  by (simp add: slot_ok_def)

text \<open>What the integrator computes, stage by stage.\<close>

lemma integrate_modes_values:
  assumes wf: "olm_wf sh lc"
  obtains s1 l1 where
    "integrate_modes sh lc = Inr (s1, l1)"
    "ARPFon (AOconf sh) \<noteq> 1 \<Longrightarrow>
       modevalDMnow s1 = modevalDMnow (update_dm_state sh (write_gain_mult_limit sh lc))"
    "length (modevalDMnow s1) = NBmodes lc"
    "length (modevalDMnowfilt s1) = NBmodes lc"
    "FILTERMODE lc = 1 \<Longrightarrow> \<forall>m<NBmodes lc. modevalDMnowfilt s1 ! m
         = clip_value (modelimit (write_gain_mult_limit sh lc) ! m) (modevalDMnow s1 ! m)"
    "FILTERMODE lc \<noteq> 1 \<Longrightarrow> \<forall>m<NBmodes lc. modevalDMnowfilt s1 ! m = modevalDMnow s1 ! m"
    "FILTERMODE lc = 1 \<Longrightarrow> blockavelimFrac l1 =
        for_loop (NBmodes lc) (\<lambda>m a. a[blknb sh ! m := a ! (blknb sh ! m)
             + clip_count (modelimit (write_gain_mult_limit sh lc) ! m) (modevalDMnow s1 ! m)]) (blockavelimFrac lc)"
proof -
  note w = olm_wfD [OF wf]
  have ok: "slot_ok (NBmodes lc) (modevalDMindexl lc)"
    using w by (simp add: slot_ok_range)
  let ?lw = "write_gain_mult_limit sh lc"
  from integrate_modes_stages [OF ok, of sh]
  obtain s1 s2 l2 s3 s4 l4 s5 l5 where st:
    "s1 = set_statusM 4 (update_dm_state (set_statusM 3 sh) ?lw)"
    "mix_prediction s1 ?lw = (s2, l2)"
    "s3 = copy_to_filt (set_statusM 5 s2) l2"
    "autotune_limits s3 l2 = (s4, l4)"
    "filter_modes s4 l4 = (s5, l5)"
    "integrate_modes sh lc = Inr (set_statusM 6 s5, l5)"
    by metis
  obtain y x where m: "s2 = s1\<lparr>modevalDMnow := y\<rparr>" "length y = length (modevalDMnow s1)"
      "l2 = ?lw\<lparr>IDmodevalPF := x\<rparr>"
    using mix_prediction_fst [of s1 ?lw] mix_prediction_snd [of s1 ?lw] st(2) by auto
  obtain a b c d where at: "s4 = s3\<lparr>LIMIT_modes := a, atlimbcoeff := b, limitb := c\<rparr>"
      "l4 = l2\<lparr>limitblockarray := d\<rparr>"
    using autotune_limits_frame [of s3 l2] st(4) by auto
  have len1: "length (modevalDMnow s1) = NBmodes lc"
    using w by (simp add: st(1) set_statusM_def update_dm_state_def)
  have leny: "length y = NBmodes lc" using m(2) len1 by simp
  have now4: "modevalDMnow s4 = y" "blknb s4 = blknb sh"
    by (simp_all add: at m st(3) st(1) copy_to_filt_def set_statusM_def update_dm_state_def)
  have filt4: "length (modevalDMnowfilt s4) = NBmodes lc" "\<forall>k<NBmodes lc. modevalDMnowfilt s4 ! k = y ! k"
    using w by (simp_all add: at m st(3) copy_to_filt_def set_statusM_def st(1) update_dm_state_def
        nth_for_loop_update_const)
  have l4: "NBmodes l4 = NBmodes lc" "modelimit l4 = modelimit ?lw" "FILTERMODE l4 = FILTERMODE lc"
      "blockavelimFrac l4 = blockavelimFrac lc"
    by (simp_all add: at m)
  obtain f g where fm: "s5 = s4\<lparr>modevalDMnowfilt := f\<rparr>" "l5 = l4\<lparr>blockavelimFrac := g\<rparr>"
    using filter_modes_frame [of s4 l4] st(5) by auto
  show thesis
  proof (rule that [of "set_statusM 6 s5" l5])
    show "integrate_modes sh lc = Inr (set_statusM 6 s5, l5)" by (rule st(6))
    have now5: "modevalDMnow (set_statusM 6 s5) = y"
      using now4 by (simp add: fm set_statusM_def)
    show "modevalDMnow (set_statusM 6 s5) = modevalDMnow (update_dm_state sh ?lw)"
      if "ARPFon (AOconf sh) \<noteq> 1"
    proof -
      have "ARPFon (AOconf s1) \<noteq> 1" using that by (simp add: st(1) set_statusM_def update_dm_state_def)
      then have "s2 = s1" using mix_prediction_off [of s1 ?lw] st(2) by simp
      then have "modevalDMnow s1 = modevalDMnow (s1\<lparr>modevalDMnow := y\<rparr>)" using m(1) by simp
      then have "y = modevalDMnow s1" by simp
      then show ?thesis
        unfolding now5 by (simp add: st(1) set_statusM_def update_dm_state_def)
    qed
    show "length (modevalDMnow (set_statusM 6 s5)) = NBmodes lc"
      unfolding now5 by (rule leny)
    show "length (modevalDMnowfilt (set_statusM 6 s5)) = NBmodes lc"
    proof (cases "FILTERMODE lc = 1")
      case True
      then show ?thesis
        using filter_modes_eq [of l4 s4] st(5) filt4 l4 by (auto simp: set_statusM_def)
    next
      case False
      then show ?thesis
        using st(5) filt4 l4 by (auto simp: filter_modes_def set_statusM_def)
    qed
    show "\<forall>m<NBmodes lc. modevalDMnowfilt (set_statusM 6 s5) ! m
         = clip_value (modelimit ?lw ! m) (modevalDMnow (set_statusM 6 s5) ! m)"
      if "FILTERMODE lc = 1"
      unfolding now5
      using that filter_modes_eq [of l4 s4] st(5) filt4 l4
      by (auto simp: set_statusM_def
          nth_for_loop_update_all [where g = "\<lambda>m x. clip_value (modelimit ?lw ! m) x"])
    show "\<forall>m<NBmodes lc. modevalDMnowfilt (set_statusM 6 s5) ! m = modevalDMnow (set_statusM 6 s5) ! m"
      if "FILTERMODE lc \<noteq> 1"
      unfolding now5
      using that st(5) filt4 l4 by (auto simp: filter_modes_def set_statusM_def)
    show "blockavelimFrac l5 =
        for_loop (NBmodes lc) (\<lambda>m a. a[blknb sh ! m := a ! (blknb sh ! m)
             + clip_count (modelimit ?lw ! m) (modevalDMnow (set_statusM 6 s5) ! m)]) (blockavelimFrac lc)"
      if "FILTERMODE lc = 1"
    proof -
      have "for_loop n (\<lambda>m a. a[blknb sh ! m := a ! (blknb sh ! m)
             + clip_count (modelimit ?lw ! m) (modevalDMnowfilt s4 ! m)]) fr
         = for_loop n (\<lambda>m a. a[blknb sh ! m := a ! (blknb sh ! m)
             + clip_count (modelimit ?lw ! m) (y ! m)]) fr" if "n \<le> NBmodes lc" for n fr
        using that filt4(2) by (induction n) simp_all
      then show ?thesis
        unfolding now5
        using that filter_modes_eq [of l4 s4] st(5) filt4 l4 now4 by auto
    qed
  qed
qed



section \<open>The circular buffer and the lag indices\<close>


lemma setup_example:
  "ComputeOpenLoopModes_setup olm_shm_example = Inr (olm_shm_start, olm_locals_start)"
  by (simp add: ComputeOpenLoopModes_setup_def olm_shm_example_def conf_example_def
      olm_shm_start_def olm_locals_start_def long_of_float_def modevalDM_bsize_def
      numeral_2_eq_2 One_nat_def)

lemma olm_wf_start: "olm_wf olm_shm_start olm_locals_start"
  by (simp add: olm_wf_def olm_shm_start_def olm_locals_start_def olm_shm_example_def
      conf_example_def modevalDM_bsize_def Let_def)

lemma single_wrap_mod:
  fixes x :: int
  assumes "- 20 \<le> x" "x < 20"
  shows "(if x < 0 then x + 20 else x) = x mod 20"
  using assms by presburger

lemma lag_indices_mod:
  assumes "0 \<le> modevalDMindex lc" "modevalDMindex lc < modevalDM_bsize"
    and "0 \<le> framelatency0 lc" "framelatency0 lc \<le> 19" "framelatency1 lc = framelatency0 lc + 1"
  shows "modevalDMindex0 (lag_indices lc) = (modevalDMindex lc - framelatency0 lc) mod modevalDM_bsize"
    and "modevalDMindex1 (lag_indices lc) = (modevalDMindex lc - framelatency0 lc - 1) mod modevalDM_bsize"
proof -
  let ?x = "modevalDMindex lc - framelatency0 lc"
  have r: "- 20 \<le> ?x" "?x < 20" "- 20 \<le> ?x - 1" "?x - 1 < 20"
    using assms by (simp_all add: modevalDM_bsize_def)
  have i0: "modevalDMindex0 (lag_indices lc) = (if ?x < 0 then ?x + 20 else ?x)"
    by (simp add: lag_indices_def Let_def modevalDM_bsize_def)
  have i1: "modevalDMindex1 (lag_indices lc) = (if ?x - 1 < 0 then ?x - 1 + 20 else ?x - 1)"
    using assms(5) by (auto simp: lag_indices_def Let_def modevalDM_bsize_def)
  show "modevalDMindex0 (lag_indices lc) = ?x mod modevalDM_bsize"
    unfolding i0 modevalDM_bsize_def by (rule single_wrap_mod [OF r(1,2)])
  show "modevalDMindex1 (lag_indices lc) = (?x - 1) mod modevalDM_bsize"
    unfolding i1 modevalDM_bsize_def by (rule single_wrap_mod [OF r(3,4)])
qed

lemma lag_indices_in_range:
  assumes "0 \<le> modevalDMindex lc" "modevalDMindex lc < modevalDM_bsize"
    and "0 \<le> framelatency0 lc" "framelatency0 lc \<le> 19" "framelatency1 lc = framelatency0 lc + 1"
  shows "0 \<le> modevalDMindex0 (lag_indices lc) \<and> modevalDMindex0 (lag_indices lc) < modevalDM_bsize
       \<and> 0 \<le> modevalDMindex1 (lag_indices lc) \<and> modevalDMindex1 (lag_indices lc) < modevalDM_bsize"
  using assms by (auto simp: lag_indices_def modevalDM_bsize_def Let_def)

lemma lag_indices_control [simp]:
  "NBmodes (lag_indices lc) = NBmodes lc"
  "modevalDMindex (lag_indices lc) = modevalDMindex lc"
  "framelatency0 (lag_indices lc) = framelatency0 lc"
  "framelatency1 (lag_indices lc) = framelatency1 lc"
  "alpha (lag_indices lc) = alpha lc"
  by (simp_all add: lag_indices_def Let_def)

lemma advance_index_cursor:
  "modevalDMindexl (advance_index lc) = modevalDMindex lc"
  "modevalDMindex (advance_index lc) = (if modevalDMindex lc + 1 = modevalDM_bsize then 0 else modevalDMindex lc + 1)"
  "NBmodes (advance_index lc) = NBmodes lc"
  "framelatency0 (advance_index lc) = framelatency0 lc"
  "framelatency1 (advance_index lc) = framelatency1 lc"
  by (simp_all add: advance_index_def Let_def)

lemma estimate_open_loop_fails:
  assumes "0 < NBmodes lc" "0 \<le> modevalDMindex lc" "modevalDMindex lc < modevalDM_bsize"
    and "modevalDMindex1 (lag_indices lc) < 0"
  shows "estimate_open_loop sh lc = Inl OutOfBounds"
  using assms by (simp add: estimate_open_loop_def Let_def slot_ok_def)

text \<open>The two cursors stay inside the buffer and the lag indices stay as the setup left them.\<close>

lemma iteration_cursor:
  assumes "ComputeOpenLoopModes_iteration sh lc = Inr (sh', lc')"
  shows "modevalDMindexl lc' = modevalDMindex lc"
    and "modevalDMindex lc' = (if modevalDMindex lc + 1 = modevalDM_bsize then 0 else modevalDMindex lc + 1)"
    and "framelatency0 lc' = framelatency0 lc" and "framelatency1 lc' = framelatency1 lc"
    and "NBmodes lc' = NBmodes lc"
proof -
  obtain s1 l1 where i: "integrate_modes sh lc = Inr (s1, l1)" and e: "estimate_open_loop s1 l1 = Inr (sh', lc')"
    using assms by (auto simp: ComputeOpenLoopModes_iteration_def split: sum.splits)
  note f = integrate_modes_frame [OF i]
  have l1: "modevalDMindex l1 = modevalDMindex lc" "framelatency0 l1 = framelatency0 lc"
      "framelatency1 l1 = framelatency1 lc" "NBmodes l1 = NBmodes lc"
    by (subst f(2), simp)+
  have ok: "slot_ok (NBmodes l1) (modevalDMindex l1)"
      "slot_ok (NBmodes l1) (modevalDMindex0 (lag_indices l1))"
      "slot_ok (NBmodes l1) (modevalDMindex1 (lag_indices l1))"
    using e by (auto simp: estimate_open_loop_def Let_def split: if_splits)
  from estimate_open_loop_result [OF ok, of s1] e
  have c: "same_control (advance_index (lag_indices l1)) lc'"
    by (metis Pair_inject sum.inject(2))
  show "modevalDMindexl lc' = modevalDMindex lc"
    and "modevalDMindex lc' = (if modevalDMindex lc + 1 = modevalDM_bsize then 0 else modevalDMindex lc + 1)"
    and "framelatency0 lc' = framelatency0 lc" and "framelatency1 lc' = framelatency1 lc"
    and "NBmodes lc' = NBmodes lc"
    using c l1 by (simp_all add: same_control_def advance_index_cursor)
qed

text \<open>
  Claim C10. The circular buffer of DM states has exactly 20 slots: \<open>modevalDM_bsize\<close> is 20
  and the setup creates the buffer with 20 slots of \<open>NBmodes\<close> values, puts the cursor at 0
  and takes the integer part of the total latency (hardware latency plus WFS extraction
  latency) as the first lag index. An iteration keeps the cursor inside \<open>[0, 20)\<close> and leaves
  the lag indices alone. When the integer part \<open>L0\<close> of the latency is between 0 and 19, the
  two slot indices read in an iteration, \<open>cursor - L0\<close> and \<open>cursor - L0 - 1\<close>, each corrected
  by one addition of the buffer size when negative, are inside \<open>[0, 20)\<close>. When \<open>L0\<close> is
  larger than 19 the single correction is not enough: at cursor 0 the second index is
  negative and the read is outside the buffer.
\<close>

theorem history_read_indices_in_bounds:
  "modevalDM_bsize = 20
   \<and> (\<forall>sh sh' lc. ComputeOpenLoopModes_setup sh = Inr (sh', lc) \<longrightarrow>
         length (modevalDM_C sh') = NBmodes lc * 20 \<and> modevalDMindex lc = 0
         \<and> framelatency0 lc = long_of_float (hardwlatency_frame (AOconf sh) + wfsmextrlatency_frame (AOconf sh))
         \<and> framelatency1 lc = framelatency0 lc + 1)
   \<and> (\<forall>sh lc sh' lc'. ComputeOpenLoopModes_iteration sh lc = Inr (sh', lc')
         \<and> 0 \<le> modevalDMindex lc \<and> modevalDMindex lc < 20 \<longrightarrow>
         0 \<le> modevalDMindex lc' \<and> modevalDMindex lc' < 20
         \<and> framelatency0 lc' = framelatency0 lc \<and> framelatency1 lc' = framelatency1 lc)
   \<and> (\<forall>lc. 0 \<le> modevalDMindex lc \<and> modevalDMindex lc < 20
         \<and> 0 \<le> framelatency0 lc \<and> framelatency0 lc \<le> 19 \<and> framelatency1 lc = framelatency0 lc + 1 \<longrightarrow>
         0 \<le> modevalDMindex0 (lag_indices lc) \<and> modevalDMindex0 (lag_indices lc) < 20
         \<and> 0 \<le> modevalDMindex1 (lag_indices lc) \<and> modevalDMindex1 (lag_indices lc) < 20)
   \<and> (\<forall>sh lc L0. 19 < L0 \<and> 0 < NBmodes lc \<longrightarrow>
         modevalDMindex1 (lag_indices (lc\<lparr>modevalDMindex := 0, framelatency0 := L0, framelatency1 := L0 + 1\<rparr>)) < 0
         \<and> estimate_open_loop sh (lc\<lparr>modevalDMindex := 0, framelatency0 := L0, framelatency1 := L0 + 1\<rparr>)
             = Inl OutOfBounds)"
proof (intro conjI allI impI)
  show "modevalDM_bsize = 20" by (simp add: modevalDM_bsize_def)
next
  fix sh sh' lc
  assume s: "ComputeOpenLoopModes_setup sh = Inr (sh', lc)"
  then show "length (modevalDM_C sh') = NBmodes lc * 20"
    and "modevalDMindex lc = 0"
    and "framelatency0 lc = long_of_float (hardwlatency_frame (AOconf sh) + wfsmextrlatency_frame (AOconf sh))"
    and "framelatency1 lc = framelatency0 lc + 1"
    by (auto simp: ComputeOpenLoopModes_setup_def Let_def modevalDM_bsize_def split: sum.splits)
next
  fix sh :: olm_shm and lc :: olm_locals and sh' :: olm_shm and lc' :: olm_locals
  assume a: "ComputeOpenLoopModes_iteration sh lc = Inr (sh', lc') \<and> 0 \<le> modevalDMindex lc \<and> modevalDMindex lc < 20"
  then show "0 \<le> modevalDMindex lc'" "modevalDMindex lc' < 20"
    "framelatency0 lc' = framelatency0 lc" "framelatency1 lc' = framelatency1 lc"
    using iteration_cursor [of sh lc sh' lc'] by (auto simp: modevalDM_bsize_def)
next
  fix lc :: olm_locals
  assume a: "0 \<le> modevalDMindex lc \<and> modevalDMindex lc < 20
         \<and> 0 \<le> framelatency0 lc \<and> framelatency0 lc \<le> 19 \<and> framelatency1 lc = framelatency0 lc + 1"
  then show "0 \<le> modevalDMindex0 (lag_indices lc)" "modevalDMindex0 (lag_indices lc) < 20"
    "0 \<le> modevalDMindex1 (lag_indices lc)" "modevalDMindex1 (lag_indices lc) < 20"
    using lag_indices_in_range [of lc] by (simp_all add: modevalDM_bsize_def)
next
  fix sh :: olm_shm and lc :: olm_locals and L0 :: int
  assume a: "19 < L0 \<and> 0 < NBmodes lc"
  let ?l = "lc\<lparr>modevalDMindex := 0, framelatency0 := L0, framelatency1 := L0 + 1\<rparr>"
  show neg: "modevalDMindex1 (lag_indices ?l) < 0"
    using a by (simp add: lag_indices_def Let_def modevalDM_bsize_def)
  show "estimate_open_loop sh ?l = Inl OutOfBounds"
    using a neg by (intro estimate_open_loop_fails) (simp_all add: modevalDM_bsize_def)
qed

theorem history_read_indices_in_bounds_witness:
  "ComputeOpenLoopModes_setup olm_shm_example = Inr (olm_shm_start, olm_locals_start)
   \<and> length (modevalDM_C olm_shm_start) = NBmodes olm_locals_start * 20
   \<and> 0 \<le> modevalDMindex olm_locals_start \<and> modevalDMindex olm_locals_start < 20
   \<and> 0 \<le> framelatency0 olm_locals_start \<and> framelatency0 olm_locals_start \<le> 19
   \<and> framelatency1 olm_locals_start = framelatency0 olm_locals_start + 1
   \<and> modevalDMindex0 (lag_indices olm_locals_start) < 20
   \<and> 0 \<le> modevalDMindex1 (lag_indices olm_locals_start)
   \<and> (19::int) < 20 \<and> 0 < NBmodes olm_locals_start
   \<and> estimate_open_loop olm_shm_start
        (olm_locals_start\<lparr>modevalDMindex := 0, framelatency0 := 20, framelatency1 := 20 + 1\<rparr>)
       = Inl OutOfBounds"
proof -
  note t = history_read_indices_in_bounds
  have s: "ComputeOpenLoopModes_setup olm_shm_example = Inr (olm_shm_start, olm_locals_start)"
    by (rule setup_example)
  have h: "0 \<le> modevalDMindex olm_locals_start \<and> modevalDMindex olm_locals_start < 20
      \<and> 0 \<le> framelatency0 olm_locals_start \<and> framelatency0 olm_locals_start \<le> 19
      \<and> framelatency1 olm_locals_start = framelatency0 olm_locals_start + 1"
    by (simp add: olm_locals_start_def)
  have n: "(19::int) < 20 \<and> 0 < NBmodes olm_locals_start"
    by (simp add: olm_locals_start_def)
  from t [THEN conjunct2, THEN conjunct1, rule_format, OF s]
    t [THEN conjunct2, THEN conjunct2, THEN conjunct2, THEN conjunct1, rule_format, OF h]
    t [THEN conjunct2, THEN conjunct2, THEN conjunct2, THEN conjunct2, rule_format, OF n, of olm_shm_start]
    s h n
  show ?thesis by simp
qed


section \<open>The effective gain, multiplier and limit\<close>

lemma integrate_modes_gains:
  assumes "integrate_modes sh lc = Inr (sh', lc')"
  shows "modegain lc' = modegain (write_gain_mult_limit sh lc)"
    and "modemult lc' = modemult (write_gain_mult_limit sh lc)"
    and "modelimit lc' = modelimit (write_gain_mult_limit sh lc)"
    and "NBmodes lc' = NBmodes lc" and "modeblock lc' = modeblock lc"
    and "modevalDMindex lc' = modevalDMindex lc" and "modevalDMindexl lc' = modevalDMindexl lc"
    and "framelatency0 lc' = framelatency0 lc" and "framelatency1 lc' = framelatency1 lc"
    and "alpha lc' = alpha lc" and "blockstatcnt lc' = blockstatcnt lc"
    and "blockNBmodes lc' = blockNBmodes lc"
  by (subst integrate_modes_frame(2) [OF assms], simp)+

text \<open>
  Claim C4, amended. For every mode the effective gain used by the integrator is the product
  of the global gain, the gain of the block of the mode and the gain of the mode, and the
  effective multiplier is the product of the global multiplier, the block multiplier and the
  mode multiplier. The effective limit is the product of the block limit and the mode limit
  only: no global limit enters it. With global gain 0.2, block gain 0.5 and mode gain 2 the
  effective gain is 0.2.
\<close>

theorem effective_gain_mult_limit:
  assumes "olm_wf sh lc" and "m < NBmodes lc"
  shows "\<exists>sh' lc'. integrate_modes sh lc = Inr (sh', lc')
      \<and> modegain lc' ! m = gain (AOconf sh) * gainb sh ! (modeblock lc ! m) * GAIN_modes sh ! m
      \<and> modemult lc' ! m = mult (AOconf sh) * multfb sh ! (modeblock lc ! m) * MULTF_modes sh ! m
      \<and> modelimit lc' ! m = limitb sh ! (modeblock lc ! m) * LIMIT_modes sh ! m
      \<and> (gain (AOconf sh) = 0.2 \<and> gainb sh ! (modeblock lc ! m) = 0.5 \<and> GAIN_modes sh ! m = 2
           \<longrightarrow> modegain lc' ! m = 0.2)"
proof -
  note w = olm_wfD [OF assms(1)]
  obtain s1 l1 where i: "integrate_modes sh lc = Inr (s1, l1)"
    using integrate_modes_values [OF assms(1)] by metis
  note g = integrate_modes_gains [OF i]
  have e: "modegain l1 ! m = gain (AOconf sh) * gainb sh ! (modeblock lc ! m) * GAIN_modes sh ! m"
    "modemult l1 ! m = mult (AOconf sh) * multfb sh ! (modeblock lc ! m) * MULTF_modes sh ! m"
    "modelimit l1 ! m = limitb sh ! (modeblock lc ! m) * LIMIT_modes sh ! m"
    using assms(2) w by (simp_all add: g modegain_write modemult_write modelimit_write)
  have s: "gain (AOconf sh) = 0.2 \<and> gainb sh ! (modeblock lc ! m) = 0.5 \<and> GAIN_modes sh ! m = 2
           \<longrightarrow> modegain l1 ! m = 0.2"
  proof (intro impI, elim conjE)
    assume a: "gain (AOconf sh) = 0.2" "gainb sh ! (modeblock lc ! m) = 0.5" "GAIN_modes sh ! m = 2"
    show "modegain l1 ! m = 0.2" unfolding e(1) a by simp
  qed
  show ?thesis
    by (intro exI [of _ s1] exI [of _ l1] conjI i e s)
qed

theorem effective_gain_mult_limit_witness:
  "olm_wf olm_shm_start olm_locals_start \<and> 0 < NBmodes olm_locals_start
   \<and> gain (AOconf olm_shm_start) = 0.2 \<and> gainb olm_shm_start ! (modeblock olm_locals_start ! 0) = 0.5
   \<and> GAIN_modes olm_shm_start ! 0 = 2
   \<and> (\<exists>sh' lc'. integrate_modes olm_shm_start olm_locals_start = Inr (sh', lc')
         \<and> modegain lc' ! 0 = 0.2 \<and> modelimit lc' ! 0 = 1)"
proof -
  have n: "0 < NBmodes olm_locals_start" by (simp add: olm_locals_start_def)
  have v: "gain (AOconf olm_shm_start) = 0.2" "gainb olm_shm_start ! (modeblock olm_locals_start ! 0) = 0.5"
    "GAIN_modes olm_shm_start ! 0 = 2" "limitb olm_shm_start ! (modeblock olm_locals_start ! 0) = 1"
    "LIMIT_modes olm_shm_start ! 0 = 1"
    by (simp_all add: olm_shm_start_def olm_shm_example_def conf_example_def olm_locals_start_def)
  from effective_gain_mult_limit [OF olm_wf_start n] v n olm_wf_start
  show ?thesis by auto
qed

text \<open>The limit of the first mode of the example is 1, the product of its block limit 1 and its
  mode limit 1, while the global limit \<^verbatim>\<open>maxlimit\<close> of the example is 2.\<close>

theorem effective_limit_counterexample:
  "modelimit (write_gain_mult_limit olm_shm_start olm_locals_start) ! 0 = 1
   \<and> maxlimit (AOconf olm_shm_start) * limitb olm_shm_start ! (modeblock olm_locals_start ! 0)
        * LIMIT_modes olm_shm_start ! 0 = 2
   \<and> modelimit (write_gain_mult_limit olm_shm_start olm_locals_start) ! 0
      \<noteq> maxlimit (AOconf olm_shm_start) * limitb olm_shm_start ! (modeblock olm_locals_start ! 0)
        * LIMIT_modes olm_shm_start ! 0"
  by (simp add: modelimit_write olm_shm_start_def olm_shm_example_def conf_example_def
      olm_locals_start_def)


section \<open>The open-loop estimate, stage by stage\<close>

lemma integrate_modes_now:
  assumes "integrate_modes sh lc = Inr (sh', lc')" and "ARPFon (AOconf sh) \<noteq> 1"
  shows "modevalDMnow sh' = modevalDMnow (update_dm_state sh (write_gain_mult_limit sh lc))"
proof -
  note ok = integrate_modes_frame(3) [OF assms(1)]
  let ?lw = "write_gain_mult_limit sh lc"
  from integrate_modes_stages [OF ok, of sh]
  obtain s1 s2 l2 s3 s4 l4 s5 l5 where st:
    "s1 = set_statusM 4 (update_dm_state (set_statusM 3 sh) ?lw)"
    "mix_prediction s1 ?lw = (s2, l2)"
    "s3 = copy_to_filt (set_statusM 5 s2) l2"
    "autotune_limits s3 l2 = (s4, l4)"
    "filter_modes s4 l4 = (s5, l5)"
    "integrate_modes sh lc = Inr (set_statusM 6 s5, l5)"
    by metis
  have "ARPFon (AOconf s1) \<noteq> 1"
    using assms(2) by (simp add: st(1) set_statusM_def update_dm_state_def)
  then have s2: "s2 = s1" using mix_prediction_off [of s1 ?lw] st(2) by simp
  obtain a b c d where at: "s4 = s3\<lparr>LIMIT_modes := a, atlimbcoeff := b, limitb := c\<rparr>"
    using autotune_limits_frame [of s3 l2] st(4) by auto
  obtain f g where fm: "s5 = s4\<lparr>modevalDMnowfilt := f\<rparr>"
    using filter_modes_frame [of s4 l4] st(5) by auto
  have "sh' = set_statusM 6 s5" using assms(1) st(6) by simp
  then show ?thesis
    by (simp add: fm at st(3) s2 st(1) set_statusM_def copy_to_filt_def update_dm_state_def)
qed

lemma integrate_modes_streams:
  assumes "integrate_modes sh lc = Inr (sh', lc')"
  shows "modeval sh' = modeval sh" "modevalDM_C sh' = modevalDM_C sh" "modevalDM sh' = modevalDM sh"
    "modeval_ol sh' = modeval_ol sh" "blknb sh' = blknb sh"
    "DMmodesNBblock (AOconf sh') = DMmodesNBblock (AOconf sh)"
    "AveStats_NBpt (AOconf sh') = AveStats_NBpt (AOconf sh)"
  by (subst integrate_modes_frame(1) [OF assms], simp)+

text \<open>What the second half of the iteration computes.\<close>

lemma estimate_open_loop_values:
  assumes c: "0 \<le> modevalDMindex lc" "modevalDMindex lc < modevalDM_bsize"
    and l: "0 \<le> framelatency0 lc" "framelatency0 lc \<le> 19" "framelatency1 lc = framelatency0 lc + 1"
    and len: "length (modevalDM_C sh) = NBmodes lc * nat modevalDM_bsize"
      "length (modevalDM sh) = NBmodes lc" "length (modeval_ol sh) = NBmodes lc"
  obtains sh' lc' where
    "estimate_open_loop sh lc = Inr (sh', lc')"
    "same_control (advance_index (lag_indices lc)) lc'"
    "modevalDMnow sh' = modevalDMnow sh" "modevalDMnowfilt sh' = modevalDMnowfilt sh"
    "LIMIT_modes sh' = LIMIT_modes sh" "limitb sh' = limitb sh" "atlimbcoeff sh' = atlimbcoeff sh"
    "length (modevalDM_C sh') = length (modevalDM_C sh)"
    "\<forall>m<NBmodes lc. modevalDM_C sh' ! (nat (modevalDMindex lc) * NBmodes lc + m) = modevalDMnowfilt sh ! m"
    "\<forall>m<NBmodes lc. modevalDM sh' ! m =
        (1 - alpha lc) * modevalDM_C sh' ! (nat ((modevalDMindex lc - framelatency0 lc) mod modevalDM_bsize) * NBmodes lc + m)
        + alpha lc * modevalDM_C sh' ! (nat ((modevalDMindex lc - framelatency0 lc - 1) mod modevalDM_bsize) * NBmodes lc + m)"
    "\<forall>m<NBmodes lc. modeval_ol sh' ! m = modeval sh ! m - modevalDM sh' ! m"
proof -
  let ?l = "lag_indices lc"
  let ?n = "NBmodes lc"
  note r = lag_indices_in_range [OF c l]
  note md = lag_indices_mod [OF c l]
  have ok: "slot_ok ?n (modevalDMindex lc)" "slot_ok ?n (modevalDMindex0 ?l)" "slot_ok ?n (modevalDMindex1 ?l)"
    using c r by (simp_all add: slot_ok_range)
  from estimate_open_loop_result [OF ok, of sh]
  obtain cf lc' where e: "estimate_open_loop sh lc =
       Inr ((open_loop_state (dm_at_measurement (commit_filt sh lc) ?l) ?l)\<lparr>AOconf := cf\<rparr>, lc')"
    and sc: "same_control (advance_index ?l) lc'"
    by metis
  let ?c = "commit_filt sh lc"
  let ?d = "dm_at_measurement ?c ?l"
  let ?s = "(open_loop_state ?d ?l)\<lparr>AOconf := cf\<rparr>"
  have ring: "modevalDM_C ?s = modevalDM_C ?c"
    by (simp add: open_loop_state_def dm_at_measurement_def)
  have dm: "modevalDM ?s = modevalDM ?d"
    by (simp add: open_loop_state_def)
  have i0: "nat (modevalDMindex0 ?l * int ?n + int m) = nat ((modevalDMindex lc - framelatency0 lc) mod modevalDM_bsize) * ?n + m" for m
    using r by (simp add: nat_slot_index md)
  have i1: "nat (modevalDMindex1 ?l * int ?n + int m) = nat ((modevalDMindex lc - framelatency0 lc - 1) mod modevalDM_bsize) * ?n + m" for m
    using r by (simp add: nat_slot_index md)
  show thesis
  proof (rule that [of ?s lc'])
    show "estimate_open_loop sh lc = Inr (?s, lc')" by (rule e)
    show "same_control (advance_index ?l) lc'" by (rule sc)
    show "modevalDMnow ?s = modevalDMnow sh" "modevalDMnowfilt ?s = modevalDMnowfilt sh"
      "LIMIT_modes ?s = LIMIT_modes sh" "limitb ?s = limitb sh" "atlimbcoeff ?s = atlimbcoeff sh"
      by (simp_all add: open_loop_state_def dm_at_measurement_def commit_filt_def)
    show "length (modevalDM_C ?s) = length (modevalDM_C sh)"
      unfolding ring by simp
    show "\<forall>m<?n. modevalDM_C ?s ! (nat (modevalDMindex lc) * ?n + m) = modevalDMnowfilt sh ! m"
      unfolding ring
    proof (intro allI impI)
      fix m assume m: "m < ?n"
      have k: "nat (modevalDMindex lc) * ?n + m < length (modevalDM_C sh)"
        using slot_index_less [OF c m] len by simp
      show "modevalDM_C ?c ! (nat (modevalDMindex lc) * ?n + m) = modevalDMnowfilt sh ! m"
        using commit_filt_nth [OF c(1) k] m by simp
    qed
    show "\<forall>m<?n. modevalDM ?s ! m =
        (1 - alpha lc) * modevalDM_C ?s ! (nat ((modevalDMindex lc - framelatency0 lc) mod modevalDM_bsize) * ?n + m)
        + alpha lc * modevalDM_C ?s ! (nat ((modevalDMindex lc - framelatency0 lc - 1) mod modevalDM_bsize) * ?n + m)"
      unfolding ring dm
      using len by (simp add: dm_at_measurement_def nth_for_loop_update_const i0 i1 commit_filt_def)
    show "\<forall>m<?n. modeval_ol ?s ! m = modeval sh ! m - modevalDM ?s ! m"
      using len
      by (simp add: open_loop_state_def nth_for_loop_update_const dm_at_measurement_def commit_filt_def)
  qed
qed


section \<open>The whole iteration\<close>

text \<open>An iteration on a well-formed state with a latency inside the buffer succeeds.\<close>

lemma iteration_halves:
  assumes wf: "olm_wf sh lc" and lat: "0 \<le> framelatency0 lc" "framelatency0 lc \<le> 19"
  obtains s1 l1 sh' lc' where
    "integrate_modes sh lc = Inr (s1, l1)"
    "estimate_open_loop s1 l1 = Inr (sh', lc')"
    "ComputeOpenLoopModes_iteration sh lc = Inr (sh', lc')"
    "same_control (advance_index (lag_indices l1)) lc'"
    "modevalDMnow sh' = modevalDMnow s1" "modevalDMnowfilt sh' = modevalDMnowfilt s1"
    "LIMIT_modes sh' = LIMIT_modes s1" "limitb sh' = limitb s1" "atlimbcoeff sh' = atlimbcoeff s1"
    "length (modevalDM_C sh') = length (modevalDM_C sh)"
    "\<forall>m<NBmodes lc. modevalDM_C sh' ! (nat (modevalDMindex lc) * NBmodes lc + m) = modevalDMnowfilt sh' ! m"
    "\<forall>m<NBmodes lc. modevalDM sh' ! m =
        (1 - alpha lc) * modevalDM_C sh' ! (nat ((modevalDMindex lc - framelatency0 lc) mod modevalDM_bsize) * NBmodes lc + m)
        + alpha lc * modevalDM_C sh' ! (nat ((modevalDMindex lc - framelatency0 lc - 1) mod modevalDM_bsize) * NBmodes lc + m)"
    "\<forall>m<NBmodes lc. modeval_ol sh' ! m = modeval sh ! m - modevalDM sh' ! m"
proof -
  note w = olm_wfD [OF wf]
  obtain s1 l1 where i: "integrate_modes sh lc = Inr (s1, l1)"
    using integrate_modes_values [OF wf] by metis
  note g = integrate_modes_gains [OF i]
  note s = integrate_modes_streams [OF i]
  have c: "0 \<le> modevalDMindex l1" "modevalDMindex l1 < modevalDM_bsize"
    and l: "0 \<le> framelatency0 l1" "framelatency0 l1 \<le> 19" "framelatency1 l1 = framelatency0 l1 + 1"
    and len: "length (modevalDM_C s1) = NBmodes l1 * nat modevalDM_bsize"
      "length (modevalDM s1) = NBmodes l1" "length (modeval_ol s1) = NBmodes l1"
    using w lat by (simp_all add: g s)
  from estimate_open_loop_values [OF c l len]
  obtain sh' lc' where e: "estimate_open_loop s1 l1 = Inr (sh', lc')"
    "same_control (advance_index (lag_indices l1)) lc'"
    "modevalDMnow sh' = modevalDMnow s1" "modevalDMnowfilt sh' = modevalDMnowfilt s1"
    "LIMIT_modes sh' = LIMIT_modes s1" "limitb sh' = limitb s1" "atlimbcoeff sh' = atlimbcoeff s1"
    "length (modevalDM_C sh') = length (modevalDM_C s1)"
    "\<forall>m<NBmodes l1. modevalDM_C sh' ! (nat (modevalDMindex l1) * NBmodes l1 + m) = modevalDMnowfilt s1 ! m"
    "\<forall>m<NBmodes l1. modevalDM sh' ! m =
        (1 - alpha l1) * modevalDM_C sh' ! (nat ((modevalDMindex l1 - framelatency0 l1) mod modevalDM_bsize) * NBmodes l1 + m)
        + alpha l1 * modevalDM_C sh' ! (nat ((modevalDMindex l1 - framelatency0 l1 - 1) mod modevalDM_bsize) * NBmodes l1 + m)"
    "\<forall>m<NBmodes l1. modeval_ol sh' ! m = modeval s1 ! m - modevalDM sh' ! m"
    by metis
  show thesis
  proof (rule that [of s1 l1 sh' lc'])
    show "ComputeOpenLoopModes_iteration sh lc = Inr (sh', lc')"
      by (simp add: ComputeOpenLoopModes_iteration_def i e(1))
  qed (use i e in \<open>simp_all add: g s\<close>)
qed


section \<open>The limit tuner inside the integrator\<close>

lemma for_loop_cong:
  assumes "\<And>m s. m < n \<Longrightarrow> f m s = g m s"
  shows "for_loop n f s = for_loop n g s"
  using assms by (induction n) simp_all




section \<open>The modal integrator update\<close>

lemma iteration_split:
  assumes "ComputeOpenLoopModes_iteration sh lc = Inr (sh', lc')"
  obtains s1 l1 where "integrate_modes sh lc = Inr (s1, l1)" "estimate_open_loop s1 l1 = Inr (sh', lc')"
  using assms by (auto simp: ComputeOpenLoopModes_iteration_def split: sum.splits)

lemma estimate_open_loop_frame:
  assumes "estimate_open_loop sh lc = Inr (sh', lc')"
  shows "modevalDMnow sh' = modevalDMnow sh" "modevalDMnowfilt sh' = modevalDMnowfilt sh"
    "LIMIT_modes sh' = LIMIT_modes sh" "limitb sh' = limitb sh" "atlimbcoeff sh' = atlimbcoeff sh"
    "same_control (advance_index (lag_indices lc)) lc'"
proof -
  have ok: "slot_ok (NBmodes lc) (modevalDMindex lc)"
      "slot_ok (NBmodes lc) (modevalDMindex0 (lag_indices lc))"
      "slot_ok (NBmodes lc) (modevalDMindex1 (lag_indices lc))"
    using assms by (auto simp: estimate_open_loop_def Let_def split: if_splits)
  from estimate_open_loop_result [OF ok, of sh] assms
  obtain cf where e: "sh' = (open_loop_state (dm_at_measurement (commit_filt sh lc) (lag_indices lc)) (lag_indices lc))\<lparr>AOconf := cf\<rparr>"
    and c: "same_control (advance_index (lag_indices lc)) lc'"
    by (metis Pair_inject sum.inject(2))
  show "modevalDMnow sh' = modevalDMnow sh" "modevalDMnowfilt sh' = modevalDMnowfilt sh"
    "LIMIT_modes sh' = LIMIT_modes sh" "limitb sh' = limitb sh" "atlimbcoeff sh' = atlimbcoeff sh"
    by (simp_all add: e open_loop_state_def dm_at_measurement_def commit_filt_def)
  show "same_control (advance_index (lag_indices lc)) lc'" by (rule c)
qed

lemma advance_lag_fields [simp]:
  "modegain (advance_index (lag_indices l)) = modegain l"
  "modemult (advance_index (lag_indices l)) = modemult l"
  "modelimit (advance_index (lag_indices l)) = modelimit l"
  "modeblock (advance_index (lag_indices l)) = modeblock l"
  "blockNBmodes (advance_index (lag_indices l)) = blockNBmodes l"
  "FILTERMODE (advance_index (lag_indices l)) = FILTERMODE l"
  "alpha (advance_index (lag_indices l)) = alpha l"
  "NBmodes (advance_index (lag_indices l)) = NBmodes l"
  "framelatency0 (advance_index (lag_indices l)) = framelatency0 l"
  "framelatency1 (advance_index (lag_indices l)) = framelatency1 l"
  "modevalDMindexl (advance_index (lag_indices l)) = modevalDMindex l"
  "blockavelimFrac (advance_index (lag_indices l)) = blockavelimFrac l"
  "blockstatcnt (advance_index (lag_indices l)) = blockstatcnt l"
  by (simp_all add: advance_index_def lag_indices_def Let_def)

text \<open>The integrator update on any state: the last state is slot \<open>modevalDMindexl\<close> of the buffer.\<close>

lemma update_dm_state_nth:
  assumes "m < NBmodes lc" "m < length (modevalDMnow sh)" "m < length (modegain lc)"
    "m < length (modemult lc)" "0 \<le> modevalDMindexl lc"
  shows "modevalDMnow (update_dm_state sh (write_gain_mult_limit sh lc)) ! m
     = (mult (AOconf sh) * multfb sh ! (modeblock lc ! m) * MULTF_modes sh ! m)
       * (modevalDM_C sh ! (nat (modevalDMindexl lc) * NBmodes lc + m)
          - (gain (AOconf sh) * gainb sh ! (modeblock lc ! m) * GAIN_modes sh ! m) * modeval sh ! m)"
  using assms
  by (simp add: update_dm_state_def nth_update_modevalDMnow modegain_write modemult_write nat_slot_index)

text \<open>
  Claim C1. In every iteration and for every mode \<open>m\<close> the current DM state is computed as the
  effective multiplier of the mode times the difference of the last state and the effective
  gain times the measured coefficient, where the multiplier and the gain are the products of
  the global, block and mode values read at the start of the iteration, and the last state is
  the slot of the circular buffer that the preceding iteration committed (its filtered
  vector). This value is what the iteration publishes as current DM state when no prediction
  is mixed in. In the first iteration after the setup the last state is zero.
\<close>

theorem integrator_update:
  assumes "olm_wf sh0 lc0" and "0 \<le> framelatency0 lc0" and "framelatency0 lc0 \<le> 19"
    and "ComputeOpenLoopModes_iteration sh0 lc0 = Inr (sh1, lc1)"
    and "modevalDM_C sh2 = modevalDM_C sh1" and "modevalDMnow sh2 = modevalDMnow sh1"
    and "m < NBmodes lc0"
  shows "modevalDM_C sh1 ! (nat (modevalDMindexl lc1) * NBmodes lc1 + m) = modevalDMnowfilt sh1 ! m
     \<and> modevalDMnow (update_dm_state sh2 (write_gain_mult_limit sh2 lc1)) ! m
         = (mult (AOconf sh2) * multfb sh2 ! (modeblock lc1 ! m) * MULTF_modes sh2 ! m)
           * (modevalDMnowfilt sh1 ! m
              - (gain (AOconf sh2) * gainb sh2 ! (modeblock lc1 ! m) * GAIN_modes sh2 ! m) * modeval sh2 ! m)
     \<and> (\<forall>sh3 lc3. ComputeOpenLoopModes_iteration sh2 lc1 = Inr (sh3, lc3) \<and> ARPFon (AOconf sh2) \<noteq> 1 \<longrightarrow>
           modevalDMnow sh3 ! m
             = (mult (AOconf sh2) * multfb sh2 ! (modeblock lc1 ! m) * MULTF_modes sh2 ! m)
               * (modevalDMnowfilt sh1 ! m
                  - (gain (AOconf sh2) * gainb sh2 ! (modeblock lc1 ! m) * GAIN_modes sh2 ! m) * modeval sh2 ! m))
     \<and> (\<forall>s s' l e k. ComputeOpenLoopModes_setup s = Inr (s', l) \<and> modevalDM_C e = modevalDM_C s'
           \<and> modevalDMnow e = modevalDMnow s' \<and> k < NBmodes l \<longrightarrow>
           modevalDMnow (update_dm_state e (write_gain_mult_limit e l)) ! k
             = (mult (AOconf e) * multfb e ! (modeblock l ! k) * MULTF_modes e ! k)
               * (0 - (gain (AOconf e) * gainb e ! (modeblock l ! k) * GAIN_modes e ! k) * modeval e ! k))"
proof -
  note w = olm_wfD [OF assms(1)]
  from iteration_halves [OF assms(1,2,3)]
  obtain s1 l1 sh' lc' where h:
    "integrate_modes sh0 lc0 = Inr (s1, l1)"
    "ComputeOpenLoopModes_iteration sh0 lc0 = Inr (sh', lc')"
    "same_control (advance_index (lag_indices l1)) lc'"
    "modevalDMnow sh' = modevalDMnow s1"
    "\<forall>m<NBmodes lc0. modevalDM_C sh' ! (nat (modevalDMindex lc0) * NBmodes lc0 + m) = modevalDMnowfilt sh' ! m"
    by metis
  have eq: "sh' = sh1" "lc' = lc1" using h(2) assms(4) by simp_all
  note g = integrate_modes_gains [OF h(1)]
  obtain a b where v: "integrate_modes sh0 lc0 = Inr (a, b)" "length (modevalDMnow a) = NBmodes lc0"
    using integrate_modes_values [OF assms(1)] by metis
  have len: "length (modevalDMnow sh1) = NBmodes lc0"
    using v h(1) h(4) eq by simp
  have l1: "NBmodes lc1 = NBmodes lc0" "modevalDMindexl lc1 = modevalDMindex lc0"
    "length (modegain lc1) = NBmodes lc0" "length (modemult lc1) = NBmodes lc0"
    using h(3) g w unfolding eq by (simp_all add: same_control_def)
  have slot: "modevalDM_C sh1 ! (nat (modevalDMindexl lc1) * NBmodes lc1 + m) = modevalDMnowfilt sh1 ! m"
    using h(5) assms(7) unfolding eq l1 by simp
  have upd: "modevalDMnow (update_dm_state sh2 (write_gain_mult_limit sh2 lc1)) ! m
         = (mult (AOconf sh2) * multfb sh2 ! (modeblock lc1 ! m) * MULTF_modes sh2 ! m)
           * (modevalDMnowfilt sh1 ! m
              - (gain (AOconf sh2) * gainb sh2 ! (modeblock lc1 ! m) * GAIN_modes sh2 ! m) * modeval sh2 ! m)"
    using update_dm_state_nth [of m lc1 sh2] assms(5,6,7) len l1 w slot by simp
  have it: "modevalDMnow sh3 ! m
             = (mult (AOconf sh2) * multfb sh2 ! (modeblock lc1 ! m) * MULTF_modes sh2 ! m)
               * (modevalDMnowfilt sh1 ! m
                  - (gain (AOconf sh2) * gainb sh2 ! (modeblock lc1 ! m) * GAIN_modes sh2 ! m) * modeval sh2 ! m)"
    if p: "ComputeOpenLoopModes_iteration sh2 lc1 = Inr (sh3, lc3) \<and> ARPFon (AOconf sh2) \<noteq> 1" for sh3 lc3
  proof -
    obtain s l where i: "integrate_modes sh2 lc1 = Inr (s, l)" and e: "estimate_open_loop s l = Inr (sh3, lc3)"
      using p iteration_split by blast
    have "modevalDMnow sh3 = modevalDMnow (update_dm_state sh2 (write_gain_mult_limit sh2 lc1))"
      using integrate_modes_now [OF i] estimate_open_loop_frame(1) [OF e] p by simp
    then show ?thesis using upd by simp
  qed
  have start: "modevalDMnow (update_dm_state e (write_gain_mult_limit e l)) ! k
             = (mult (AOconf e) * multfb e ! (modeblock l ! k) * MULTF_modes e ! k)
               * (0 - (gain (AOconf e) * gainb e ! (modeblock l ! k) * GAIN_modes e ! k) * modeval e ! k)"
    if "ComputeOpenLoopModes_setup s = Inr (s', l) \<and> modevalDM_C e = modevalDM_C s'
           \<and> modevalDMnow e = modevalDMnow s' \<and> k < NBmodes l" for s s' l e k
  proof -
    have s: "modevalDM_C s' = replicate (NBmodes l * nat modevalDM_bsize) 0"
      "modevalDMnow s' = replicate (NBmodes l) 0" "modevalDMindexl l = 0"
      "length (modegain l) = NBmodes l" "length (modemult l) = NBmodes l"
      using that by (auto simp: ComputeOpenLoopModes_setup_def Let_def split: sum.splits)
    have z: "modevalDM_C e ! (nat (modevalDMindexl l) * NBmodes l + k) = 0"
      using that s by (simp add: modevalDM_bsize_def)
    show ?thesis
      using update_dm_state_nth [of k l e] that s z by simp
  qed
  show ?thesis
    using slot upd it start by blast
qed

theorem integrator_update_witness:
  "olm_wf olm_shm_start olm_locals_start
   \<and> 0 \<le> framelatency0 olm_locals_start \<and> framelatency0 olm_locals_start \<le> 19
   \<and> 0 < NBmodes olm_locals_start
   \<and> (\<exists>sh1 lc1. ComputeOpenLoopModes_iteration olm_shm_start olm_locals_start = Inr (sh1, lc1)
        \<and> modevalDMnow (update_dm_state (sh1\<lparr>modeval := [1, 2]\<rparr>)
             (write_gain_mult_limit (sh1\<lparr>modeval := [1, 2]\<rparr>) lc1)) ! 0
          = (mult (AOconf sh1) * multfb sh1 ! (modeblock lc1 ! 0) * MULTF_modes sh1 ! 0)
            * (modevalDMnowfilt sh1 ! 0 - (gain (AOconf sh1) * gainb sh1 ! (modeblock lc1 ! 0) * GAIN_modes sh1 ! 0) * 1))
   \<and> ComputeOpenLoopModes_setup olm_shm_example = Inr (olm_shm_start, olm_locals_start)
   \<and> modevalDMnow (update_dm_state olm_shm_start (write_gain_mult_limit olm_shm_start olm_locals_start)) ! 0
       = (mult (AOconf olm_shm_start) * multfb olm_shm_start ! (modeblock olm_locals_start ! 0)
            * MULTF_modes olm_shm_start ! 0)
         * (0 - (gain (AOconf olm_shm_start) * gainb olm_shm_start ! (modeblock olm_locals_start ! 0)
                   * GAIN_modes olm_shm_start ! 0) * modeval olm_shm_start ! 0)"
proof -
  have r: "0 \<le> framelatency0 olm_locals_start" "framelatency0 olm_locals_start \<le> 19"
    and n: "0 < NBmodes olm_locals_start"
    by (simp_all add: olm_locals_start_def)
  obtain sh1 lc1 where i: "ComputeOpenLoopModes_iteration olm_shm_start olm_locals_start = Inr (sh1, lc1)"
    using iteration_halves [OF olm_wf_start r] by metis
  let ?e = "sh1\<lparr>modeval := [1, 2]\<rparr>"
  have o: "modevalDM_C ?e = modevalDM_C sh1" "modevalDMnow ?e = modevalDMnow sh1" by simp_all
  note t = integrator_update [OF olm_wf_start r i o n]
  have st: "ComputeOpenLoopModes_setup olm_shm_example = Inr (olm_shm_start, olm_locals_start)
     \<and> modevalDM_C olm_shm_start = modevalDM_C olm_shm_start
     \<and> modevalDMnow olm_shm_start = modevalDMnow olm_shm_start \<and> 0 < NBmodes olm_locals_start"
    using setup_example n by simp
  from t [THEN conjunct2, THEN conjunct1]
    t [THEN conjunct2, THEN conjunct2, THEN conjunct2, rule_format, OF st]
  show ?thesis using olm_wf_start r n i setup_example by auto
qed


section \<open>Frame intake\<close>

lemma for_loop_4: "for_loop 4 body s = body 3 (body 2 (body 1 (body 0 s)))"
  by (simp add: for_loop_def upt_rec [of 0] upt_rec [of "Suc 0"] upt_rec [of 1] upt_rec [of 2]
      upt_rec [of 3] numeral_eq_Suc)

lemmas rcf_defs = Read_cam_frame_def rcf_shm_example_def conf_example_def copy_slice_def
  rcf_status_def dark_subtract_def compute_total_def for_loop_4 Let_def

text \<open>
  Claim C5, amended. On a WFS frame of four pixels with raw values 100, 200, 300, 400, the dark
  frame 10, 10, 10, 10 and normalization floor 0, the frame intake (dark subtraction, then
  scaling by \<open>1 / (total + normfloor * pixel count)\<close>) gives the normalized image
  \<open>[90, 190, 290, 390] / 960\<close>, where 960 is the sum of the dark-subtracted values; the same
  holds for a frame of unsigned 16-bit pixels. With normalization floor 1 the divisor is
  \<open>960 + 1 * 4\<close>.
\<close>

theorem normalization_scenario:
  "map_sum id imWFS1 (Read_cam_frame 0 0 1 (rcf_shm_example (FLOAT [100, 200, 300, 400]) 0))
     = Inr [90 / 960, 190 / 960, 290 / 960, 390 / 960]
   \<and> map_sum id imWFS0 (Read_cam_frame 0 0 1 (rcf_shm_example (FLOAT [100, 200, 300, 400]) 0))
     = Inr [90, 190, 290, 390]
   \<and> map_sum id (WFStotalflux \<circ> AOconf) (Read_cam_frame 0 0 1 (rcf_shm_example (FLOAT [100, 200, 300, 400]) 0))
     = Inr 960
   \<and> map_sum id imWFS1 (Read_cam_frame 0 0 1 (rcf_shm_example (UINT16 [100, 200, 300, 400]) 0))
     = Inr [90 / 960, 190 / 960, 290 / 960, 390 / 960]
   \<and> map_sum id imWFS1 (Read_cam_frame 0 0 1 (rcf_shm_example (FLOAT [100, 200, 300, 400]) 1))
     = Inr [90 / (960 + 1 * 4), 190 / (960 + 1 * 4), 290 / (960 + 1 * 4), 390 / (960 + 1 * 4)]"
  by (simp add: rcf_defs)

text \<open>The normalized image is not \<open>[90, 190, 290, 490] / 1060\<close>.\<close>

theorem normalization_scenario_counterexample:
  "map_sum id imWFS1 (Read_cam_frame 0 0 1 (rcf_shm_example (FLOAT [100, 200, 300, 400]) 0))
     \<noteq> Inr [90 / 1060, 190 / 1060, 290 / 1060, 490 / 1060]"
  by (simp add: rcf_defs)


section \<open>Running the stages on a concrete loop\<close>

lemma for_loop_2: "for_loop 2 body s = body 1 (body 0 s)"
  by (simp add: for_loop_def upt_rec [of 0] upt_rec [of "Suc 0"] upt_rec [of 1] numeral_eq_Suc)

lemma for_loop_3: "for_loop 3 body s = body 2 (body 1 (body 0 s))"
  by (simp add: for_loop_def upt_rec [of 0] upt_rec [of "Suc 0"] upt_rec [of 1] upt_rec [of 2]
      numeral_eq_Suc)

text \<open>The equations that run the stages of an iteration on a concrete loop.\<close>

lemmas olm_eval = 
  ComputeOpenLoopModes_iteration_def integrate_modes_def estimate_open_loop_def
  set_statusM_def set_statusM1_def write_gain_mult_limit_def update_dm_state_def
  update_modevalDMnow_def slot_ok_def mix_prediction_def copy_to_filt_def autotune_limits_def
  autotune_modes_def autotune_blocks_def limit_coeff_def filter_modes_def clip_mode_def
  commit_filt_def lag_indices_def dm_at_measurement_def open_loop_state_def advance_index_def
  telemetry_def accumulate_rms_def
  for_loop_2 for_loop_3 Let_def modevalDM_bsize_def

lemmas olm_example = olm_shm_start_def olm_shm_example_def conf_example_def olm_locals_start_def


section \<open>The three-mode loop\<close>

lemmas olm_example3 = olm_shm_start3_def olm_shm_example3_def olm_locals_start3_def
  olm_shm_example_def conf_example_def olm_locals_start_def

lemma setup_example3:
  "ComputeOpenLoopModes_setup olm_shm_example3 = Inr (olm_shm_start3, olm_locals_start3)"
  by (simp add: ComputeOpenLoopModes_setup_def olm_example3 long_of_float_def modevalDM_bsize_def
      for_loop_2 numeral_2_eq_2 numeral_3_eq_3 One_nat_def)

lemma olm_wf_start3: "olm_wf olm_shm_start3 olm_locals_start3"
  by (simp add: olm_wf_def olm_example3 modevalDM_bsize_def Let_def)

lemma upt_3: "[0..<3] = [0, 1, 2]"
  by (simp add: upt_rec [of 0] upt_rec [of "Suc 0"] upt_rec [of 1] upt_rec [of 2] numeral_eq_Suc)



text \<open>In the first iteration of the three-mode loop the DM state is \<open>[-0.06, 0.8, -0.2]\<close>
  against the limits \<open>[1, 0.5, 300]\<close>: only the second mode is above its limit. The new mode
  limits are \<open>[0.95, 0.55, 285]\<close>; block 0 has the average 0.75 and the factor 0.9975, block 1
  the average 285 and the factor 3.84, clamped to 1.1.\<close>

lemma example3_dm_now:
  "modevalDMnow (fst (projr (integrate_modes olm_shm_start3 olm_locals_start3)))
     = [- 0.06, 0.8, - 0.2]"
  by (simp add: olm_eval olm_example3)


section \<open>The open-loop estimate\<close>

text \<open>
  Claim C3, amended. The total lag \<open>lat\<close> is the hardware latency plus the WFS extraction
  latency; the setup splits it into the integer part \<open>L0\<close> (\<^verbatim>\<open>framelatency0\<close>, the lag truncated
  towards zero) and the fractional part \<open>f = lat - L0\<close> (\<^verbatim>\<open>alpha\<close>), and an iteration does not
  change them. When \<open>0 \<le> L0 \<le> 19\<close>, so that the two lagged slots are reached with at most one
  wrap of the 20-slot buffer, every iteration succeeds and computes, for every mode \<open>m\<close>, the DM
  state at measurement time as \<open>(1 - f)\<close> times the buffer slot \<open>(cursor - L0) mod 20\<close> plus \<open>f\<close>
  times the slot \<open>(cursor - L0 - 1) mod 20\<close>, where \<open>cursor\<close> is the write cursor of the iteration
  and the buffer is read after the commit of the iteration; the open-loop output is the
  measurement minus this value.
\<close>

theorem open_loop_estimate:
  fixes lat :: real
  assumes "olm_wf sh lc"
    and "framelatency0 lc = long_of_float lat"
    and "alpha lc = lat - real_of_int (long_of_float lat)"
    and "L0 = (if 0 \<le> lat then \<lfloor>lat\<rfloor> else \<lceil>lat\<rceil>)" and "0 \<le> L0" and "L0 \<le> 19"
    and "m < NBmodes lc"
  shows "(\<exists>sh' lc'. ComputeOpenLoopModes_iteration sh lc = Inr (sh', lc')
       \<and> modevalDM sh' ! m =
           (1 - (lat - real_of_int L0))
              * modevalDM_C sh' ! (nat ((modevalDMindex lc - L0) mod 20) * NBmodes lc + m)
           + (lat - real_of_int L0)
              * modevalDM_C sh' ! (nat ((modevalDMindex lc - L0 - 1) mod 20) * NBmodes lc + m)
       \<and> modeval_ol sh' ! m = modeval sh ! m - modevalDM sh' ! m
       \<and> framelatency0 lc' = framelatency0 lc \<and> alpha lc' = alpha lc)
     \<and> (\<forall>s0 s1 l0. ComputeOpenLoopModes_setup s0 = Inr (s1, l0) \<longrightarrow>
           framelatency0 l0 = long_of_float (hardwlatency_frame (AOconf s0) + wfsmextrlatency_frame (AOconf s0))
           \<and> alpha l0 = hardwlatency_frame (AOconf s0) + wfsmextrlatency_frame (AOconf s0)
                - real_of_int (long_of_float (hardwlatency_frame (AOconf s0) + wfsmextrlatency_frame (AOconf s0))))"
proof (intro conjI allI impI)
  have fl: "framelatency0 lc = L0" using assms(2,4) by (simp add: long_of_float_def)
  have al: "alpha lc = lat - real_of_int L0" using assms(3,4) by (simp add: long_of_float_def)
  have r: "0 \<le> framelatency0 lc" "framelatency0 lc \<le> 19"
    using assms(5,6) unfolding fl by simp_all
  from iteration_halves [OF assms(1) r]
  obtain s1 l1 sh' lc' where h:
    "integrate_modes sh lc = Inr (s1, l1)"
    "ComputeOpenLoopModes_iteration sh lc = Inr (sh', lc')"
    "same_control (advance_index (lag_indices l1)) lc'"
    "\<forall>m<NBmodes lc. modevalDM sh' ! m =
        (1 - alpha lc) * modevalDM_C sh' ! (nat ((modevalDMindex lc - framelatency0 lc) mod modevalDM_bsize) * NBmodes lc + m)
        + alpha lc * modevalDM_C sh' ! (nat ((modevalDMindex lc - framelatency0 lc - 1) mod modevalDM_bsize) * NBmodes lc + m)"
    "\<forall>m<NBmodes lc. modeval_ol sh' ! m = modeval sh ! m - modevalDM sh' ! m"
    by metis
  note g = integrate_modes_gains [OF h(1)]
  have k: "framelatency0 lc' = framelatency0 lc" "alpha lc' = alpha lc"
    using h(3) g by (simp_all add: same_control_def advance_index_def Let_def)
  show "\<exists>sh' lc'. ComputeOpenLoopModes_iteration sh lc = Inr (sh', lc')
       \<and> modevalDM sh' ! m =
           (1 - (lat - real_of_int L0))
              * modevalDM_C sh' ! (nat ((modevalDMindex lc - L0) mod 20) * NBmodes lc + m)
           + (lat - real_of_int L0)
              * modevalDM_C sh' ! (nat ((modevalDMindex lc - L0 - 1) mod 20) * NBmodes lc + m)
       \<and> modeval_ol sh' ! m = modeval sh ! m - modevalDM sh' ! m
       \<and> framelatency0 lc' = framelatency0 lc \<and> alpha lc' = alpha lc"
    using h(2,4,5) k assms(7) unfolding fl al modevalDM_bsize_def
    by (intro exI [of _ sh'] exI [of _ lc']) simp
next
  fix s0 s1 :: olm_shm and l0 :: olm_locals
  assume "ComputeOpenLoopModes_setup s0 = Inr (s1, l0)"
  then show "framelatency0 l0 = long_of_float (hardwlatency_frame (AOconf s0) + wfsmextrlatency_frame (AOconf s0))"
    and "alpha l0 = hardwlatency_frame (AOconf s0) + wfsmextrlatency_frame (AOconf s0)
                - real_of_int (long_of_float (hardwlatency_frame (AOconf s0) + wfsmextrlatency_frame (AOconf s0)))"
    by (auto simp: ComputeOpenLoopModes_setup_def Let_def split: sum.splits)
qed

text \<open>The example loop has a lag of 1.8 frames: \<open>L0 = 1\<close> and \<open>f = 0.8\<close>. Its first iteration,
  at cursor 0, reads the slots 19 and 18.\<close>

theorem open_loop_estimate_witness:
  "olm_wf olm_shm_start olm_locals_start
   \<and> framelatency0 olm_locals_start = long_of_float 1.8
   \<and> alpha olm_locals_start = 1.8 - real_of_int (long_of_float 1.8)
   \<and> (1::int) = (if (0::real) \<le> 1.8 then \<lfloor>1.8::real\<rfloor> else \<lceil>1.8::real\<rceil>) \<and> (0::int) \<le> 1 \<and> (1::int) \<le> 19
   \<and> 0 < NBmodes olm_locals_start
   \<and> ComputeOpenLoopModes_setup olm_shm_example = Inr (olm_shm_start, olm_locals_start)
   \<and> (\<exists>sh' lc'. ComputeOpenLoopModes_iteration olm_shm_start olm_locals_start = Inr (sh', lc')
        \<and> modevalDM sh' ! 0 = 0.2 * modevalDM_C sh' ! 38 + 0.8 * modevalDM_C sh' ! 36
        \<and> modeval_ol sh' ! 0 = modeval olm_shm_start ! 0 - modevalDM sh' ! 0)"
proof -
  have f: "long_of_float 1.8 = 1" "long_of_float (9 / 5) = 1" by (simp_all add: long_of_float_def)
  have a: "framelatency0 olm_locals_start = long_of_float 1.8"
    "alpha olm_locals_start = 1.8 - real_of_int (long_of_float 1.8)"
    "(1::int) = (if (0::real) \<le> 1.8 then \<lfloor>1.8::real\<rfloor> else \<lceil>1.8::real\<rceil>)" "(0::int) \<le> 1" "(1::int) \<le> 19"
    "0 < NBmodes olm_locals_start"
    by (simp_all add: f olm_locals_start_def)
  have c: "modevalDMindex olm_locals_start = 0" "NBmodes olm_locals_start = 2"
    by (simp_all add: olm_locals_start_def)
  from open_loop_estimate [OF olm_wf_start a, THEN conjunct1]
  obtain sh' lc' where h:
    "ComputeOpenLoopModes_iteration olm_shm_start olm_locals_start = Inr (sh', lc')"
    "modevalDM sh' ! 0 =
           (1 - (1.8 - real_of_int 1))
              * modevalDM_C sh' ! (nat ((modevalDMindex olm_locals_start - 1) mod 20) * NBmodes olm_locals_start + 0)
           + (1.8 - real_of_int 1)
              * modevalDM_C sh' ! (nat ((modevalDMindex olm_locals_start - 1 - 1) mod 20) * NBmodes olm_locals_start + 0)"
    "modeval_ol sh' ! 0 = modeval olm_shm_start ! 0 - modevalDM sh' ! 0"
    by blast
  have "modevalDM sh' ! 0 = 0.2 * modevalDM_C sh' ! 38 + 0.8 * modevalDM_C sh' ! 36"
    using h(2) unfolding c by simp
  with h(1,3) a olm_wf_start setup_example
    open_loop_estimate [OF olm_wf_start a, THEN conjunct2, rule_format, OF setup_example]
  show ?thesis by blast
qed

text \<open>A lag of 20.5 frames: the setup takes \<open>L0 = 20\<close>, and in the first iteration, at cursor 0,
  the second lagged index is \<open>0 - 21 + 20 = -1\<close> after the single correction, where the index
  modulo the buffer size is 19: the iteration reads outside the buffer. A lag of -1.5 frames
  gives \<open>L0 = -1\<close>, and at cursor 19 the first lagged index is 20, where the index modulo the
  buffer size is 0.\<close>

theorem open_loop_estimate_counterexample:
  "ComputeOpenLoopModes_setup
       (olm_shm_example\<lparr>AOconf := conf_example\<lparr>hardwlatency_frame := 20, wfsmextrlatency_frame := 0.5\<rparr>\<rparr>)
     = Inr (olm_shm_start\<lparr>AOconf := conf_example\<lparr>hardwlatency_frame := 20, wfsmextrlatency_frame := 0.5\<rparr>\<rparr>,
            olm_locals_start\<lparr>framelatency0 := 20, framelatency1 := 21, alpha := 0.5\<rparr>)
   \<and> ComputeOpenLoopModes_iteration
       (olm_shm_start\<lparr>AOconf := conf_example\<lparr>hardwlatency_frame := 20, wfsmextrlatency_frame := 0.5\<rparr>\<rparr>)
       (olm_locals_start\<lparr>framelatency0 := 20, framelatency1 := 21, alpha := 0.5\<rparr>)
     = Inl OutOfBounds
   \<and> modevalDMindex1 (lag_indices (olm_locals_start\<lparr>framelatency0 := 20, framelatency1 := 21, alpha := 0.5\<rparr>))
     = - 1
   \<and> (modevalDMindex olm_locals_start - 20 - 1) mod 20 = 19
   \<and> ComputeOpenLoopModes_iteration olm_shm_start
       (olm_locals_start\<lparr>framelatency0 := - 1, framelatency1 := 0, alpha := - 0.5,
                         modevalDMindex := 19, modevalDMindexl := 18\<rparr>)
     = Inl OutOfBounds
   \<and> modevalDMindex0 (lag_indices (olm_locals_start\<lparr>framelatency0 := - 1, framelatency1 := 0, alpha := - 0.5,
                         modevalDMindex := 19, modevalDMindexl := 18\<rparr>))
     = 20
   \<and> ((19::int) - (- 1)) mod 20 = 0"
  by (simp add: ComputeOpenLoopModes_setup_def olm_eval olm_example long_of_float_def
      numeral_2_eq_2 One_nat_def)


section \<open>The clip invariant\<close>

lemma sum_list_filter_indicator:
  assumes "\<forall>k\<in>set xs. Q k \<longrightarrow> f k = (if P k then (1::real) else 0)"
  shows "sum_list (map f (filter Q xs)) = real (length (filter (\<lambda>k. Q k \<and> P k) xs))"
  using assms by (induction xs) auto

lemma clip_value_nonneg_limit:
  "0 \<le> l \<Longrightarrow> clip_value l x = (if x > l then l else if x < - l then - l else x)"
  by (auto simp: clip_value_def Let_def)

text \<open>The count the clip pass adds to a block whose modes all have limits that are not
  negative.\<close>

lemma scatter_clip_count:
  assumes "b < length a" and "\<forall>k<n. ix k = b \<longrightarrow> 0 \<le> l k"
  shows "for_loop n (\<lambda>m a. a[ix m := a ! ix m + clip_count (l m) (x m)]) a ! b
           = a ! b + real (length (filter (\<lambda>k. ix k = b \<and> l k < \<bar>x k\<bar>) [0..<n]))"
proof -
  have "sum_list (map (\<lambda>m. clip_count (l m) (x m)) (filter (\<lambda>m. ix m = b) [0..<n]))
      = real (length (filter (\<lambda>k. ix k = b \<and> l k < \<bar>x k\<bar>) [0..<n]))"
    using assms(2) by (intro sum_list_filter_indicator) (simp add: clip_count_nonneg_limit)
  then show ?thesis
    using nth_scatter_add [OF assms(1), of n ix "\<lambda>m. clip_count (l m) (x m)"] by simp
qed

text \<open>
  Claim C2, amended. The modal values are real numbers here: NaN is left out. In an iteration
  with mode filtering active (\<^verbatim>\<open>FILTERMODE == 1\<close>), for every mode \<open>m\<close> whose limit is not
  negative, the filtered value of the mode, which is the value committed to the circular
  buffer, is bounded in absolute value by the limit of the mode, the product of the block limit
  and the mode limit read at the start of the iteration: it is the limit when the integrated
  value is above the limit, minus the limit when it is below minus the limit, and the
  integrated value otherwise. For every block whose modes all have limits that are not
  negative, the clip pass adds to the accumulator \<^verbatim>\<open>blockavelimFrac\<close> of the block the number
  of its modes that were clipped.
\<close>

theorem clip_invariant:
  assumes "olm_wf sh lc" and "0 \<le> framelatency0 lc" and "framelatency0 lc \<le> 19"
    and "FILTERMODE lc = 1"
  shows "\<exists>s1 l1 sh' lc'. integrate_modes sh lc = Inr (s1, l1)
      \<and> estimate_open_loop s1 l1 = Inr (sh', lc')
      \<and> ComputeOpenLoopModes_iteration sh lc = Inr (sh', lc')
      \<and> (\<forall>m < NBmodes lc.
            modelimit lc' ! m = limitb sh ! (modeblock lc ! m) * LIMIT_modes sh ! m
          \<and> modevalDM_C sh' ! (nat (modevalDMindex lc) * NBmodes lc + m) = modevalDMnowfilt sh' ! m
          \<and> (0 \<le> modelimit lc' ! m \<longrightarrow>
                \<bar>modevalDMnowfilt sh' ! m\<bar> \<le> modelimit lc' ! m
              \<and> modevalDMnowfilt sh' ! m =
                  (if modevalDMnow sh' ! m > modelimit lc' ! m then modelimit lc' ! m
                   else if modevalDMnow sh' ! m < - modelimit lc' ! m then - modelimit lc' ! m
                   else modevalDMnow sh' ! m)))
      \<and> (\<forall>b < DMmodesNBblock (AOconf sh).
            (\<forall>k < NBmodes lc. blknb sh ! k = b \<longrightarrow> 0 \<le> modelimit lc' ! k) \<longrightarrow>
            blockavelimFrac l1 ! b = blockavelimFrac lc ! b
              + real (length (filter (\<lambda>k. blknb sh ! k = b \<and> modelimit lc' ! k < \<bar>modevalDMnow sh' ! k\<bar>)
                         [0..<NBmodes lc])))"
proof -
  note w = olm_wfD [OF assms(1)]
  let ?lw = "write_gain_mult_limit sh lc"
  let ?n = "NBmodes lc"
  from iteration_halves [OF assms(1,2,3)]
  obtain s1 l1 sh' lc' where h:
    "integrate_modes sh lc = Inr (s1, l1)"
    "estimate_open_loop s1 l1 = Inr (sh', lc')"
    "ComputeOpenLoopModes_iteration sh lc = Inr (sh', lc')"
    "same_control (advance_index (lag_indices l1)) lc'"
    "modevalDMnow sh' = modevalDMnow s1" "modevalDMnowfilt sh' = modevalDMnowfilt s1"
    "\<forall>m<?n. modevalDM_C sh' ! (nat (modevalDMindex lc) * ?n + m) = modevalDMnowfilt sh' ! m"
    by metis
  have "\<exists>a c. integrate_modes sh lc = Inr (a, c)
      \<and> (\<forall>m<?n. modevalDMnowfilt a ! m = clip_value (modelimit ?lw ! m) (modevalDMnow a ! m))
      \<and> blockavelimFrac c =
        for_loop ?n (\<lambda>m a'. a'[blknb sh ! m := a' ! (blknb sh ! m)
             + clip_count (modelimit ?lw ! m) (modevalDMnow a ! m)]) (blockavelimFrac lc)"
  proof (rule integrate_modes_values [OF assms(1)])
    fix a c
    assume 1: "integrate_modes sh lc = Inr (a, c)"
      and 2: "FILTERMODE lc = 1 \<Longrightarrow> \<forall>m<?n. modevalDMnowfilt a ! m = clip_value (modelimit ?lw ! m) (modevalDMnow a ! m)"
      and 3: "FILTERMODE lc = 1 \<Longrightarrow> blockavelimFrac c =
        for_loop ?n (\<lambda>m a'. a'[blknb sh ! m := a' ! (blknb sh ! m)
             + clip_count (modelimit ?lw ! m) (modevalDMnow a ! m)]) (blockavelimFrac lc)"
    show ?thesis
      by (intro exI [of _ a] exI [of _ c] conjI 1 2 [OF assms(4)] 3 [OF assms(4)])
  qed
  then obtain a c where v: "integrate_modes sh lc = Inr (a, c)"
    "\<forall>m<?n. modevalDMnowfilt a ! m = clip_value (modelimit ?lw ! m) (modevalDMnow a ! m)"
    "blockavelimFrac c =
        for_loop ?n (\<lambda>m a'. a'[blknb sh ! m := a' ! (blknb sh ! m)
             + clip_count (modelimit ?lw ! m) (modevalDMnow a ! m)]) (blockavelimFrac lc)"
    by blast
  have ac: "a = s1" "c = l1" using v(1) h(1) by simp_all
  note g = integrate_modes_gains [OF h(1)]
  have lim': "modelimit lc' = modelimit ?lw"
    using h(4) g by (simp add: same_control_def)
  have lim: "modelimit ?lw ! k = limitb sh ! (modeblock lc ! k) * LIMIT_modes sh ! k" if "k < ?n" for k
    using that w by (simp add: modelimit_write)
  have filt: "modevalDMnowfilt sh' ! k = clip_value (modelimit ?lw ! k) (modevalDMnow sh' ! k)" if "k < ?n" for k
    using v(2) that by (simp add: ac h(5,6))
  have cnt: "blockavelimFrac l1 = for_loop ?n (\<lambda>m a'. a'[blknb sh ! m := a' ! (blknb sh ! m)
             + clip_count (modelimit ?lw ! m) (modevalDMnow sh' ! m)]) (blockavelimFrac lc)"
    unfolding v(3) [unfolded ac] h(5) ..
  have modes: "modelimit lc' ! m = limitb sh ! (modeblock lc ! m) * LIMIT_modes sh ! m
          \<and> modevalDM_C sh' ! (nat (modevalDMindex lc) * NBmodes lc + m) = modevalDMnowfilt sh' ! m
          \<and> (0 \<le> modelimit lc' ! m \<longrightarrow>
                \<bar>modevalDMnowfilt sh' ! m\<bar> \<le> modelimit lc' ! m
              \<and> modevalDMnowfilt sh' ! m =
                  (if modevalDMnow sh' ! m > modelimit lc' ! m then modelimit lc' ! m
                   else if modevalDMnow sh' ! m < - modelimit lc' ! m then - modelimit lc' ! m
                   else modevalDMnow sh' ! m))"
    if m: "m < ?n" for m
  proof (intro conjI impI)
    show "modelimit lc' ! m = limitb sh ! (modeblock lc ! m) * LIMIT_modes sh ! m"
      unfolding lim' by (rule lim [OF m])
    show "modevalDM_C sh' ! (nat (modevalDMindex lc) * NBmodes lc + m) = modevalDMnowfilt sh' ! m"
      using h(7) m by simp
  next
    assume p: "0 \<le> modelimit lc' ! m"
    then have p': "0 \<le> modelimit ?lw ! m" by (simp add: lim')
    show "\<bar>modevalDMnowfilt sh' ! m\<bar> \<le> modelimit lc' ! m"
      unfolding lim' filt [OF m] by (rule clip_value_bound [OF p'])
    show "modevalDMnowfilt sh' ! m =
                  (if modevalDMnow sh' ! m > modelimit lc' ! m then modelimit lc' ! m
                   else if modevalDMnow sh' ! m < - modelimit lc' ! m then - modelimit lc' ! m
                   else modevalDMnow sh' ! m)"
      unfolding lim' filt [OF m] by (rule clip_value_nonneg_limit [OF p'])
  qed
  have blocks: "blockavelimFrac l1 ! b = blockavelimFrac lc ! b
              + real (length (filter (\<lambda>k. blknb sh ! k = b \<and> modelimit lc' ! k < \<bar>modevalDMnow sh' ! k\<bar>)
                         [0..<NBmodes lc]))"
    if b: "b < DMmodesNBblock (AOconf sh)"
      and p: "\<forall>k < NBmodes lc. blknb sh ! k = b \<longrightarrow> 0 \<le> modelimit lc' ! k" for b
  proof -
    have len: "b < length (blockavelimFrac lc)" using b w by simp
    show ?thesis
      unfolding cnt lim'
      by (rule scatter_clip_count [OF len]) (use p in \<open>simp add: lim'\<close>)
  qed
  show ?thesis
    apply (rule exI [of _ s1], rule exI [of _ l1], rule exI [of _ sh'], rule exI [of _ lc'])
    apply (intro conjI h(1,2,3))
     apply (intro allI impI, erule modes)
    apply (intro allI impI, erule (1) blocks)
    done
qed


text \<open>In the first iteration of the three-mode loop the second mode reaches 0.8, above its
  limit 0.5: it is committed as 0.5 and counted once in block 0, whose other mode is inside
  its limit.\<close>

theorem clip_invariant_witness:
  "olm_wf olm_shm_start3 olm_locals_start3
   \<and> 0 \<le> framelatency0 olm_locals_start3 \<and> framelatency0 olm_locals_start3 \<le> 19
   \<and> FILTERMODE olm_locals_start3 = 1
   \<and> (\<exists>s1 l1 sh' lc'. integrate_modes olm_shm_start3 olm_locals_start3 = Inr (s1, l1)
         \<and> ComputeOpenLoopModes_iteration olm_shm_start3 olm_locals_start3 = Inr (sh', lc')
         \<and> modelimit lc' ! 0 = 1 \<and> modelimit lc' ! 1 = 0.5 \<and> modelimit lc' ! 2 = 300
         \<and> modevalDMnow sh' = [- 0.06, 0.8, - 0.2]
         \<and> modevalDMnowfilt sh' ! 0 = - 0.06 \<and> modevalDMnowfilt sh' ! 1 = 0.5
         \<and> modevalDM_C sh' ! 1 = 0.5
         \<and> blockavelimFrac l1 ! 0 = 1 \<and> blockavelimFrac l1 ! 1 = 0)"
proof -
  let ?s = olm_shm_start3 and ?l = olm_locals_start3
  have r: "0 \<le> framelatency0 ?l" "framelatency0 ?l \<le> 19"
    and f: "FILTERMODE ?l = 1"
    by (simp_all add: olm_example3)
  have c: "NBmodes ?l = 3" "DMmodesNBblock (AOconf ?s) = 2" "modevalDMindex ?l = 0"
    "modeblock ?l = [0, 0, 1]" "limitb ?s = [1, 1]" "LIMIT_modes ?s = [1, 0.5, 300]"
    "blknb ?s = [0, 0, 1]" "blockavelimFrac ?l ! 0 = 0" "blockavelimFrac ?l ! 1 = 0"
    by (simp_all add: olm_example3)
  from clip_invariant [OF olm_wf_start3 r f]
  obtain s1 l1 sh' lc' where h:
    "integrate_modes ?s ?l = Inr (s1, l1)"
    "estimate_open_loop s1 l1 = Inr (sh', lc')"
    "ComputeOpenLoopModes_iteration ?s ?l = Inr (sh', lc')"
    "\<forall>m < NBmodes ?l.
            modelimit lc' ! m = limitb ?s ! (modeblock ?l ! m) * LIMIT_modes ?s ! m
          \<and> modevalDM_C sh' ! (nat (modevalDMindex ?l) * NBmodes ?l + m) = modevalDMnowfilt sh' ! m
          \<and> (0 \<le> modelimit lc' ! m \<longrightarrow>
                \<bar>modevalDMnowfilt sh' ! m\<bar> \<le> modelimit lc' ! m
              \<and> modevalDMnowfilt sh' ! m =
                  (if modevalDMnow sh' ! m > modelimit lc' ! m then modelimit lc' ! m
                   else if modevalDMnow sh' ! m < - modelimit lc' ! m then - modelimit lc' ! m
                   else modevalDMnow sh' ! m))"
    "\<forall>b < DMmodesNBblock (AOconf ?s).
            (\<forall>k < NBmodes ?l. blknb ?s ! k = b \<longrightarrow> 0 \<le> modelimit lc' ! k) \<longrightarrow>
            blockavelimFrac l1 ! b = blockavelimFrac ?l ! b
              + real (length (filter (\<lambda>k. blknb ?s ! k = b \<and> modelimit lc' ! k < \<bar>modevalDMnow sh' ! k\<bar>)
                         [0..<NBmodes ?l]))"
    by blast
  have now: "modevalDMnow sh' = [- 0.06, 0.8, - 0.2]"
    using example3_dm_now estimate_open_loop_frame(1) [OF h(2)] unfolding h(1) by simp
  have m: "modelimit lc' ! 0 = 1" "modelimit lc' ! 1 = 0.5" "modelimit lc' ! 2 = 300"
    using h(4) [rule_format, of 0] h(4) [rule_format, of 1] h(4) [rule_format, of 2]
    unfolding c by simp_all
  have v: "modevalDMnowfilt sh' ! 0 = - 0.06" "modevalDMnowfilt sh' ! 1 = 0.5"
    "modevalDM_C sh' ! 1 = 0.5"
    using h(4) [rule_format, of 0] h(4) [rule_format, of 1]
    unfolding c now m by simp_all
  have p: "0 \<le> modelimit lc' ! k" if "k < 3" for k
  proof -
    from that have "k = 0 \<or> k = 1 \<or> k = 2" by arith
    then show ?thesis using m by auto
  qed
  have b: "blockavelimFrac l1 ! 0 = 1" "blockavelimFrac l1 ! 1 = 0"
    using h(5) [rule_format, of 0] h(5) [rule_format, of 1] p
    unfolding c now upt_3 by (simp_all add: m m [unfolded One_nat_def])
  show ?thesis
    using olm_wf_start3 r f h(1,3) m now v b by blast
qed

text \<open>Negative limits: with both block limits set to -1 the limit of the first mode is -1.
  The first test sets the mode to -1 and the second test, which then sees a value below the
  negated limit 1, sets it to 1: the mode is committed as 1, outside the limit, and counted
  twice. NaN: on the number type with NaN both tests of the clip pass are false for a NaN
  value, which is left in place and goes on to the circular buffer, while the second mode is
  clipped from 0.8 to 0.5 and counted.\<close>

theorem clip_invariant_counterexample:
  "\<not> isl (ComputeOpenLoopModes_iteration (olm_shm_start\<lparr>limitb := [- 1, - 1]\<rparr>) olm_locals_start)
   \<and> FILTERMODE olm_locals_start = 1
   \<and> modelimit (snd (projr (ComputeOpenLoopModes_iteration
         (olm_shm_start\<lparr>limitb := [- 1, - 1]\<rparr>) olm_locals_start))) ! 0 = - 1
   \<and> modevalDMnowfilt (fst (projr (ComputeOpenLoopModes_iteration
         (olm_shm_start\<lparr>limitb := [- 1, - 1]\<rparr>) olm_locals_start))) ! 0 = 1
   \<and> modevalDM_C (fst (projr (ComputeOpenLoopModes_iteration
         (olm_shm_start\<lparr>limitb := [- 1, - 1]\<rparr>) olm_locals_start))) ! 0 = 1
   \<and> \<not> \<bar>modevalDMnowfilt (fst (projr (ComputeOpenLoopModes_iteration
           (olm_shm_start\<lparr>limitb := [- 1, - 1]\<rparr>) olm_locals_start))) ! 0\<bar>
         \<le> modelimit (snd (projr (ComputeOpenLoopModes_iteration
           (olm_shm_start\<lparr>limitb := [- 1, - 1]\<rparr>) olm_locals_start))) ! 0
   \<and> blockavelimFrac (snd (projr (integrate_modes
         (olm_shm_start\<lparr>limitb := [- 1, - 1]\<rparr>) olm_locals_start))) ! 0 = 2
   \<and> for_loop 2 (clip_mode [0, 1] [Fin 1, Fin 0.5]) ([NaN, Fin 0.8], [0, 0])
        = ([NaN, Fin 0.5], [0, 1])"
proof -
  let ?s = "olm_shm_start\<lparr>limitb := [- 1, - 1]\<rparr>" and ?l = olm_locals_start
  have wf: "olm_wf ?s ?l"
    by (simp add: olm_wf_def olm_example modevalDM_bsize_def Let_def)
  have r: "0 \<le> framelatency0 ?l" "framelatency0 ?l \<le> 19"
    and f: "FILTERMODE ?l = 1" and c: "modevalDMindex ?l = 0" "NBmodes ?l = 2"
    by (simp_all add: olm_example)
  from iteration_halves [OF wf r]
  obtain s1 l1 sh' lc' where h:
    "integrate_modes ?s ?l = Inr (s1, l1)"
    "ComputeOpenLoopModes_iteration ?s ?l = Inr (sh', lc')"
    "same_control (advance_index (lag_indices l1)) lc'"
    "modevalDMnowfilt sh' = modevalDMnowfilt s1"
    "\<forall>m<NBmodes ?l. modevalDM_C sh' ! (nat (modevalDMindex ?l) * NBmodes ?l + m) = modevalDMnowfilt sh' ! m"
    by metis
  have ev: "modevalDMnowfilt (fst (projr (integrate_modes ?s ?l))) = [1, 1 / 2]"
    "modelimit (snd (projr (integrate_modes ?s ?l))) = [- 1, - 1 / 2]"
    "blockavelimFrac (snd (projr (integrate_modes ?s ?l))) ! 0 = 2"
    by (simp_all add: olm_eval olm_example)
  have lim: "modelimit lc' = [- 1, - 1 / 2]"
    using h(3) ev(2) unfolding h(1) by (simp add: same_control_def)
  have filt: "modevalDMnowfilt sh' = [1, 1 / 2]"
    using ev(1) unfolding h(1) h(4) by simp
  have ring: "modevalDM_C sh' ! 0 = 1"
    using h(5) [rule_format, of 0] unfolding c filt by simp
  have nan: "for_loop 2 (clip_mode [0, 1] [Fin 1, Fin 0.5]) ([NaN, Fin 0.8], [0, 0])
        = ([NaN, Fin 0.5], [0, 1])"
    by (simp add: for_loop_2 clip_mode_def Let_def)
  show ?thesis
    unfolding h(2) using f lim filt ring ev(3) nan by simp
qed


section \<open>The limit tuner\<close>








section \<open>The actuation sink\<close>

subsection \<open>The product of the mode basis with the modal command\<close>

lemma accumulate_at:
  fixes a :: "real list"
  shows "for_loop n (\<lambda>k a. a[i := a ! i + v k]) a = a[i := a ! i + sum_list (map v [0..<n])]"
proof (induction n)
  case 0
  then show ?case by simp
next
  case (Suc n)
  show ?case
  proof (cases "i < length a")
    case True
    then show ?thesis using Suc by (simp add: add.assoc)
  next
    case False
    then show ?thesis using Suc by (simp add: list_update_beyond)
  qed
qed

lemma nth_modes_to_act:
  assumes "i < sz"
  shows "modes_to_act sz NBm cmd basis ! i
           = sum_list (map (\<lambda>k. cmd ! k * basis ! (k * sz + i)) [0..<NBm])"
proof -
  let ?z = "for_loop sz (\<lambda>j a. a[j := 0]) (replicate sz (0::real))"
  have z: "?z ! i = 0" "length ?z = sz"
    using assms by (simp_all add: nth_for_loop_update_const)
  have "modes_to_act sz NBm cmd basis
      = for_loop sz (\<lambda>i a. a[i := a ! i + sum_list (map (\<lambda>k. cmd ! k * basis ! (k * sz + i)) [0..<NBm])]) ?z"
    unfolding modes_to_act_def Let_def
    by (rule for_loop_cong) (rule accumulate_at)
  also have "\<dots> ! i = ?z ! i + sum_list (map (\<lambda>k. cmd ! k * basis ! (k * sz + i)) [0..<NBm])"
    using assms z(2)
    by (simp add: nth_for_loop_update_all
          [where g = "\<lambda>i x. x + sum_list (map (\<lambda>k. cmd ! k * basis ! (k * sz + i)) [0..<NBm])"])
  finally show ?thesis by (simp add: z(1))
qed

text \<open>
  Claim C9, amended. In two-step mode (\<^verbatim>\<open>CMMODE == 0\<close>), when the primary DM write is disabled,
  the multiplication of the mode basis with the modal command does not take place: the
  multiplication and the write to the DM command stream are both in \<^verbatim>\<open>set_DM_modes\<close>, which
  is not called, and the iteration changes nothing but the status code, the iteration count
  and, at the last iteration, the loop switch. The DM command stream, its update counter and
  the count of DM updates are left as they were.

  The theorem also records when the call is made. With the primary write enabled and a loop
  gain of absolute value at most \<open>1e-6\<close> the iteration is the same as with the write disabled.
  With the primary write enabled and a larger gain, on the CPU branch, actuator \<open>i\<close> of the DM
  command becomes the sum over the modes \<open>k\<close> of the modal command of \<open>k\<close> times the entry of
  the mode basis for mode \<open>k\<close> and actuator \<open>i\<close>, and both counters grow by one.
\<close>

theorem primary_write_disabled:
  "(CMMODE (AOconf sh) = 0 \<and> DMprimaryWrite_ON (AOconf sh) \<noteq> 1 \<longrightarrow>
      AOloopControl_run_after_compute G sh =
        (if cnt (AOconf sh) + 1 = cntmax (AOconf sh)
         then sh\<lparr>AOconf := (AOconf sh)\<lparr>status := 18, cnt := cnt (AOconf sh) + 1, loop_on := 0\<rparr>\<rparr>
         else sh\<lparr>AOconf := (AOconf sh)\<lparr>status := 18, cnt := cnt (AOconf sh) + 1\<rparr>\<rparr>)
      \<and> dmC (AOloopControl_run_after_compute G sh) = dmC sh
      \<and> dmC_cnt0 (AOloopControl_run_after_compute G sh) = dmC_cnt0 sh
      \<and> DMupdatecnt (AOconf (AOloopControl_run_after_compute G sh)) = DMupdatecnt (AOconf sh))
   \<and> (CMMODE (AOconf sh) = 0 \<and> DMprimaryWrite_ON (AOconf sh) = 1
        \<and> \<bar>gain (AOconf sh)\<bar> \<le> 1 / 1000000 \<longrightarrow>
      AOloopControl_run_after_compute G sh =
        (if cnt (AOconf sh) + 1 = cntmax (AOconf sh)
         then sh\<lparr>AOconf := (AOconf sh)\<lparr>status := 18, cnt := cnt (AOconf sh) + 1, loop_on := 0\<rparr>\<rparr>
         else sh\<lparr>AOconf := (AOconf sh)\<lparr>status := 18, cnt := cnt (AOconf sh) + 1\<rparr>\<rparr>))
   \<and> (CMMODE (AOconf sh) = 0 \<and> DMprimaryWrite_ON (AOconf sh) = 1
        \<and> \<bar>gain (AOconf sh)\<bar> > 1 / 1000000
        \<and> GPU1 (AOconf sh) = 0 \<and> length (dmC sh) = sizeDM (AOconf sh) \<longrightarrow>
      (\<forall>i < sizeDM (AOconf sh). dmC (AOloopControl_run_after_compute G sh) ! i
          = sum_list (map (\<lambda>k. cmd_modes sh ! k * DMmodes sh ! (k * sizeDM (AOconf sh) + i))
                       [0..<NBDMmodes (AOconf sh)]))
      \<and> dmC_cnt0 (AOloopControl_run_after_compute G sh) = dmC_cnt0 sh + 1
      \<and> DMupdatecnt (AOconf (AOloopControl_run_after_compute G sh)) = DMupdatecnt (AOconf sh) + 1
      \<and> cmd_modes (AOloopControl_run_after_compute G sh) = cmd_modes sh)"
proof (intro conjI impI allI)
  assume a: "CMMODE (AOconf sh) = 0 \<and> DMprimaryWrite_ON (AOconf sh) \<noteq> 1"
  then show "AOloopControl_run_after_compute G sh =
        (if cnt (AOconf sh) + 1 = cntmax (AOconf sh)
         then sh\<lparr>AOconf := (AOconf sh)\<lparr>status := 18, cnt := cnt (AOconf sh) + 1, loop_on := 0\<rparr>\<rparr>
         else sh\<lparr>AOconf := (AOconf sh)\<lparr>status := 18, cnt := cnt (AOconf sh) + 1\<rparr>\<rparr>)"
    by (simp add: AOloopControl_run_after_compute_def run_status_def Let_def)
  from a show "dmC (AOloopControl_run_after_compute G sh) = dmC sh"
    and "dmC_cnt0 (AOloopControl_run_after_compute G sh) = dmC_cnt0 sh"
    and "DMupdatecnt (AOconf (AOloopControl_run_after_compute G sh)) = DMupdatecnt (AOconf sh)"
    by (simp_all add: AOloopControl_run_after_compute_def run_status_def Let_def)
next
  assume "CMMODE (AOconf sh) = 0 \<and> DMprimaryWrite_ON (AOconf sh) = 1
        \<and> \<bar>gain (AOconf sh)\<bar> \<le> 1 / 1000000"
  then show "AOloopControl_run_after_compute G sh =
        (if cnt (AOconf sh) + 1 = cntmax (AOconf sh)
         then sh\<lparr>AOconf := (AOconf sh)\<lparr>status := 18, cnt := cnt (AOconf sh) + 1, loop_on := 0\<rparr>\<rparr>
         else sh\<lparr>AOconf := (AOconf sh)\<lparr>status := 18, cnt := cnt (AOconf sh) + 1\<rparr>\<rparr>)"
    by (simp add: AOloopControl_run_after_compute_def run_status_def Let_def)
next
  assume a: "CMMODE (AOconf sh) = 0 \<and> DMprimaryWrite_ON (AOconf sh) = 1
        \<and> \<bar>gain (AOconf sh)\<bar> > 1 / 1000000
        \<and> GPU1 (AOconf sh) = 0 \<and> length (dmC sh) = sizeDM (AOconf sh)"
  then show "dmC_cnt0 (AOloopControl_run_after_compute G sh) = dmC_cnt0 sh + 1"
    and "DMupdatecnt (AOconf (AOloopControl_run_after_compute G sh)) = DMupdatecnt (AOconf sh) + 1"
    and "cmd_modes (AOloopControl_run_after_compute G sh) = cmd_modes sh"
    by (simp_all add: AOloopControl_run_after_compute_def run_status_def set_DM_modes_def Let_def)
  fix i
  assume i: "i < sizeDM (AOconf sh)"
  have "dmC (AOloopControl_run_after_compute G sh) ! i
      = modes_to_act (sizeDM (AOconf sh)) (NBDMmodes (AOconf sh)) (cmd_modes sh) (DMmodes sh) ! i"
    using a i
    by (simp add: AOloopControl_run_after_compute_def run_status_def set_DM_modes_def Let_def
        nth_for_loop_update_const)
  then show "dmC (AOloopControl_run_after_compute G sh) ! i
          = sum_list (map (\<lambda>k. cmd_modes sh ! k * DMmodes sh ! (k * sizeDM (AOconf sh) + i))
                       [0..<NBDMmodes (AOconf sh)])"
    by (simp add: nth_modes_to_act [OF i])
qed

lemma modes_to_act_example: "modes_to_act 2 2 [1, 2] [1, 0, 0, 1] = [1, 2]"
  by (simp add: modes_to_act_def for_loop_2 numeral_2_eq_2)

text \<open>The example with the write disabled, with the write enabled and a loop gain set to 0,
  and with the write enabled and the loop gain 0.2, where the second actuator receives
  \<open>1 * 0 + 2 * 1 = 2\<close>.\<close>

theorem primary_write_disabled_witness:
  "CMMODE (AOconf (run_shm_example 0)) = 0 \<and> DMprimaryWrite_ON (AOconf (run_shm_example 0)) \<noteq> 1
   \<and> dmC (AOloopControl_run_after_compute id (run_shm_example 0)) = [0, 0]
   \<and> DMupdatecnt (AOconf (AOloopControl_run_after_compute id (run_shm_example 0))) = 0
   \<and> CMMODE (AOconf ((run_shm_example 1)\<lparr>AOconf := conf_example\<lparr>DMprimaryWrite_ON := 1, gain := 0\<rparr>\<rparr>)) = 0
   \<and> DMprimaryWrite_ON (AOconf ((run_shm_example 1)\<lparr>AOconf := conf_example\<lparr>DMprimaryWrite_ON := 1, gain := 0\<rparr>\<rparr>)) = 1
   \<and> \<bar>gain (AOconf ((run_shm_example 1)\<lparr>AOconf := conf_example\<lparr>DMprimaryWrite_ON := 1, gain := 0\<rparr>\<rparr>))\<bar>
        \<le> 1 / 1000000
   \<and> dmC (AOloopControl_run_after_compute id
             ((run_shm_example 1)\<lparr>AOconf := conf_example\<lparr>DMprimaryWrite_ON := 1, gain := 0\<rparr>\<rparr>)) = [0, 0]
   \<and> CMMODE (AOconf (run_shm_example 1)) = 0 \<and> DMprimaryWrite_ON (AOconf (run_shm_example 1)) = 1
   \<and> \<bar>gain (AOconf (run_shm_example 1))\<bar> > 1 / 1000000 \<and> GPU1 (AOconf (run_shm_example 1)) = 0
   \<and> length (dmC (run_shm_example 1)) = sizeDM (AOconf (run_shm_example 1))
   \<and> 1 < sizeDM (AOconf (run_shm_example 1))
   \<and> dmC (AOloopControl_run_after_compute id (run_shm_example 1)) ! 1 = 2
   \<and> DMupdatecnt (AOconf (AOloopControl_run_after_compute id (run_shm_example 1))) = 1"
proof -
  let ?z = "(run_shm_example 1)\<lparr>AOconf := conf_example\<lparr>DMprimaryWrite_ON := 1, gain := 0\<rparr>\<rparr>"
  have a: "CMMODE (AOconf (run_shm_example 0)) = 0 \<and> DMprimaryWrite_ON (AOconf (run_shm_example 0)) \<noteq> 1"
    by (simp add: run_shm_example_def conf_example_def)
  have z: "CMMODE (AOconf ?z) = 0 \<and> DMprimaryWrite_ON (AOconf ?z) = 1 \<and> \<bar>gain (AOconf ?z)\<bar> \<le> 1 / 1000000"
    by (simp add: run_shm_example_def conf_example_def)
  have b: "CMMODE (AOconf (run_shm_example 1)) = 0 \<and> DMprimaryWrite_ON (AOconf (run_shm_example 1)) = 1
      \<and> \<bar>gain (AOconf (run_shm_example 1))\<bar> > 1 / 1000000 \<and> GPU1 (AOconf (run_shm_example 1)) = 0
      \<and> length (dmC (run_shm_example 1)) = sizeDM (AOconf (run_shm_example 1))"
    by (simp add: run_shm_example_def conf_example_def)
  have c: "1 < sizeDM (AOconf (run_shm_example 1))"
    by (simp add: run_shm_example_def conf_example_def)
  have u: "[0..<2] = [0, 1]"
    by (simp add: upt_rec [of 0] upt_rec [of "Suc 0"] upt_rec [of 1] numeral_eq_Suc)
  have d: "sum_list (map (\<lambda>k. cmd_modes (run_shm_example 1) ! k
               * DMmodes (run_shm_example 1) ! (k * sizeDM (AOconf (run_shm_example 1)) + 1))
             [0..<NBDMmodes (AOconf (run_shm_example 1))]) = 2"
    by (simp add: run_shm_example_def conf_example_def u)
  have e: "dmC (run_shm_example 0) = [0, 0]" "DMupdatecnt (AOconf (run_shm_example 0)) = 0"
    "dmC ?z = [0, 0]" "DMupdatecnt (AOconf (run_shm_example 1)) = 0" "cnt (AOconf ?z) + 1 \<noteq> cntmax (AOconf ?z)"
    by (simp_all add: run_shm_example_def conf_example_def)
  note t0 = primary_write_disabled [of "run_shm_example 0" id, THEN conjunct1, rule_format, OF a]
  note tz = primary_write_disabled [of ?z id, THEN conjunct2, THEN conjunct1, rule_format, OF z]
  note t1 = primary_write_disabled [of "run_shm_example 1" id, THEN conjunct2, THEN conjunct2, rule_format, OF b]
  have "dmC (AOloopControl_run_after_compute id ?z) = [0, 0]"
    unfolding tz using e(3,5) by simp
  moreover have "dmC (AOloopControl_run_after_compute id (run_shm_example 1)) ! 1 = 2"
    using t1 [THEN conjunct1, rule_format, OF c] d by simp
  moreover have "DMupdatecnt (AOconf (AOloopControl_run_after_compute id (run_shm_example 1))) = 1"
    using t1 e(4) by simp
  moreover have "dmC (AOloopControl_run_after_compute id (run_shm_example 0)) = [0, 0]"
    "DMupdatecnt (AOconf (AOloopControl_run_after_compute id (run_shm_example 0))) = 0"
    using t0 e(1,2) by simp_all
  ultimately show ?thesis using a z b c by simp
qed

text \<open>With the primary write disabled the iteration leaves the DM command at \<open>[0, 0]\<close> and the
  count of DM updates, which \<^verbatim>\<open>set_DM_modes\<close> increments, at 0, while the product of the mode
  basis with the modal command is \<open>[1, 2]\<close>: the function that holds the multiplication was not
  called. The iteration changes the status code and the iteration count only.\<close>

theorem primary_write_disabled_counterexample:
  "AOloopControl_run_after_compute id (run_shm_example 0)
     = (run_shm_example 0)\<lparr>AOconf := (AOconf (run_shm_example 0))\<lparr>status := 18, cnt := 1\<rparr>\<rparr>
   \<and> DMupdatecnt (AOconf (AOloopControl_run_after_compute id (run_shm_example 0))) = 0
   \<and> dmC (AOloopControl_run_after_compute id (run_shm_example 0)) = [0, 0]
   \<and> dmC (set_DM_modes id (run_shm_example 0)) = [1, 2]
   \<and> DMupdatecnt (AOconf (set_DM_modes id (run_shm_example 0))) = 1"
  by (simp add: AOloopControl_run_after_compute_def run_status_def set_DM_modes_def Let_def
      run_shm_example_def conf_example_def modes_to_act_example for_loop_2)


section \<open>NaN measurements\<close>

subsection \<open>Arithmetic and comparisons with NaN\<close>

lemma fl_nan_arith [simp]:
  "x * NaN = NaN" "NaN * x = NaN" "x - NaN = NaN" "NaN - x = NaN" "x + NaN = NaN" "NaN + x = NaN"
  by (cases x; simp)+

lemma fl_nan_compare [simp]:
  "\<not> NaN < x" "\<not> x < NaN" "\<not> NaN \<le> x" "\<not> x \<le> NaN"
  by (cases x; simp)+

lemma isnan_fl [simp]: "isnan NaN" "\<not> isnan (Fin a)" "isnan x \<longleftrightarrow> x = NaN"
  by (cases x; simp add: isnan_def)+

subsection \<open>The integrators on numbers with NaN\<close>

lemma integrate_cmd_modes_nth:
  assumes "k < n" "k < length cmd"
  shows "integrate_cmd_modes n g gains maxl limits ml multf meas cmd ! k =
     (let x = cmd ! k - g * gains ! k * meas ! k;
          x = (if x < - maxl * limits ! k then - maxl * limits ! k else x);
          x = (if x > maxl * limits ! k then maxl * limits ! k else x)
      in x * (ml * multf ! k))"
proof -
  have body: "(let a' = a[k := a ! k - g * gains ! k * meas ! k];
            a' = (if a' ! k < - maxl * limits ! k then a'[k := - maxl * limits ! k] else a');
            a' = (if a' ! k > maxl * limits ! k then a'[k := maxl * limits ! k] else a')
        in a'[k := a' ! k * (ml * multf ! k)])
      = a[k := (let x = a ! k - g * gains ! k * meas ! k;
                    x = (if x < - maxl * limits ! k then - maxl * limits ! k else x);
                    x = (if x > maxl * limits ! k then maxl * limits ! k else x)
                in x * (ml * multf ! k))]" for k and a :: "'a list"
    by (cases "k < length a") (simp_all add: Let_def list_update_beyond)
  show ?thesis
    unfolding integrate_cmd_modes_def body
    by (subst nth_for_loop_update_all [where g = "\<lambda>k y. (let x = y - g * gains ! k * meas ! k;
                    x = (if x < - maxl * limits ! k then - maxl * limits ! k else x);
                    x = (if x > maxl * limits ! k then maxl * limits ! k else x)
                in x * (ml * multf ! k))"])
       (simp only: assms simp_thms if_True)
qed

lemma replace_nan_nth:
  assumes "i < n" "i < length act"
  shows "replace_nan n act ! i = (if isnan (act ! i) then 0 else act ! i)"
proof -
  have body: "(if isnan (a ! ii) then a[ii := 0] else a) = a[ii := (if isnan (a ! ii) then 0 else a ! ii)]"
    for ii and a :: "'a list"
    by simp
  show ?thesis
    unfolding replace_nan_def body
    by (subst nth_for_loop_update_all [where g = "\<lambda>ii y. if isnan y then 0 else y"])
       (simp only: assms simp_thms if_True)
qed

text \<open>
  Claim C6. The replacement of a NaN measurement by zero exists on one path only, the direct
  path of \<^verbatim>\<open>AOloopControl_run\<close> (\<^verbatim>\<open>CMMODE != 0\<close>): there every entry of the measurement is a number
  after the replacement loop, zero where it was NaN. The modal paths have no such test. In
  \<^verbatim>\<open>AOloopControl_ComputeOpenLoopModes\<close> a NaN measurement of mode \<open>m\<close> makes the current DM state of
  the mode NaN, and the clip pass leaves a NaN value in place and does not count it, so that
  NaN is what is committed. In the two-step integrator of \<^verbatim>\<open>AOcompute\<close> a NaN measurement of
  mode \<open>k\<close> makes the modal command of the mode NaN. The claim does not hold on the modal paths.
\<close>

theorem nan_measurement_not_sanitized:
  "(i < n \<and> i < length act \<longrightarrow>
       replace_nan n act ! i = (if act ! i = NaN then Fin 0 else act ! i)
     \<and> replace_nan n act ! i \<noteq> NaN)
   \<and> (m < n \<and> m < length dmnow \<and> meas ! m = NaN \<longrightarrow>
       update_modevalDMnow n mmult mgain ring il meas dmnow ! m = NaN)
   \<and> (filt ! m = NaN \<longrightarrow> clip_mode blk maxl m (filt, lf) = (filt, lf))
   \<and> (k < n \<and> k < length cmd \<and> meas ! k = NaN \<longrightarrow>
       integrate_cmd_modes n g gains maxc limits ml multf meas cmd ! k = NaN)"
proof (intro conjI impI)
  assume a: "i < n \<and> i < length act"
  then show r: "replace_nan n act ! i = (if act ! i = NaN then Fin 0 else act ! i)"
    by (simp add: replace_nan_nth zero_fl_def)
  show "replace_nan n act ! i \<noteq> NaN"
    unfolding r by simp
next
  assume "m < n \<and> m < length dmnow \<and> meas ! m = NaN"
  then show "update_modevalDMnow n mmult mgain ring il meas dmnow ! m = NaN"
    by (simp add: nth_update_modevalDMnow)
next
  assume "filt ! m = NaN"
  then show "clip_mode blk maxl m (filt, lf) = (filt, lf)"
    by (simp add: clip_mode_def Let_def)
next
  assume "k < n \<and> k < length cmd \<and> meas ! k = NaN"
  then show "integrate_cmd_modes n g gains maxc limits ml multf meas cmd ! k = NaN"
    by (simp add: integrate_cmd_modes_nth Let_def)
qed

text \<open>Two modes, the first with a NaN measurement. The direct path integrates 0 for it; the
  modal paths produce NaN, and the clip pass lets it through.\<close>

theorem nan_measurement_not_sanitized_witness:
  "(0::nat) < 2 \<and> 0 < length [NaN, Fin 1]
   \<and> replace_nan 2 [NaN, Fin 1] ! 0 = Fin 0
   \<and> integrate_act 2 (Fin 0.2) (Fin 1) (Fin 2) (replace_nan 2 [NaN, Fin 1]) [Fin 0, Fin 0]
        = [Fin 0, Fin (- 0.2)]
   \<and> 0 < length [Fin 0, Fin 0] \<and> [NaN, Fin (- 4)] ! 0 = NaN
   \<and> update_modevalDMnow 2 [Fin 1, Fin 1] [Fin 0.2, Fin 0.2] (replicate 40 (Fin 0)) 0
        [NaN, Fin (- 4)] [Fin 0, Fin 0] ! 0 = NaN
   \<and> update_modevalDMnow 2 [Fin 1, Fin 1] [Fin 0.2, Fin 0.2] (replicate 40 (Fin 0)) 0
        [NaN, Fin (- 4)] [Fin 0, Fin 0] = [NaN, Fin 0.8]
   \<and> clip_mode [0, 1] [Fin 1, Fin 0.5] 0 ([NaN, Fin 0.8], [0, 0]) = ([NaN, Fin 0.8], [0, 0])
   \<and> [NaN, Fin 1] ! 0 = NaN
   \<and> integrate_cmd_modes 2 (Fin 0.2) [Fin 1, Fin 1] (Fin 2) [Fin 1, Fin 1] (Fin 1) [Fin 1, Fin 1]
        [NaN, Fin 1] [Fin 0, Fin 0] ! 0 = NaN"
proof -
  note t = nan_measurement_not_sanitized
  have a: "(0::nat) < 2 \<and> 0 < length [NaN, Fin 1]" by simp
  have b: "(0::nat) < 2 \<and> 0 < length [Fin 0, Fin 0] \<and> [NaN, Fin (- 4)] ! 0 = NaN" by simp
  have c: "[NaN, Fin 0.8] ! 0 = NaN" by simp
  have d: "(0::nat) < 2 \<and> 0 < length [Fin 0, Fin 0] \<and> [NaN, Fin 1] ! 0 = NaN" by simp
  have e: "integrate_act 2 (Fin 0.2) (Fin 1) (Fin 2) (replace_nan 2 [NaN, Fin 1]) [Fin 0, Fin 0]
        = [Fin 0, Fin (- 0.2)]"
    by (simp add: integrate_act_def replace_nan_def for_loop_2 Let_def zero_fl_def)
  have f: "update_modevalDMnow 2 [Fin 1, Fin 1] [Fin 0.2, Fin 0.2] (replicate 40 (Fin 0)) 0
        [NaN, Fin (- 4)] [Fin 0, Fin 0] = [NaN, Fin 0.8]"
    by (simp add: update_modevalDMnow_def for_loop_2)
  from t [where i = 0 and n = 2 and act = "[NaN, Fin 1]", THEN conjunct1, rule_format, OF a]
    t [where m = 0 and n = 2 and dmnow = "[Fin 0, Fin 0]" and meas = "[NaN, Fin (- 4)]"
         and mmult = "[Fin 1, Fin 1]" and mgain = "[Fin 0.2, Fin 0.2]"
         and ring = "replicate 40 (Fin 0)" and il = 0,
       THEN conjunct2, THEN conjunct1, rule_format, OF b]
    t [where m = 0 and filt = "[NaN, Fin 0.8]" and blk = "[0, 1]" and maxl = "[Fin 1, Fin 0.5]"
         and lf = "[0, 0]",
       THEN conjunct2, THEN conjunct2, THEN conjunct1, rule_format, OF c]
    t [where k = 0 and n = 2 and cmd = "[Fin 0, Fin 0]" and meas = "[NaN, Fin 1]"
         and g = "Fin 0.2" and gains = "[Fin 1, Fin 1]" and maxc = "Fin 2"
         and limits = "[Fin 1, Fin 1]" and ml = "Fin 1" and multf = "[Fin 1, Fin 1]",
       THEN conjunct2, THEN conjunct2, THEN conjunct2, rule_format, OF d]
  show ?thesis using e f by simp
qed


section \<open>The gain tuner\<close>

subsection \<open>The sweep of candidate gains\<close>










subsection \<open>The search for the smallest error\<close>



subsection \<open>The loop over the modes\<close>

lemma atg_averages_frame [simp]:
  "array_asq (atg_averages n m l) = array_asq l" "array_sig (atg_averages n m l) = array_sig l"
  "atg_out (atg_averages n m l) = atg_out l" "errarray (atg_averages n m l) = errarray l"
  by (simp_all add: atg_averages_def Let_def)

lemma atg_variances_frame [simp]:
  "atg_out (atg_variances m l) = atg_out l" "errarray (atg_variances m l) = errarray l"
  "length (array_asq (atg_variances m l)) = length (array_asq l)"
  "length (array_sig (atg_variances m l)) = length (array_sig l)"
  "k \<noteq> m \<Longrightarrow> array_asq (atg_variances m l) ! k = array_asq l ! k"
  "k \<noteq> m \<Longrightarrow> array_sig (atg_variances m l) ! k = array_sig l ! k"
  by (simp_all add: atg_variances_def Let_def)

lemma atg_stdev_frame [simp]:
  "array_asq (atg_stdev m l) = array_asq l" "array_sig (atg_stdev m l) = array_sig l"
  "atg_out (atg_stdev m l) = atg_out l" "errarray (atg_stdev m l) = errarray l"
  by (simp_all add: atg_stdev_def Let_def)

lemma atg_errarray_frame [simp]:
  "array_asq (atg_errarray gv1 gv2 N m l) = array_asq l"
  "array_sig (atg_errarray gv1 gv2 N m l) = array_sig l"
  "atg_out (atg_errarray gv1 gv2 N m l) = atg_out l"
  "length (errarray (atg_errarray gv1 gv2 N m l)) = length (errarray l)"
  by (simp_all add: atg_errarray_def)




subsection \<open>The samples\<close>






end
